theory Spec2Isabelle
  imports Complex_Main "HOL-Library.Multiset"
begin

section \<open>JavaScript values used by the aggregators\<close>

subsection \<open>Optional strings and truthiness\<close>

text \<open>
  An optional parameter \<^verbatim>\<open>x?: string\<close> is a \<open>string option\<close>; \<open>None\<close> is
  \<^verbatim>\<open>undefined\<close>. A condition \<^verbatim>\<open>x ? a : b\<close> or \<^verbatim>\<open>!x\<close> tests truthiness: both
  \<^verbatim>\<open>undefined\<close> and the empty string are falsy.
\<close>

fun truthy :: "string option \<Rightarrow> bool" where
  "truthy None = False"
| "truthy (Some s) = (s \<noteq> [])"

text \<open>\<^verbatim>\<open>String.prototype.toLowerCase\<close> on the ASCII letters of a hexadecimal address.\<close>

definition lower_char :: "char \<Rightarrow> char" where
  "lower_char c =
     (case map_of (zip ''ABCDEFGHIJKLMNOPQRSTUVWXYZ'' ''abcdefghijklmnopqrstuvwxyz'') c of
        Some d \<Rightarrow> d
      | None \<Rightarrow> c)"

definition toLowerCase :: "string \<Rightarrow> string" where
  "toLowerCase s = map lower_char s"

subsection \<open>Errors and outbound calls\<close>

text \<open>
  A thrown \<^verbatim>\<open>Error\<close> is a value: its \<^verbatim>\<open>message\<close> and, for the errors of the
  contract library, an optional \<^verbatim>\<open>reason\<close>.
\<close>

datatype js_error = JsError (message: string) (reason: "string option")

datatype provider = Provider string

text \<open>
  The text of an indexer query is a template filled with one address; a query is
  represented by its template and the interpolated strings.
\<close>

datatype query =
    GetAllPoolsQuery
  | GetAllPoolsByCollectionQuery string
  | GetAllPoolsByOwner string
  | UserLoansQuery string string
  | LoansByPoolQuery string
  | LiquidatorPoolsQuery string
  | PoolLiquidatorsQuery string

datatype call =
    GraphRequest string query
  | ContractRead provider string string
  | BalanceRead provider string
  | OracleFetch string bool string

text \<open>
  An asynchronous function is modelled by the outbound calls it issues together with
  its outcome: \<open>Inl\<close> a rejection, \<open>Inr\<close> the resolved value.
\<close>

type_synonym 'a io = "call list \<times> (js_error + 'a)"

definition resolve :: "'a \<Rightarrow> 'a io" where
  "resolve x = ([], Inr x)"

definition reject :: "js_error \<Rightarrow> 'a io" where
  "reject e = ([], Inl e)"

definition bind_io :: "'a io \<Rightarrow> ('a \<Rightarrow> 'b io) \<Rightarrow> 'b io" where
  "bind_io m f =
     (case m of
        (l, Inl e) \<Rightarrow> (l, Inl e)
      | (l, Inr x) \<Rightarrow> (case f x of (l', r) \<Rightarrow> (l @ l', r)))"

text \<open>One outbound call whose answer is \<open>r\<close>.\<close>

definition perform :: "call \<Rightarrow> js_error + 'a \<Rightarrow> 'a io" where
  "perform c r = ([c], r)"

text \<open>
  \<^verbatim>\<open>array.map(f)\<close> with an \<open>f\<close> that may throw: the first throw, in index order,
  ends the map.
\<close>

fun map_result :: "('a \<Rightarrow> js_error + 'b) \<Rightarrow> 'a list \<Rightarrow> js_error + 'b list" where
  "map_result f [] = Inr []"
| "map_result f (x # xs) =
     (case f x of
        Inl e \<Rightarrow> Inl e
      | Inr y \<Rightarrow> (case map_result f xs of Inl e \<Rightarrow> Inl e | Inr ys \<Rightarrow> Inr (y # ys)))"

text \<open>
  \<^verbatim>\<open>Promise.all\<close>: every member has been started and runs to its own end (nothing
  cancels it), so the calls of all members are issued; the outcome is the list of
  values, or a rejection when a member rejects (the first in index order here).
\<close>

fun promise_all :: "'a io list \<Rightarrow> 'a list io" where
  "promise_all [] = ([], Inr [])"
| "promise_all (m # ms) =
     (case m of (l, r) \<Rightarrow>
       (case promise_all ms of (ls, rs) \<Rightarrow>
         (l @ ls,
          case r of
            Inl e \<Rightarrow> Inl e
          | Inr x \<Rightarrow> (case rs of Inl e \<Rightarrow> Inl e | Inr xs \<Rightarrow> Inr (x # xs)))))"

text \<open>
  \<^verbatim>\<open>catch (error) { throw new Error(error.message || (error?.reason ?? fallback)) }\<close>
\<close>

definition rethrow :: "string \<Rightarrow> js_error \<Rightarrow> js_error" where
  "rethrow fallback e =
     JsError (if message e \<noteq> [] then message e
              else (case reason e of Some r \<Rightarrow> r | None \<Rightarrow> fallback)) None"

definition try_catch :: "string \<Rightarrow> 'a io \<Rightarrow> 'a io" where
  "try_catch fallback m =
     (case m of (l, Inl e) \<Rightarrow> (l, Inl (rethrow fallback e)) | (l, Inr x) \<Rightarrow> (l, Inr x))"

subsection \<open>\<^verbatim>\<open>Array.prototype.sort\<close> with a comparator\<close>

text \<open>
  The language requires the sort to be stable when the comparator is consistent, and
  leaves the order to the engine when it is not. The engine is modelled as an insertion
  sort that calls the comparator on a later element and an earlier one, in this order,
  and moves the later element in front of the earlier one exactly when the result is
  negative, as the binary insertion of the common engines does; with a consistent
  comparator this is the stable sort. A comparator may read the clock, so it is given
  the number of the comparison: \<open>cmp k a b\<close> is the value of the \<open>k\<close>-th call, which is
  made on the later element \<open>a\<close> and the earlier element \<open>b\<close>. The functions return the
  number of the next comparison beside the list.
\<close>

fun insert_cmp ::
  "(nat \<Rightarrow> 'a \<Rightarrow> 'a \<Rightarrow> 'n::{linorder,zero}) \<Rightarrow> nat \<Rightarrow> 'a \<Rightarrow> 'a list \<Rightarrow> nat \<times> 'a list" where
  "insert_cmp cmp k x [] = (k, [x])"
| "insert_cmp cmp k x (y # ys) =
     (if cmp k y x < 0
      then (case insert_cmp cmp (Suc k) x ys of (k', zs) \<Rightarrow> (k', y # zs))
      else (Suc k, x # y # ys))"

fun sort_from ::
  "(nat \<Rightarrow> 'a \<Rightarrow> 'a \<Rightarrow> 'n::{linorder,zero}) \<Rightarrow> nat \<Rightarrow> 'a list \<Rightarrow> nat \<times> 'a list" where
  "sort_from cmp k [] = (k, [])"
| "sort_from cmp k (x # xs) =
     (case sort_from cmp k xs of (k', ys) \<Rightarrow> insert_cmp cmp k' x ys)"

definition sort_cmp :: "(nat \<Rightarrow> 'a \<Rightarrow> 'a \<Rightarrow> 'n::{linorder,zero}) \<Rightarrow> 'a list \<Rightarrow> 'a list" where
  "sort_cmp cmp xs = snd (sort_from cmp 0 xs)"

subsection \<open>Numbers\<close>

text \<open>
  A finite JavaScript number is a rational; every arithmetic operation returns the
  double nearest to the exact result, ties going to the even significand (\<open>fl\<close>).
  Values stay far inside the normal range, so overflow and subnormals are left out.
  \<open>bits n\<close> is the length of \<open>n\<close> in binary, \<open>binade x\<close> the exponent \<open>e\<close> with
  \<open>2\<^sup>e \<le> x < 2\<^sup>e\<^sup>+\<^sup>1\<close> for a positive \<open>x\<close>.
\<close>

type_synonym number = rat

fun bits :: "nat \<Rightarrow> nat" where
  "bits n = (if n = 0 then 0 else Suc (bits (n div 2)))"

declare bits.simps [simp del]

definition binade :: "rat \<Rightarrow> int" where
  "binade x =
     (if 1 \<le> x then int (bits (nat \<lfloor>x\<rfloor>)) - 1
      else - int (bits (nat \<lceil>1 / x\<rceil> - 1)))"

definition round_half_even :: "rat \<Rightarrow> int" where
  "round_half_even x =
     (let f = \<lfloor>x\<rfloor>; d = x - of_int f
      in if d < 1 / 2 then f else if 1 / 2 < d then f + 1
         else if even f then f else f + 1)"

definition ulp :: "rat \<Rightarrow> rat" where
  "ulp x = 2 powi (binade x - 52)"

definition fl_pos :: "rat \<Rightarrow> rat" where
  "fl_pos x = of_int (round_half_even (x / ulp x)) * ulp x"

definition fl :: "rat \<Rightarrow> number" where
  "fl x = (if x = 0 then 0 else if 0 < x then fl_pos x else - fl_pos (- x))"

text \<open>
  The indexer returns its big-integer columns as decimal strings; the model carries
  their numeric value, a natural number. \<^verbatim>\<open>Number(s)\<close> of such a string is the
  nearest double.
\<close>

definition Number :: "nat \<Rightarrow> number" where
  "Number n = fl (of_nat n)"

text \<open>
  \<^verbatim>\<open>x.toFixed(0)\<close> read back as a number: the nearest integer, a half going away
  from zero.
\<close>

definition toFixed0 :: "number \<Rightarrow> int" where
  "toFixed0 x = (if 0 \<le> x then \<lfloor>x + 1 / 2\<rfloor> else - \<lfloor>- x + 1 / 2\<rfloor>)"

text \<open>
  \<^verbatim>\<open>Number(s)\<close> of an arbitrary string may also be \<^verbatim>\<open>NaN\<close> or an infinity. The
  subtraction of two such values follows the language; a finite difference beyond the
  largest double, which is an infinity there, stays finite here, with the same sign.
  \<open>ge_js\<close> is the comparison \<^verbatim>\<open>>=\<close>, false as soon as one side is \<^verbatim>\<open>NaN\<close>.
\<close>

datatype jsnum = NaN | NegInfinity | Finite number | PosInfinity

fun minus_js :: "jsnum \<Rightarrow> jsnum \<Rightarrow> jsnum" where
  "minus_js NaN y = NaN"
| "minus_js x NaN = NaN"
| "minus_js (Finite x) (Finite y) = Finite (fl (x - y))"
| "minus_js (Finite x) PosInfinity = NegInfinity"
| "minus_js (Finite x) NegInfinity = PosInfinity"
| "minus_js PosInfinity PosInfinity = NaN"
| "minus_js PosInfinity y = PosInfinity"
| "minus_js NegInfinity NegInfinity = NaN"
| "minus_js NegInfinity y = NegInfinity"

fun ge_js :: "jsnum \<Rightarrow> jsnum \<Rightarrow> bool" where
  "ge_js NaN y = False"
| "ge_js x NaN = False"
| "ge_js (Finite x) (Finite y) = (y \<le> x)"
| "ge_js PosInfinity y = True"
| "ge_js x NegInfinity = True"
| "ge_js x y = False"

text \<open>
  What the sort makes of the value of a comparator: \<^verbatim>\<open>NaN\<close> is read as 0, and of any
  other value only the sign matters.
\<close>

fun sort_reading :: "jsnum \<Rightarrow> number" where
  "sort_reading NaN = 0"
| "sort_reading NegInfinity = - 1"
| "sort_reading (Finite x) = x"
| "sort_reading PosInfinity = 1"

section \<open>Loans as the indexer gives them and as they are returned\<close>

record loan_pool =
  pool_name :: string
  pool_owner :: string
  pool_address :: string

record IGraphLoanResponse =
  g_id :: string
  g_loanId :: string
  g_nftId :: string
  g_interest :: nat
  g_borrowed :: nat
  g_startTime :: nat
  g_deadline :: nat
  g_tokenUri :: string
  g_owner :: string
  g_pool :: loan_pool

text \<open>
  The returned loan. Times are integers of seconds or milliseconds, far below
  \<open>2\<^sup>5\<^sup>3\<close>, where the arithmetic of doubles is exact: they are integers in the model.
\<close>

record ILoan =
  l_id :: string
  l_nftId :: string
  l_interest :: nat
  l_startTime :: nat
  l_borrowed :: nat
  l_toPay :: number
  l_deadline :: int
  l_tokenUri :: string
  l_owner :: string
  l_pool :: loan_pool

section \<open>Collaborators\<close>

record chain_config =
  chainProvider :: "provider option"
  quoteApi :: string
  subgraphUrl :: string
  isTestnet :: bool

text \<open>A row of the indexer's pool list (\<^verbatim>\<open>IPoolsQueryResponse\<close>).\<close>

record pool_row =
  q_name :: string
  q_address :: string
  q_symbol :: string
  q_maxLoanLength :: nat
  q_minimumInterest :: nat
  q_maxVariableInterestPerEthPerSecond :: nat
  q_ltv :: string
  q_nftContract :: string
  q_owner :: string

text \<open>The struct returned by the pool contract's \<^verbatim>\<open>getDailyBorrows()\<close>.\<close>

record daily_borrows =
  d_maxInstantBorrow :: nat
  d_dailyBorrows :: nat
  d_maxDailyBorrowsLimit :: nat

text \<open>
  Everything outside the aggregators, as functions of what they are asked:
  \<^item> the clock \<^verbatim>\<open>Date.now()\<close>, in milliseconds; one reading serves a whole call,
    except in the comparator of the loans, which reads the clock twice in a row:
    \<open>clock_drift k\<close> is the time by which the second reading of the \<open>k\<close>-th comparison
    of a sort is later than the first;
  \<^item> \<^verbatim>\<open>Number(s)\<close> of a string, whose grammar (signs, fractions, exponents, radix
    prefixes, white space, \<^verbatim>\<open>Infinity\<close>) is not spelled out: \<open>toNumber\<close> is any function
    from strings to numbers;
  \<^item> the address library's \<^verbatim>\<open>getAddress\<close>, which throws on a malformed address;
  \<^item> \<^verbatim>\<open>chainConfig\<close> of \<^verbatim>\<open>~/lib/constants\<close>;
  \<^item> the indexer, by endpoint and query, answering with the rows the query asks for;
  \<^item> \<^verbatim>\<open>fetchOracle\<close>, whose quote may lack a price;
  \<^item> the read methods of the NFT contract and of the pool contract, and the balance
    of an address, by provider and address;
  \<^item> the helpers \<^verbatim>\<open>getTotalReceivedArg\<close> and \<^verbatim>\<open>getMaxNftsToBorrow\<close> of \<^verbatim>\<open>~/utils\<close>, which
    are not among the sources (the second returns \<^verbatim>\<open>pricePerNft\<close> and
    \<^verbatim>\<open>maxNftsToBorrow\<close>);
  \<^item> \<open>annualRate x\<close> for the expression
    \<^verbatim>\<open>new BigNumber(Number(x)).div(1e16).times(SECONDS_IN_A_YEAR).toFixed(0, 1)\<close> and
    \<open>sumFixed a b\<close> for \<^verbatim>\<open>(Number(a) + Number(b)).toFixed(0)\<close>: their values rest on the
    decimal printing of doubles and on a constant that is not among the sources, so the
    two expressions stay parameters.
\<close>

record env =
  now :: int
  clock_drift :: "nat \<Rightarrow> int"
  toNumber :: "string \<Rightarrow> jsnum"
  getAddress :: "string \<Rightarrow> js_error + string"
  chainConfig :: "int option \<Rightarrow> chain_config"
  request_loans :: "string \<Rightarrow> query \<Rightarrow> js_error + IGraphLoanResponse list"
  request_liquidator_pools :: "string \<Rightarrow> query \<Rightarrow> js_error + string list"
  request_pools :: "string \<Rightarrow> query \<Rightarrow> js_error + pool_row list"
  request_pool_liquidators :: "string \<Rightarrow> query \<Rightarrow> js_error + string list"
  fetchOracle :: "string \<Rightarrow> bool \<Rightarrow> string \<Rightarrow> js_error + string option"
  read_name :: "provider \<Rightarrow> string \<Rightarrow> js_error + string"
  read_getBalance :: "provider \<Rightarrow> string \<Rightarrow> js_error + nat"
  read_totalBorrowed :: "provider \<Rightarrow> string \<Rightarrow> js_error + nat"
  read_getDailyBorrows :: "provider \<Rightarrow> string \<Rightarrow> js_error + daily_borrows"
  read_currentAnnualInterest :: "provider \<Rightarrow> string \<Rightarrow> string \<Rightarrow> js_error + nat"
  read_oracle :: "provider \<Rightarrow> string \<Rightarrow> js_error + string"
  read_maxPrice :: "provider \<Rightarrow> string \<Rightarrow> js_error + nat"
  read_maxLoanLength :: "provider \<Rightarrow> string \<Rightarrow> js_error + nat"
  read_minimumInterest :: "provider \<Rightarrow> string \<Rightarrow> js_error + nat"
  read_maxVariableInterestPerEthPerSecond :: "provider \<Rightarrow> string \<Rightarrow> js_error + nat"
  getTotalReceivedArg :: "string option \<Rightarrow> nat \<Rightarrow> string \<Rightarrow> string"
  getMaxNftsToBorrow :: "string \<Rightarrow> string option \<Rightarrow> string \<Rightarrow> string \<times> string"
  annualRate :: "nat \<Rightarrow> string"
  sumFixed :: "string \<Rightarrow> string \<Rightarrow> string"

section \<open>Loan aggregator (\<^verbatim>\<open>queries/useLoans.tsx\<close>)\<close>

text \<open>Modelled from the spec: the constant \<^verbatim>\<open>SECONDS_IN_A_DAY\<close> of
  \<^verbatim>\<open>~/lib/constants\<close> is not among the sources; one day is 86400 seconds.\<close>

definition SECONDS_IN_A_DAY :: number where
  "SECONDS_IN_A_DAY = 86400"

definition blockTimestamp :: "int \<Rightarrow> int" where
  "blockTimestamp now_ms = toFixed0 (fl (of_int now_ms / 1000))"

definition accruedInterest :: "int \<Rightarrow> IGraphLoanResponse \<Rightarrow> number" where
  "accruedInterest now_ms loan =
     fl (fl (fl (of_int (blockTimestamp now_ms - int (g_startTime loan)) * Number (g_interest loan))
             * Number (g_borrowed loan))
         / 1000000000000000000)"

definition lateFees :: "int \<Rightarrow> IGraphLoanResponse \<Rightarrow> number" where
  "lateFees now_ms loan =
     (if blockTimestamp now_ms > int (g_deadline loan)
      then fl (fl (of_int (blockTimestamp now_ms - int (g_deadline loan)) * Number (g_borrowed loan))
               / SECONDS_IN_A_DAY)
      else 0)"

definition infoToRepayLoan :: "int \<Rightarrow> IGraphLoanResponse \<Rightarrow> number" where
  "infoToRepayLoan now_ms loan =
     fl (fl (Number (g_borrowed loan) + accruedInterest now_ms loan) + lateFees now_ms loan)"

definition userLoansQuery :: "string option \<Rightarrow> query" where
  "userLoansQuery userAddress =
     (let a = (case userAddress of None \<Rightarrow> ''undefined'' | Some u \<Rightarrow> toLowerCase u)
      in UserLoansQuery a a)"

definition loansByPoolQuery :: "string \<Rightarrow> query" where
  "loansByPoolQuery poolAddress = LoansByPoolQuery (toLowerCase poolAddress)"

text \<open>The body of \<^verbatim>\<open>loans.map\<close> in \<^verbatim>\<open>getLoans\<close>.\<close>

definition toLoan :: "env \<Rightarrow> bool \<Rightarrow> IGraphLoanResponse \<Rightarrow> js_error + ILoan" where
  "toLoan env testnet loan =
     (case getAddress env (pool_address (g_pool loan)) of
        Inl e \<Rightarrow> Inl e
      | Inr a \<Rightarrow>
          Inr \<lparr> l_id = g_id loan,
                l_nftId = g_nftId loan,
                l_interest = g_interest loan,
                l_startTime = g_startTime loan,
                l_borrowed = g_borrowed loan,
                l_toPay = infoToRepayLoan (now env) loan,
                l_deadline = int (g_deadline loan) * 1000,
                l_tokenUri = (if testnet then [] else g_tokenUri loan),
                l_owner = g_owner loan,
                l_pool = (g_pool loan) \<lparr> pool_address := a \<rparr> \<rparr>)"

text \<open>
  The comparator of \<^verbatim>\<open>getLoans\<close>:
  \<^verbatim>\<open>(a, b) => Date.now() - b.deadline - (Date.now() - a.deadline)\<close>, with its two
  readings of the clock, \<open>now1\<close> the first and \<open>now2\<close> the second. In the \<open>k\<close>-th
  comparison of the sort the second reading is \<open>drift k\<close> later than the first; the value
  of the comparator depends on the difference of the two readings alone.
\<close>

definition compareLoans :: "int \<Rightarrow> int \<Rightarrow> ILoan \<Rightarrow> ILoan \<Rightarrow> int" where
  "compareLoans now1 now2 a b = now1 - l_deadline b - (now2 - l_deadline a)"

definition sortLoans :: "int \<Rightarrow> (nat \<Rightarrow> int) \<Rightarrow> ILoan list \<Rightarrow> ILoan list" where
  "sortLoans now_ms drift ls =
     sort_cmp (\<lambda>k a b. compareLoans now_ms (now_ms + drift k) a b) ls"

text \<open>The spec's words for the same order: ascending by deadline, soonest first.\<close>

definition sortByDeadline :: "ILoan list \<Rightarrow> ILoan list" where
  "sortByDeadline ls = sort_key l_deadline ls"

text \<open>
  The spec's words for the interest and the late fees of a returned loan, read off its
  own fields (the deadline of a returned loan is in milliseconds), every operation
  rounded to a double: \<open>(now - startTime) \<times> interestRate \<times> borrowed / 10\<^sup>1\<^sup>8\<close>, and
  \<open>(now - deadline) \<times> borrowed / secondsInADay\<close> when \<open>now > deadline\<close>, else 0.
\<close>

definition loanInterest :: "int \<Rightarrow> ILoan \<Rightarrow> number" where
  "loanInterest now_s l =
     fl (fl (fl (of_int (now_s - int (l_startTime l)) * Number (l_interest l))
             * Number (l_borrowed l))
         / 10 ^ 18)"

definition loanLateFees :: "int \<Rightarrow> ILoan \<Rightarrow> number" where
  "loanLateFees now_s l =
     (if now_s * 1000 > l_deadline l
      then fl (fl (of_int (now_s - l_deadline l div 1000) * Number (l_borrowed l)) / 86400)
      else 0)"

definition getLoans ::
  "env \<Rightarrow> string \<Rightarrow> string option \<Rightarrow> string option \<Rightarrow> bool \<Rightarrow> ILoan list io" where
  "getLoans env endpoint userAddress poolAddress testnet =
     try_catch ''Couldn't get pool data''
       (if (if truthy poolAddress then False else \<not> truthy userAddress) then resolve []
        else if endpoint = [] then reject (JsError ''Error: Invalid arguments'' None)
        else
          let q = (case poolAddress of
                     None \<Rightarrow> userLoansQuery userAddress
                   | Some p \<Rightarrow> if p = [] then userLoansQuery userAddress
                              else loansByPoolQuery p)
          in bind_io (perform (GraphRequest endpoint q) (request_loans env endpoint q))
               (\<lambda>loans.
                  case map_result (toLoan env testnet) loans of
                    Inl e \<Rightarrow> reject e
                  | Inr ls \<Rightarrow> resolve (sortLoans (now env) (clock_drift env) ls)))"

text \<open>
  The fetch function that the hook \<^verbatim>\<open>useGetLoans\<close> hands to the query cache:
  \<^verbatim>\<open>() => getLoans({ endpoint: config.subgraphUrl, userAddress, isTestnet: config.isTestnet })\<close>.
\<close>

definition useGetLoans ::
  "env \<Rightarrow> int option \<Rightarrow> string option \<Rightarrow> string option \<Rightarrow> ILoan list io" where
  "useGetLoans env chainId userAddress poolAddress =
     (let config = chainConfig env chainId
      in getLoans env (subgraphUrl config) userAddress None (isTestnet config))"

definition liquidatable :: "int \<Rightarrow> ILoan \<Rightarrow> bool" where
  "liquidatable now_ms l = (l_deadline l - now_ms \<le> 0)"

definition getLoansToLiquidate ::
  "env \<Rightarrow> string \<Rightarrow> string option \<Rightarrow> bool \<Rightarrow> ILoan list io" where
  "getLoansToLiquidate env endpoint liquidatorAddress testnet =
     try_catch ''Couldn't get pool data''
       (case liquidatorAddress of
          None \<Rightarrow> resolve []
        | Some a \<Rightarrow>
            if a = [] then resolve []
            else if endpoint = [] then reject (JsError ''Error: Invalid arguments'' None)
            else
              let q = LiquidatorPoolsQuery (toLowerCase a)
              in bind_io (perform (GraphRequest endpoint q) (request_liquidator_pools env endpoint q))
                   (\<lambda>pools.
                      bind_io
                        (promise_all
                           (map (\<lambda>poolAddress. getLoans env endpoint None (Some poolAddress) testnet)
                              pools))
                        (\<lambda>loans. resolve (filter (liquidatable (now env)) (concat loans)))))"

definition useGetLoansToLiquidate ::
  "env \<Rightarrow> int option \<Rightarrow> string option \<Rightarrow> ILoan list io" where
  "useGetLoansToLiquidate env chainId liquidatorAddress =
     (let config = chainConfig env chainId
      in getLoansToLiquidate env (subgraphUrl config) liquidatorAddress (isTestnet config))"

section \<open>Pool aggregator\<close>

subsection \<open>Decimal strings and big numbers\<close>

text \<open>
  \<open>dec n\<close> is what \<^verbatim>\<open>toString()\<close> of the contract library's big integers prints;
  \<open>parse_dec\<close> is the value that \<^verbatim>\<open>new BigNumber(s)\<close> gives a string of digits.
\<close>

definition digit_char :: "nat \<Rightarrow> char" where
  "digit_char d = ''0123456789'' ! d"

fun dec :: "nat \<Rightarrow> string" where
  "dec n = (if n < 10 then [digit_char n] else dec (n div 10) @ [digit_char (n mod 10)])"

declare dec.simps [simp del]

definition digit_val :: "char \<Rightarrow> nat" where
  "digit_val c =
     (case map_of
        [(CHR ''0'', 0), (CHR ''1'', 1), (CHR ''2'', 2), (CHR ''3'', 3), (CHR ''4'', 4),
         (CHR ''5'', 5), (CHR ''6'', 6), (CHR ''7'', 7), (CHR ''8'', 8), (CHR ''9'', 9)] c of
        Some d \<Rightarrow> d
      | None \<Rightarrow> 0)"

definition is_digit :: "char \<Rightarrow> bool" where
  "is_digit c = (c \<in> set ''0123456789'')"

definition parse_dec :: "string \<Rightarrow> nat" where
  "parse_dec s = foldl (\<lambda>acc c. 10 * acc + digit_val c) 0 s"

text \<open>
  \<^verbatim>\<open>new BigNumber(a).plus(b).toFixed(0, 1)\<close> on two strings of digits: the exact sum,
  printed without exponent or fraction (rounding mode 1 rounds towards zero; a sum of
  integers has nothing to round).
\<close>

definition plus_toFixed0 :: "string \<Rightarrow> string \<Rightarrow> string" where
  "plus_toFixed0 a b = dec (parse_dec a + parse_dec b)"

subsection \<open>Records\<close>

text \<open>What \<^verbatim>\<open>getPoolAddlInfo\<close> returns.\<close>

record addl_info =
  i_collectionName :: string
  i_poolBalance :: string
  i_totalBorrowed :: string
  i_totalDeposited :: string
  i_pricePerNft :: string
  i_maxNftsToBorrow :: string
  i_currentAnnualInterest :: nat
  i_oracle :: string
  i_oraclePrice :: "string option"

text \<open>What \<^verbatim>\<open>getAdminPoolInfo\<close> returns.\<close>

record admin_info =
  a_key :: string
  a_maxPrice :: number
  a_maxInstantBorrow :: number
  a_dailyBorrows :: number
  a_maxDailyBorrows :: number
  a_maxLoanLength :: number
  a_oracle :: string
  a_minimumInterest :: string
  a_maximumInterest :: string
  a_liquidators :: "string list"

text \<open>
  A pool as \<^verbatim>\<open>getAllpools\<close> returns it. The sum of the two interest columns is a big
  number, carried as its value; \<open>None\<close> for the admin info is the empty object.
\<close>

record IBorrowPool =
  p_name :: string
  p_symbol :: string
  p_address :: string
  p_owner :: string
  p_nftContract :: string
  p_maxLoanLength :: number
  p_ltv :: string
  p_collectionName :: string
  p_poolBalance :: string
  p_totalBorrowed :: string
  p_totalDeposited :: string
  p_maxVariableInterestPerEthPerSecond :: nat
  p_currentAnnualInterest :: string
  p_pricePerNft :: string
  p_maxNftsToBorrow :: string
  p_oracle :: string
  p_oraclePrice :: string
  p_adminPoolInfo :: "admin_info option"

subsection \<open>Live enrichment\<close>

text \<open>\<^verbatim>\<open>Promise.all\<close> of two members of different types.\<close>

definition both :: "'a io \<Rightarrow> 'b io \<Rightarrow> ('a \<times> 'b) io" where
  "both m1 m2 =
     (case m1 of (l1, r1) \<Rightarrow>
       (case m2 of (l2, r2) \<Rightarrow>
         (l1 @ l2,
          case r1 of
            Inl e \<Rightarrow> Inl e
          | Inr x \<Rightarrow> (case r2 of Inl e \<Rightarrow> Inl e | Inr y \<Rightarrow> Inr (x, y)))))"

definition getPoolAddlInfo ::
  "env \<Rightarrow> string \<Rightarrow> provider \<Rightarrow> string \<Rightarrow> string \<Rightarrow> string \<Rightarrow> bool \<Rightarrow> bool \<Rightarrow> addl_info io" where
  "getPoolAddlInfo env poolAddress prov nftContractAddress api ltv testnet skipOracle =
     try_catch ''Couldn't get total amount deposited in pool.''
       (bind_io
          (if skipOracle then resolve None
           else perform (OracleFetch api testnet nftContractAddress)
                  (fetchOracle env api testnet nftContractAddress))
          (\<lambda>price.
             bind_io
               (both (perform (ContractRead prov nftContractAddress ''name'')
                        (read_name env prov nftContractAddress))
               (both (perform (BalanceRead prov poolAddress) (read_getBalance env prov poolAddress))
               (both (perform (ContractRead prov poolAddress ''totalBorrowed'')
                        (read_totalBorrowed env prov poolAddress))
               (both (perform (ContractRead prov poolAddress ''getDailyBorrows'')
                        (read_getDailyBorrows env prov poolAddress))
               (both (perform (ContractRead prov poolAddress ''currentAnnualInterest'')
                        (read_currentAnnualInterest env prov poolAddress
                           (getTotalReceivedArg env price 1 ltv)))
                     (perform (ContractRead prov poolAddress ''oracle'')
                        (read_oracle env prov poolAddress)))))))
               (\<lambda>(collectionName, poolBalance, totalBorrowed, daily, currentAnnualInterest, oracle).
                  let priceAndCurrentBorrowables =
                        getMaxNftsToBorrow env (dec (d_maxInstantBorrow daily)) price ltv
                  in resolve
                       \<lparr> i_collectionName = collectionName,
                         i_poolBalance = dec poolBalance,
                         i_totalBorrowed = dec totalBorrowed,
                         i_totalDeposited = plus_toFixed0 (dec poolBalance) (dec totalBorrowed),
                         i_pricePerNft = fst priceAndCurrentBorrowables,
                         i_maxNftsToBorrow = snd priceAndCurrentBorrowables,
                         i_currentAnnualInterest = currentAnnualInterest,
                         i_oracle = oracle,
                         i_oraclePrice = price \<rparr>)))"

subsection \<open>Admin enrichment\<close>

text \<open>
  The values \<^verbatim>\<open>getAdminPoolInfo\<close> builds its result from: its two address arguments,
  the contract reads, and the liquidators' addresses after \<^verbatim>\<open>getAddress\<close>.
\<close>

record admin_reads =
  r_nftContractAddress :: string
  r_poolAddress :: string
  r_maxPrice :: nat
  r_daily :: daily_borrows
  r_maxLoanLength :: nat
  r_oracle :: string
  r_minimumInterest :: nat
  r_maxVariableInterestPerEthPerSecond :: nat
  r_liqAddresses :: "string list"

text \<open>
  The parts of \<^verbatim>\<open>key\<close>, in the order of the source: a big integer joins the string
  as its decimal digits, \<^verbatim>\<open>maxLoanLength\<close> stands twice, and the oracle is not a part.
\<close>

definition keyParts :: "env \<Rightarrow> admin_reads \<Rightarrow> string list" where
  "keyParts env r =
     [r_nftContractAddress r,
      r_poolAddress r,
      dec (r_maxPrice r),
      dec (d_maxInstantBorrow (r_daily r)),
      dec (d_dailyBorrows (r_daily r)),
      dec (d_maxDailyBorrowsLimit (r_daily r)),
      dec (r_maxLoanLength r),
      dec (r_maxLoanLength r),
      annualRate env (r_minimumInterest r),
      annualRate env (r_maxVariableInterestPerEthPerSecond r)]
     @ r_liqAddresses r"

definition adminPoolInfo :: "env \<Rightarrow> admin_reads \<Rightarrow> admin_info" where
  "adminPoolInfo env r =
     (let minInt = annualRate env (r_minimumInterest r);
          maxVariableInt = annualRate env (r_maxVariableInterestPerEthPerSecond r)
      in \<lparr> a_key = concat (keyParts env r),
           a_maxPrice = Number (r_maxPrice r),
           a_maxInstantBorrow = Number (d_maxInstantBorrow (r_daily r)),
           a_dailyBorrows = Number (d_dailyBorrows (r_daily r)),
           a_maxDailyBorrows = Number (d_maxDailyBorrowsLimit (r_daily r)),
           a_maxLoanLength = Number (r_maxLoanLength r),
           a_oracle = r_oracle r,
           a_minimumInterest = minInt,
           a_maximumInterest = sumFixed env maxVariableInt minInt,
           a_liquidators = r_liqAddresses r \<rparr>)"

definition getAdminPoolInfo :: "env \<Rightarrow> string \<Rightarrow> provider \<Rightarrow> string \<Rightarrow> string \<Rightarrow> admin_info io" where
  "getAdminPoolInfo env poolAddress prov nftContractAddress graphEndpoint =
     try_catch ''Couldn't get pool data''
       (let q = PoolLiquidatorsQuery (toLowerCase poolAddress)
        in bind_io
             (both (perform (ContractRead prov poolAddress ''maxPrice'')
                      (read_maxPrice env prov poolAddress))
             (both (perform (ContractRead prov poolAddress ''getDailyBorrows'')
                      (read_getDailyBorrows env prov poolAddress))
             (both (perform (ContractRead prov poolAddress ''maxLoanLength'')
                      (read_maxLoanLength env prov poolAddress))
             (both (perform (ContractRead prov poolAddress ''oracle'')
                      (read_oracle env prov poolAddress))
             (both (perform (ContractRead prov poolAddress ''minimumInterest'')
                      (read_minimumInterest env prov poolAddress))
             (both (perform (ContractRead prov poolAddress ''maxVariableInterestPerEthPerSecond'')
                      (read_maxVariableInterestPerEthPerSecond env prov poolAddress))
                   (perform (GraphRequest graphEndpoint q)
                      (request_pool_liquidators env graphEndpoint q))))))))
             (\<lambda>(maxPrice, daily, maxLoanLength, oracle, minimumInterest,
                 maxVariableInterestPerEthPerSecond, liquidators).
                case map_result (getAddress env) liquidators of
                  Inl e \<Rightarrow> reject e
                | Inr liqAddresses \<Rightarrow>
                    resolve
                      (adminPoolInfo env
                         \<lparr> r_nftContractAddress = nftContractAddress,
                           r_poolAddress = poolAddress,
                           r_maxPrice = maxPrice,
                           r_daily = daily,
                           r_maxLoanLength = maxLoanLength,
                           r_oracle = oracle,
                           r_minimumInterest = minimumInterest,
                           r_maxVariableInterestPerEthPerSecond = maxVariableInterestPerEthPerSecond,
                           r_liqAddresses = liqAddresses \<rparr>)))"

subsection \<open>The pool list\<close>

definition getAllPoolsQuery :: query where
  "getAllPoolsQuery = GetAllPoolsQuery"

definition getAllPoolsByCollectionQuery :: "string \<Rightarrow> query" where
  "getAllPoolsByCollectionQuery collectionAddress =
     GetAllPoolsByCollectionQuery (toLowerCase collectionAddress)"

definition getAllPoolsByOwner :: "string \<Rightarrow> query" where
  "getAllPoolsByOwner ownerAddress = GetAllPoolsByOwner (toLowerCase ownerAddress)"

text \<open>
  The query argument of the request in \<^verbatim>\<open>getAllpools\<close>:
  \<^verbatim>\<open>ownerAddress ? getAllPoolsByOwner(ownerAddress) : collectionAddress ?
  getAllPoolsByCollectionQuery(collectionAddress) : getAllPoolsQuery()\<close>.
\<close>

definition poolsQuery :: "string option \<Rightarrow> string option \<Rightarrow> query" where
  "poolsQuery ownerAddress collectionAddress =
     (let otherwise =
            (case collectionAddress of
               None \<Rightarrow> getAllPoolsQuery
             | Some c \<Rightarrow> if c = [] then getAllPoolsQuery else getAllPoolsByCollectionQuery c)
      in case ownerAddress of
           None \<Rightarrow> otherwise
         | Some ow \<Rightarrow> if ow = [] then otherwise else getAllPoolsByOwner ow)"

text \<open>\<^verbatim>\<open>xs?.[index]\<close>: the element, or \<^verbatim>\<open>undefined\<close> past the end.\<close>

definition at_index :: "'a list \<Rightarrow> nat \<Rightarrow> 'a option" where
  "at_index xs i = (if i < length xs then Some (xs ! i) else None)"

text \<open>The body of \<^verbatim>\<open>pools.map((pool, index) => ...)\<close>.\<close>

definition toPool ::
  "env \<Rightarrow> addl_info list \<Rightarrow> admin_info list \<Rightarrow> nat \<times> pool_row \<Rightarrow> js_error + IBorrowPool" where
  "toPool env poolAddlInfo adminPoolInfos ip =
     (case ip of (index, pool) \<Rightarrow>
       (case getAddress env (q_address pool) of
          Inl e \<Rightarrow> Inl e
        | Inr address \<Rightarrow>
       (case getAddress env (q_owner pool) of
          Inl e \<Rightarrow> Inl e
        | Inr owner \<Rightarrow>
       (case getAddress env (q_nftContract pool) of
          Inl e \<Rightarrow> Inl e
        | Inr nftContract \<Rightarrow>
            let info = at_index poolAddlInfo index
            in Inr
                 \<lparr> p_name = q_name pool,
                   p_symbol = q_symbol pool,
                   p_address = address,
                   p_owner = owner,
                   p_nftContract = nftContract,
                   p_maxLoanLength = Number (q_maxLoanLength pool),
                   p_ltv = q_ltv pool,
                   p_collectionName = (case info of None \<Rightarrow> [] | Some i \<Rightarrow> i_collectionName i),
                   p_poolBalance = (case info of None \<Rightarrow> ''0'' | Some i \<Rightarrow> i_poolBalance i),
                   p_totalBorrowed = (case info of None \<Rightarrow> ''0'' | Some i \<Rightarrow> i_totalBorrowed i),
                   p_totalDeposited = (case info of None \<Rightarrow> ''0'' | Some i \<Rightarrow> i_totalDeposited i),
                   p_maxVariableInterestPerEthPerSecond =
                     q_maxVariableInterestPerEthPerSecond pool + q_minimumInterest pool,
                   p_currentAnnualInterest =
                     (case info of None \<Rightarrow> ''0'' | Some i \<Rightarrow> dec (i_currentAnnualInterest i)),
                   p_pricePerNft = (case info of None \<Rightarrow> ''0'' | Some i \<Rightarrow> i_pricePerNft i),
                   p_maxNftsToBorrow = (case info of None \<Rightarrow> ''0'' | Some i \<Rightarrow> i_maxNftsToBorrow i),
                   p_oracle = (case info of None \<Rightarrow> [] | Some i \<Rightarrow> i_oracle i),
                   p_oraclePrice =
                     (case info of
                        None \<Rightarrow> []
                      | Some i \<Rightarrow> (case i_oraclePrice i of None \<Rightarrow> [] | Some pr \<Rightarrow> pr)),
                   p_adminPoolInfo = at_index adminPoolInfos index \<rparr>))))"

text \<open>
  The comparator of \<^verbatim>\<open>getAllpools\<close>:
  \<^verbatim>\<open>(a, b) => Number(b.maxNftsToBorrow) - Number(a.maxNftsToBorrow)\<close>.
\<close>

definition comparePools :: "env \<Rightarrow> IBorrowPool \<Rightarrow> IBorrowPool \<Rightarrow> jsnum" where
  "comparePools env a b =
     minus_js (toNumber env (p_maxNftsToBorrow b)) (toNumber env (p_maxNftsToBorrow a))"

definition sortPools :: "env \<Rightarrow> IBorrowPool list \<Rightarrow> IBorrowPool list" where
  "sortPools env ps = sort_cmp (\<lambda>k a b. sort_reading (comparePools env a b)) ps"

definition getAllpools ::
  "env \<Rightarrow> int option \<Rightarrow> string option \<Rightarrow> string option \<Rightarrow> bool \<Rightarrow> IBorrowPool list io" where
  "getAllpools env chainId collectionAddress ownerAddress skipOracle =
     try_catch ''Couldn't get pools''
       (if chainId = None \<or> chainId = Some 0 then resolve []
        else
          let config = chainConfig env chainId
          in case chainProvider config of
               None \<Rightarrow> reject (JsError ''Invalid arguments'' None)
             | Some prov \<Rightarrow>
                 if quoteApi config = [] \<or> subgraphUrl config = []
                 then reject (JsError ''Invalid arguments'' None)
                 else
                   let endpoint = subgraphUrl config;
                       q = poolsQuery ownerAddress collectionAddress
                   in bind_io (perform (GraphRequest endpoint q) (request_pools env endpoint q))
                        (\<lambda>pools.
                   bind_io
                     (promise_all
                        (map (\<lambda>pool. getPoolAddlInfo env (q_address pool) prov (q_nftContract pool)
                                 (quoteApi config) (q_ltv pool) (isTestnet config) skipOracle)
                           pools))
                        (\<lambda>poolAddlInfo.
                   bind_io
                     (promise_all
                        (map (\<lambda>pool. getAdminPoolInfo env (q_address pool) prov (q_nftContract pool)
                                 endpoint)
                           pools))
                        (\<lambda>adminPoolInfos.
                      case map_result (toPool env poolAddlInfo adminPoolInfos)
                             (zip [0..<length pools] pools) of
                        Inl e \<Rightarrow> reject e
                      | Inr ps \<Rightarrow> resolve (sortPools env ps)))))"

text \<open>
  The requests for the pool list among the outbound calls, and the condition under which
  \<^verbatim>\<open>getAllpools\<close> gets past its two checks (a chain id that is neither absent nor 0, a
  complete chain configuration).
\<close>

fun is_pools_request :: "call \<Rightarrow> bool" where
  "is_pools_request (GraphRequest e GetAllPoolsQuery) = True"
| "is_pools_request (GraphRequest e (GetAllPoolsByCollectionQuery c)) = True"
| "is_pools_request (GraphRequest e (GetAllPoolsByOwner ow)) = True"
| "is_pools_request c = False"

definition reaches_indexer :: "env \<Rightarrow> int option \<Rightarrow> bool" where
  "reaches_indexer env chainId =
     (chainId \<noteq> None \<and> chainId \<noteq> Some 0 \<and>
      chainProvider (chainConfig env chainId) \<noteq> None \<and>
      quoteApi (chainConfig env chainId) \<noteq> [] \<and>
      subgraphUrl (chainConfig env chainId) \<noteq> [])"

text \<open>
  The three amounts of a live enrichment: two numbers as they are printed in decimal, and
  their big-number sum.
\<close>

definition addl_sum :: "addl_info \<Rightarrow> bool" where
  "addl_sum a =
     (i_poolBalance a = dec (parse_dec (i_poolBalance a)) \<and>
      i_totalBorrowed a = dec (parse_dec (i_totalBorrowed a)) \<and>
      i_totalDeposited a = plus_toFixed0 (i_poolBalance a) (i_totalBorrowed a))"

text \<open>The numeric value of \<^verbatim>\<open>maxNftsToBorrow\<close>, which the comparator of the pools reads.\<close>

definition maxNftsValue :: "env \<Rightarrow> IBorrowPool \<Rightarrow> jsnum" where
  "maxNftsValue env p = toNumber env (p_maxNftsToBorrow p)"

section \<open>Example values\<close>

text \<open>
  A stand-in for \<^verbatim>\<open>Number(s)\<close> in the examples: it is right on the strings of decimal
  digits and on \<^verbatim>\<open>'NaN'\<close>, and no other string occurs in them.
\<close>

definition digits_toNumber :: "string \<Rightarrow> jsnum" where
  "digits_toNumber s = (if list_all is_digit s then Finite (fl (of_nat (parse_dec s))) else NaN)"

text \<open>
  Two loans of one pool, one past its deadline and one not, and an environment whose
  indexer returns them; the address library is the identity here, and the clock does
  not advance between the two readings of a comparison.
\<close>

definition example_late :: IGraphLoanResponse where
  "example_late =
     \<lparr> g_id = ''late'', g_loanId = ''1'', g_nftId = ''7'', g_interest = 0, g_borrowed = 5,
       g_startTime = 1000, g_deadline = 2000, g_tokenUri = ''uri'', g_owner = ''0xab'',
       g_pool = \<lparr> pool_name = ''p'', pool_owner = ''0xcd'', pool_address = ''0xef'' \<rparr> \<rparr>"

definition example_due :: IGraphLoanResponse where
  "example_due = example_late \<lparr> g_id := ''due'', g_deadline := 4000 \<rparr>"

definition example_env :: env where
  "example_env =
     \<lparr> now = 3000000,
       clock_drift = (\<lambda>k. 0),
       toNumber = digits_toNumber,
       getAddress = (\<lambda>a. Inr a),
       chainConfig = (\<lambda>c. \<lparr> chainProvider = Some (Provider ''rpc''), quoteApi = ''quote'',
                             subgraphUrl = ''graph'', isTestnet = False \<rparr>),
       request_loans = (\<lambda>e q. Inr [example_due, example_late]),
       request_liquidator_pools = (\<lambda>e q. Inr [''0xEF'']),
       request_pools = (\<lambda>e q. Inr []),
       request_pool_liquidators = (\<lambda>e q. Inr []),
       fetchOracle = (\<lambda>a t n. Inr None),
       read_name = (\<lambda>p a. Inr ''nft''),
       read_getBalance = (\<lambda>p a. Inr 0),
       read_totalBorrowed = (\<lambda>p a. Inr 0),
       read_getDailyBorrows = (\<lambda>p a. Inr \<lparr> d_maxInstantBorrow = 0, d_dailyBorrows = 0,
                                            d_maxDailyBorrowsLimit = 0 \<rparr>),
       read_currentAnnualInterest = (\<lambda>p a x. Inr 0),
       read_oracle = (\<lambda>p a. Inr ''0x00''),
       read_maxPrice = (\<lambda>p a. Inr 0),
       read_maxLoanLength = (\<lambda>p a. Inr 0),
       read_minimumInterest = (\<lambda>p a. Inr 0),
       read_maxVariableInterestPerEthPerSecond = (\<lambda>p a. Inr 0),
       getTotalReceivedArg = (\<lambda>pr n l. ''0''),
       getMaxNftsToBorrow = (\<lambda>m pr l. (''0'', ''0'')),
       annualRate = (\<lambda>x. ''0''),
       sumFixed = (\<lambda>a b. ''0'') \<rparr>"

definition example_liquidatable :: ILoan where
  "example_liquidatable =
     \<lparr> l_id = ''late'', l_nftId = ''7'', l_interest = 0, l_startTime = 1000, l_borrowed = 5,
       l_toPay = infoToRepayLoan 3000000 example_late, l_deadline = 2000000,
       l_tokenUri = ''uri'', l_owner = ''0xab'',
       l_pool = \<lparr> pool_name = ''p'', pool_owner = ''0xcd'', pool_address = ''0xef'' \<rparr> \<rparr>"

text \<open>The other loan of that pool, as it is returned.\<close>

definition example_not_due :: ILoan where
  "example_not_due =
     example_liquidatable
       \<lparr> l_id := ''due'', l_toPay := infoToRepayLoan 3000000 example_due, l_deadline := 4000000 \<rparr>"

text \<open>
  A loan of 8847148290589771 of the smallest unit (about 0.0088 of the native asset)
  without interest, and an environment whose indexer returns it exactly one day after
  its deadline.
\<close>

definition example_wei_loan :: IGraphLoanResponse where
  "example_wei_loan =
     \<lparr> g_id = ''0x1'', g_loanId = ''1'', g_nftId = ''7'', g_interest = 0,
       g_borrowed = 8847148290589771,
       g_startTime = 1699000000, g_deadline = 1700000000, g_tokenUri = ''uri'',
       g_owner = ''0xab'',
       g_pool = \<lparr> pool_name = ''p'', pool_owner = ''0xcd'', pool_address = ''0xef'' \<rparr> \<rparr>"

definition example_wei_env :: env where
  "example_wei_env =
     example_env \<lparr> now := 1700086400000, request_loans := (\<lambda>e q. Inr [example_wei_loan]) \<rparr>"

text \<open>That loan as it is returned.\<close>

definition example_wei_returned :: ILoan where
  "example_wei_returned =
     \<lparr> l_id = ''0x1'', l_nftId = ''7'', l_interest = 0, l_startTime = 1699000000,
       l_borrowed = 8847148290589771, l_toPay = 17694296581179540,
       l_deadline = 1700000000000, l_tokenUri = ''uri'', l_owner = ''0xab'',
       l_pool = \<lparr> pool_name = ''p'', pool_owner = ''0xcd'', pool_address = ''0xef'' \<rparr> \<rparr>"

text \<open>
  Two loans of 262144 at the rate 3814697265625 per second and unit, taken at the time
  1000 for one day; the clock stands at 173800 seconds, one day after the deadline of
  the first. The second has its deadline at that very time.
\<close>

definition example_accruing :: IGraphLoanResponse where
  "example_accruing =
     \<lparr> g_id = ''accruing'', g_loanId = ''2'', g_nftId = ''8'', g_interest = 3814697265625,
       g_borrowed = 262144, g_startTime = 1000, g_deadline = 87400, g_tokenUri = ''uri'',
       g_owner = ''0xab'',
       g_pool = \<lparr> pool_name = ''p'', pool_owner = ''0xcd'', pool_address = ''0xef'' \<rparr> \<rparr>"

definition example_accruing_env :: env where
  "example_accruing_env =
     example_env
       \<lparr> now := 173800000,
         request_loans :=
           (\<lambda>e q. Inr [example_accruing\<lparr>g_id := ''at deadline'', g_deadline := 173800\<rparr>,
                       example_accruing]) \<rparr>"

text \<open>The two loans as they are returned, the amount to repay included.\<close>

definition example_accrued :: ILoan where
  "example_accrued =
     \<lparr> l_id = ''accruing'', l_nftId = ''8'', l_interest = 3814697265625, l_startTime = 1000,
       l_borrowed = 262144, l_toPay = 697088, l_deadline = 87400000, l_tokenUri = ''uri'',
       l_owner = ''0xab'',
       l_pool = \<lparr> pool_name = ''p'', pool_owner = ''0xcd'', pool_address = ''0xef'' \<rparr> \<rparr>"

definition example_at_deadline :: ILoan where
  "example_at_deadline =
     example_accrued \<lparr> l_id := ''at deadline'', l_toPay := 434944, l_deadline := 173800000 \<rparr>"

text \<open>
  Two loans with one deadline, in the order \<open>x\<close>, \<open>y\<close> of the indexer, and a clock that
  advances by a millisecond between the two readings of every comparison.
\<close>

definition example_tie_env :: env where
  "example_tie_env =
     example_env
       \<lparr> clock_drift := (\<lambda>k. 1),
         request_loans := (\<lambda>e q. Inr [example_late\<lparr>g_id := ''x''\<rparr>, example_late\<lparr>g_id := ''y''\<rparr>]) \<rparr>"

text \<open>One pool with a balance of 7 and 5 borrowed, and what \<^verbatim>\<open>getAllpools\<close> returns for it.\<close>

definition example_row :: pool_row where
  "example_row =
     \<lparr> q_name = ''Pool'', q_address = ''0xAA'', q_symbol = ''PL'', q_maxLoanLength = 1209600,
       q_minimumInterest = 3, q_maxVariableInterestPerEthPerSecond = 4, q_ltv = ''33'',
       q_nftContract = ''0xBB'', q_owner = ''0xCC'' \<rparr>"

definition example_pool_env :: env where
  "example_pool_env =
     example_env \<lparr> request_pools := (\<lambda>e q. Inr [example_row]),
                   read_getBalance := (\<lambda>p a. Inr 7),
                   read_totalBorrowed := (\<lambda>p a. Inr 5) \<rparr>"

definition example_pool :: IBorrowPool where
  "example_pool =
     \<lparr> p_name = ''Pool'', p_symbol = ''PL'', p_address = ''0xAA'', p_owner = ''0xCC'',
       p_nftContract = ''0xBB'', p_maxLoanLength = Number 1209600, p_ltv = ''33'',
       p_collectionName = ''nft'', p_poolBalance = ''7'', p_totalBorrowed = ''5'',
       p_totalDeposited = ''12'', p_maxVariableInterestPerEthPerSecond = 7,
       p_currentAnnualInterest = ''0'', p_pricePerNft = ''0'', p_maxNftsToBorrow = ''0'',
       p_oracle = ''0x00'', p_oraclePrice = [],
       p_adminPoolInfo =
         Some \<lparr> a_key = ''0xBB0xAA00000000'', a_maxPrice = Number 0, a_maxInstantBorrow = Number 0,
                a_dailyBorrows = Number 0, a_maxDailyBorrows = Number 0,
                a_maxLoanLength = Number 0, a_oracle = ''0x00'', a_minimumInterest = ''0'',
                a_maximumInterest = ''0'', a_liquidators = [] \<rparr> \<rparr>"

text \<open>
  Three pools of three collections, in the order of the indexer, whose contracts allow
  \<open>m1\<close>, \<open>m2\<close> and \<open>m3\<close> to be borrowed at once. The price of a collection is 1, except
  for the collection \<open>missing\<close>, whose quote has no price. The stand-in for
  \<^verbatim>\<open>getMaxNftsToBorrow\<close> divides the amount by the price: it returns the amount, or
  \<^verbatim>\<open>'NaN'\<close> when there is no price.
\<close>

definition example_rows :: "pool_row list" where
  "example_rows =
     [example_row\<lparr>q_address := ''0xA1'', q_nftContract := ''0xB1''\<rparr>,
      example_row\<lparr>q_address := ''0xA2'', q_nftContract := ''0xB2''\<rparr>,
      example_row\<lparr>q_address := ''0xA3'', q_nftContract := ''0xB3''\<rparr>]"

definition example_borrow_env :: "nat \<Rightarrow> nat \<Rightarrow> nat \<Rightarrow> string \<Rightarrow> env" where
  "example_borrow_env m1 m2 m3 missing =
     example_pool_env
       \<lparr> request_pools := (\<lambda>e q. Inr example_rows),
         fetchOracle := (\<lambda>api t n. if n = missing then Inr None else Inr (Some ''1'')),
         read_getDailyBorrows :=
           (\<lambda>p a. Inr \<lparr> d_maxInstantBorrow =
                           (if a = ''0xA1'' then m1 else if a = ''0xA2'' then m2 else m3),
                         d_dailyBorrows = 0, d_maxDailyBorrowsLimit = 0 \<rparr>),
         getMaxNftsToBorrow := (\<lambda>m pr l. (''0'', case pr of None \<Rightarrow> ''NaN'' | Some x \<Rightarrow> m)) \<rparr>"

text \<open>
  The reads of one admin enrichment, an environment whose pool contract answers
  \<^verbatim>\<open>maxPrice()\<close> and \<^verbatim>\<open>getDailyBorrows()\<close> as given, and one whose address library
  turns one lower-case address into its checksummed form.
\<close>

definition example_reads :: admin_reads where
  "example_reads =
     \<lparr> r_nftContractAddress = ''0xBB'', r_poolAddress = ''0xAA'', r_maxPrice = 1,
       r_daily = \<lparr> d_maxInstantBorrow = 23, d_dailyBorrows = 0, d_maxDailyBorrowsLimit = 0 \<rparr>,
       r_maxLoanLength = 0, r_oracle = ''0x00'', r_minimumInterest = 0,
       r_maxVariableInterestPerEthPerSecond = 0, r_liqAddresses = [] \<rparr>"

definition example_key_env :: "nat \<Rightarrow> nat \<Rightarrow> env" where
  "example_key_env maxPrice maxInstantBorrow =
     example_env
       \<lparr> read_maxPrice := (\<lambda>p a. Inr maxPrice),
         read_getDailyBorrows :=
           (\<lambda>p a. Inr \<lparr> d_maxInstantBorrow = maxInstantBorrow, d_dailyBorrows = 0,
                         d_maxDailyBorrowsLimit = 0 \<rparr>) \<rparr>"

definition example_checksum_env :: env where
  "example_checksum_env =
     example_env
       \<lparr> getAddress :=
           (\<lambda>a. if a = ''0xab5801a7d398351b8be11c439e05c5b3259aec9b''
                then Inr ''0xAb5801a7D398351b8bE11C439e05C5B3259aeC9B'' else Inr a),
         request_loans :=
           (\<lambda>e q. Inr [example_late\<lparr>g_owner := ''0xab5801a7d398351b8be11c439e05c5b3259aec9b''\<rparr>]) \<rparr>"

section \<open>Properties of the rounding to doubles\<close>

text \<open>
  The exponent found by \<open>binade\<close> is the right one, so \<open>fl\<close> keeps a value whose
  significand fits in 53 bits, rounds an already rounded value to itself, keeps the sign,
  and is off by at most the fraction \<open>2\<^sup>-\<^sup>5\<^sup>3\<close> of a positive argument. The last lemmas
  evaluate \<open>fl\<close> at a numeral.
\<close>

lemma bits_bounds: "0 < n \<Longrightarrow> 2 ^ (bits n - 1) \<le> n \<and> n < 2 ^ bits n"
proof (induction n rule: bits.induct)
  case (1 n)
  show ?case
  proof (cases "n div 2 = 0")
    case True
    with "1.prems" have "n = 1" by (simp add: div_eq_0_iff) 
    then show ?thesis by (simp add: bits.simps)
  next
    case False
    then have pos: "0 < n div 2" by simp
    from "1.prems" have n0: "n \<noteq> 0" by simp
    from "1.IH" [OF n0 pos]
    have lo: "2 ^ (bits (n div 2) - 1) \<le> n div 2" and hi: "n div 2 < 2 ^ bits (n div 2)"
      by simp_all
    have b: "bits n = Suc (bits (n div 2))" using n0 by (subst bits.simps) simp
    have bpos: "0 < bits (n div 2)" using pos by (subst bits.simps) simp
    then have "(2::nat) ^ bits (n div 2) = 2 * 2 ^ (bits (n div 2) - 1)"
      by (cases "bits (n div 2)") simp_all
    with lo have "(2::nat) ^ bits (n div 2) \<le> 2 * (n div 2)" by simp
    also have "\<dots> \<le> n" by simp
    finally have l: "2 ^ (bits n - 1) \<le> n" by (simp add: b)
    from hi have "n div 2 + 1 \<le> 2 ^ bits (n div 2)" by simp
    then have "2 * (n div 2) + 2 \<le> 2 * 2 ^ bits (n div 2)" by simp
    moreover have "n < 2 * (n div 2) + 2" by presburger
    ultimately have "n < 2 ^ bits n" by (simp add: b)
    with l show ?thesis by simp
  qed
qed

lemma binade_bounds:
  assumes "0 < x"
  shows "2 powi binade x \<le> x \<and> x < 2 powi (binade x + 1)"
proof (cases "1 \<le> x")
  case True
  define n where "n = nat \<lfloor>x\<rfloor>"
  have fl1: "1 \<le> \<lfloor>x\<rfloor>" using True by simp
  then have npos: "0 < n" by (simp add: n_def)
  have nx: "of_nat n \<le> x" using fl1 by (simp add: n_def)
  have xn: "x < of_nat n + 1" using fl1 floor_correct [of x] by (simp add: n_def)
  from bits_bounds [OF npos] have lo: "2 ^ (bits n - 1) \<le> n" and hi: "n < 2 ^ bits n" by simp_all
  have bpos: "0 < bits n" using npos by (subst bits.simps) simp
  have e: "binade x = int (bits n - 1)" using True bpos by (simp add: binade_def n_def)
  have "(2::rat) powi binade x = 2 ^ (bits n - 1)" by (simp add: e)
  also have "\<dots> = of_nat (2 ^ (bits n - 1))" by simp
  also have "\<dots> \<le> of_nat n" using lo of_nat_le_iff by blast
  finally have l: "2 powi binade x \<le> x" using nx by simp
  have "n + 1 \<le> 2 ^ bits n" using hi by simp
  then have "(of_nat (n + 1) :: rat) \<le> of_nat (2 ^ bits n)" using of_nat_le_iff by blast
  then have "of_nat n + 1 \<le> (2::rat) ^ bits n" by simp
  moreover have "binade x + 1 = int (bits n)" using e bpos by simp
  ultimately have "x < 2 powi (binade x + 1)" using xn by simp
  with l show ?thesis by simp
next
  case False
  then have x1: "x < 1" by simp
  define y where "y = 1 / x"
  have y1: "1 < y" using assms x1 by (simp add: y_def)
  define c where "c = \<lceil>y\<rceil>"
  have c2: "2 \<le> c" using y1 by (simp add: c_def)
  define m where "m = nat c - 1"
  have mpos: "0 < m" using c2 by (simp add: m_def)
  have mc: "int m = c - 1" using c2 by (simp add: m_def)
  define k where "k = bits m"
  from bits_bounds [OF mpos] have lo: "2 ^ (k - 1) \<le> m" and hi: "m < 2 ^ k" by (simp_all add: k_def)
  have kpos: "0 < k" using mpos unfolding k_def by (subst bits.simps) simp
  have e: "binade x = - int k" using False by (simp add: binade_def k_def m_def c_def y_def)
  have "of_int (c - 1) < y" unfolding c_def by linarith
  then have my: "of_nat m < y" using mc by (metis of_int_of_nat_eq)
  have "(of_nat (2 ^ (k - 1)) :: rat) \<le> of_nat m" using lo of_nat_le_iff by blast
  then have "(2::rat) ^ (k - 1) \<le> of_nat m" by simp
  with my have ylo: "2 ^ (k - 1) < y" by linarith
  have yc: "y \<le> of_int c" unfolding c_def by linarith
  have "int m < int (2 ^ k)" using hi of_nat_less_iff by blast
  then have "c \<le> 2 ^ k" using mc by simp
  then have "(of_int c :: rat) \<le> of_int (2 ^ k)" using of_int_le_iff by blast
  then have "(of_int c :: rat) \<le> 2 ^ k" by simp
  with yc have yhi: "y \<le> 2 ^ k" by linarith
  have xy: "x = 1 / y" using assms by (simp add: y_def)
  have "2 powi binade x = 1 / (2::rat) ^ k" by (simp add: e power_int_minus_divide)
  also have "\<dots> \<le> 1 / y" using yhi y1 by (simp add: frac_le)
  finally have l: "2 powi binade x \<le> x" using xy by simp
  have "binade x + 1 = - int (k - 1)" using e kpos by simp
  then have "2 powi (binade x + 1) = 1 / (2::rat) ^ (k - 1)" by (simp add: power_int_minus_divide)
  moreover have "1 / y < 1 / (2::rat) ^ (k - 1)" using ylo by (simp add: frac_less2)
  ultimately have "x < 2 powi (binade x + 1)" using xy by simp
  with l show ?thesis by simp
qed


lemma binade_unique:
  assumes "0 < x" and lo: "2 powi e \<le> x" and hi: "x < 2 powi (e + 1)"
  shows "binade x = e"
proof -
  from binade_bounds [OF assms(1)]
  have lo': "2 powi binade x \<le> x" and hi': "x < 2 powi (binade x + 1)" by simp_all
  have "(2::rat) powi e < 2 powi (binade x + 1)" using lo hi' by linarith
  then have a: "e < binade x + 1"
    by (metis linorder_not_less one_le_numeral power_int_increasing)
  have "(2::rat) powi binade x < 2 powi (e + 1)" using lo' hi by linarith
  then have b: "binade x < e + 1"
    by (metis linorder_not_less one_le_numeral power_int_increasing)
  from a b show ?thesis by simp
qed

lemma round_half_even_of_int [simp]: "round_half_even (of_int k) = k"
  by (simp add: round_half_even_def)

lemma round_half_even_floor:
  "\<lfloor>y\<rfloor> \<le> round_half_even y \<and> round_half_even y \<le> \<lfloor>y\<rfloor> + 1"
  by (simp add: round_half_even_def Let_def)

lemma ulp_pos: "0 < ulp x"
  by (simp add: ulp_def)

lemma significand_range:
  assumes "0 < x"
  shows "2 ^ 52 \<le> x / ulp x \<and> x / ulp x < 2 ^ 53"
proof -
  from binade_bounds [OF assms]
  have lo: "2 powi binade x \<le> x" and hi: "x < 2 powi (binade x + 1)" by simp_all
  have u: "ulp x * 2 ^ 52 = 2 powi binade x"
    by (simp add: ulp_def power_int_diff)
  have u': "ulp x * 2 ^ 53 = 2 powi (binade x + 1)"
    by (simp add: ulp_def power_int_diff power_int_add)
  have "2 ^ 52 * ulp x \<le> x" using lo u by (simp add: mult.commute)
  then have a: "2 ^ 52 \<le> x / ulp x" using ulp_pos [of x] by (simp add: pos_le_divide_eq)
  have "x < 2 ^ 53 * ulp x" using hi u' by (simp add: mult.commute)
  then have b: "x / ulp x < 2 ^ 53" using ulp_pos [of x] by (simp add: pos_divide_less_eq)
  from a b show ?thesis by simp
qed

lemma fl_pos_significand:
  assumes "0 < x"
  shows "\<exists>m. 2 ^ 52 \<le> m \<and> m \<le> 2 ^ 53 \<and> fl_pos x = of_int m * ulp x"
proof -
  define y where "y = x / ulp x"
  from significand_range [OF assms] have lo: "2 ^ 52 \<le> y" and hi: "y < 2 ^ 53"
    by (simp_all add: y_def)
  have f1: "2 ^ 52 \<le> \<lfloor>y\<rfloor>" using lo by (simp add: le_floor_iff)
  have f2: "\<lfloor>y\<rfloor> < 2 ^ 53" using hi by (simp add: floor_less_iff)
  from round_half_even_floor [of y] f1 f2
  have "2 ^ 52 \<le> round_half_even y \<and> round_half_even y \<le> 2 ^ 53" by linarith
  then show ?thesis by (auto simp: fl_pos_def y_def)
qed

lemma fl_pos_pos: "0 < x \<Longrightarrow> 0 < fl_pos x"
proof -
  assume "0 < x"
  from fl_pos_significand [OF this] obtain m
    where m: "2 ^ 52 \<le> m" "fl_pos x = of_int m * ulp x" by blast
  have "0 < m" using m(1) by (smt (verit) zero_less_power)
  then show ?thesis using m(2) ulp_pos [of x] by simp
qed

lemma fl_pos_exact:
  assumes m: "0 < m" "m < 2 ^ 53"
  shows "fl_pos (of_int m * 2 powi j) = of_int m * 2 powi j"
proof -
  define x :: rat where "x = of_int m * 2 powi j"
  have xpos: "0 < x" using m(1) by (simp add: x_def)
  from binade_bounds [OF xpos] have lo: "2 powi binade x \<le> x" by simp
  have "of_int m < (2::rat) ^ 53" using m(2) by (metis of_int_less_iff of_int_numeral of_int_power)
  then have "x < 2 ^ 53 * 2 powi j" by (simp add: x_def)
  also have "\<dots> = 2 powi (j + 53)" by (simp add: power_int_add)
  finally have "(2::rat) powi binade x < 2 powi (j + 53)" using lo by linarith
  then have "binade x < j + 53"
    by (metis linorder_not_less one_le_numeral power_int_increasing)
  then have nn: "0 \<le> j - (binade x - 52)" by simp
  define d where "d = nat (j - (binade x - 52))"
  have "x / ulp x = of_int m * 2 powi (j - (binade x - 52))"
    by (simp add: x_def ulp_def power_int_diff)
  also have "\<dots> = of_int m * 2 ^ d" using nn by (simp add: d_def power_int_nonneg_exp)
  also have "\<dots> = of_int (m * 2 ^ d)" by simp
  finally have q: "x / ulp x = of_int (m * 2 ^ d)" .
  have "fl_pos x = of_int (m * 2 ^ d) * ulp x"
    by (simp only: fl_pos_def q round_half_even_of_int)
  also have "\<dots> = x / ulp x * ulp x" using q by simp
  also have "\<dots> = x" using ulp_pos [of x] by simp
  finally show ?thesis by (simp add: x_def)
qed

lemma fl_pos_idem:
  assumes "0 < x"
  shows "fl_pos (fl_pos x) = fl_pos x"
proof -
  from fl_pos_significand [OF assms] obtain m
    where m: "2 ^ 52 \<le> m" "m \<le> 2 ^ 53" "fl_pos x = of_int m * ulp x" by blast
  have mpos: "0 < m" using m(1) by (smt (verit) zero_less_power)
  show ?thesis
  proof (cases "m = 2 ^ 53")
    case False
    with m(2) have "m < 2 ^ 53" by simp
    from fl_pos_exact [OF mpos this, of "binade x - 52"] show ?thesis
      by (simp add: m(3) ulp_def)
  next
    case True
    have "(2::rat) powi (binade x - 52 + 1) = 2 powi (binade x - 52) * 2"
      by (rule power_int_add_1) simp
    then have "fl_pos x = of_int (2 ^ 52) * 2 powi (binade x - 52 + 1)"
      by (simp add: m(3) True ulp_def)
    moreover have "fl_pos (of_int (2 ^ 52) * 2 powi (binade x - 52 + 1))
       = of_int (2 ^ 52) * 2 powi (binade x - 52 + 1)"
      by (rule fl_pos_exact) simp_all
    ultimately show ?thesis by simp
  qed
qed

lemma fl_minus: "fl (- x) = - fl x"
  by (simp add: fl_def)

lemma fl_pos_iff [simp]: "0 < fl x \<longleftrightarrow> 0 < x"
  using fl_pos_pos [of x] fl_pos_pos [of "- x"] by (auto simp: fl_def not_less)

lemma fl_nonpos_iff [simp]: "fl x \<le> 0 \<longleftrightarrow> x \<le> 0"
  using fl_pos_iff [of x] by linarith

lemma fl_idem [simp]: "fl (fl x) = fl x"
  using fl_pos_idem [of x] fl_pos_idem [of "- x"] fl_pos_pos [of x] fl_pos_pos [of "- x"]
  by (auto simp: fl_def)

lemma fl_of_int:
  assumes "\<bar>k\<bar> < 2 ^ 53"
  shows "fl (of_int k) = of_int k"
proof -
  have *: "fl_pos (of_int n) = of_int n" if "0 < n" "n < 2 ^ 53" for n :: int
    using fl_pos_exact [OF that, of 0] by simp
  show ?thesis
  proof (cases "0 < k")
    case True
    with assms * [of k] show ?thesis by (simp add: fl_def)
  next
    case False
    show ?thesis
    proof (cases "k = 0")
      case True
      then show ?thesis by (simp add: fl_def)
    next
      case False
      with \<open>\<not> 0 < k\<close> have "0 < - k" by simp
      moreover have "- k < 2 ^ 53" using assms by simp
      ultimately have "fl_pos (of_int (- k)) = of_int (- k)" by (rule *)
      then show ?thesis using \<open>\<not> 0 < k\<close> False by (simp add: fl_def)
    qed
  qed
qed

lemma Number_exact: "n < 2 ^ 53 \<Longrightarrow> Number n = of_nat n"
proof -
  assume "n < 2 ^ 53"
  then have "int n < int (2 ^ 53)" using of_nat_less_iff by blast
  then have "\<bar>int n\<bar> < 2 ^ 53" by simp
  from fl_of_int [OF this] show ?thesis by (simp add: Number_def)
qed


lemma fl_error:
  assumes "0 < x"
  shows "\<bar>fl x - x\<bar> \<le> x / 2 ^ 53"
proof -
  define y where "y = x / ulp x"
  from significand_range [OF assms] have lo: "2 ^ 52 \<le> y" by (simp add: y_def)
  have x: "x = y * ulp x" using ulp_pos [of x] by (simp add: y_def)
  have fy: "of_int \<lfloor>y\<rfloor> \<le> y" "y < of_int \<lfloor>y\<rfloor> + 1" by linarith+
  have r: "\<bar>of_int (round_half_even y) - y\<bar> \<le> 1 / 2"
  proof (cases "y - of_int \<lfloor>y\<rfloor> < 1 / 2")
    case True
    then have "round_half_even y = \<lfloor>y\<rfloor>" by (simp add: round_half_even_def Let_def)
    with True fy show ?thesis by simp
  next
    case False
    show ?thesis
    proof (cases "1 / 2 < y - of_int \<lfloor>y\<rfloor>")
      case True
      with False have "round_half_even y = \<lfloor>y\<rfloor> + 1"
        by (simp add: round_half_even_def Let_def)
      with True fy show ?thesis by simp
    next
      case nt: False
      with False have h: "y - of_int \<lfloor>y\<rfloor> = 1 / 2" by simp
      have "round_half_even y = \<lfloor>y\<rfloor> \<or> round_half_even y = \<lfloor>y\<rfloor> + 1"
        by (simp add: round_half_even_def Let_def)
      with h show ?thesis by auto
    qed
  qed
  have "fl x - x = (of_int (round_half_even y) - y) * ulp x"
    using assms x by (simp add: fl_def fl_pos_def y_def algebra_simps)
  then have "\<bar>fl x - x\<bar> = \<bar>of_int (round_half_even y) - y\<bar> * ulp x"
    using ulp_pos [of x] by (simp add: abs_mult)
  also have "\<dots> \<le> 1 / 2 * ulp x"
    using r ulp_pos [of x] by (intro mult_right_mono) simp_all
  also have "\<dots> \<le> y / 2 ^ 53 * ulp x"
    using lo ulp_pos [of x] by (intro mult_right_mono) simp_all
  also have "\<dots> = x / 2 ^ 53" using x by simp
  finally show ?thesis .
qed

lemma round_half_even_ratio:
  assumes "0 < b"
  shows "round_half_even (of_int a / of_int b) =
     (if 2 * (a mod b) < b then a div b
      else if b < 2 * (a mod b) then a div b + 1
      else if even (a div b) then a div b else a div b + 1)"
proof -
  have f: "\<lfloor>(of_int a / of_int b :: rat)\<rfloor> = a div b" by (rule floor_divide_of_int_eq)
  have "(of_int a :: rat) = of_int (b * (a div b) + a mod b)" by (simp only: mult_div_mod_eq)
  also have "\<dots> = of_int b * of_int (a div b) + of_int (a mod b)"
    by (simp only: of_int_add of_int_mult)
  finally have "(of_int a / of_int b :: rat) = of_int (a div b) + of_int (a mod b) / of_int b"
    using assms by (simp add: field_simps)
  then have d: "(of_int a / of_int b :: rat) - of_int (a div b) = of_int (a mod b) / of_int b"
    by simp
  have bp: "(0::rat) < of_int b" using assms by simp
  have lt: "(of_int (a mod b) / of_int b :: rat) < 1 / 2 \<longleftrightarrow> 2 * (a mod b) < b"
  proof -
    have "(of_int (a mod b) / of_int b :: rat) < 1 / 2 \<longleftrightarrow> (of_int (2 * (a mod b)) :: rat) < of_int b"
      using bp by (simp add: field_simps)
    then show ?thesis using of_int_less_iff by blast
  qed
  have gt: "1 / 2 < (of_int (a mod b) / of_int b :: rat) \<longleftrightarrow> b < 2 * (a mod b)"
  proof -
    have "1 / 2 < (of_int (a mod b) / of_int b :: rat) \<longleftrightarrow> (of_int b :: rat) < of_int (2 * (a mod b))"
      using bp by (simp add: field_simps)
    then show ?thesis using of_int_less_iff by blast
  qed
  show ?thesis
    unfolding round_half_even_def Let_def f d lt gt by simp
qed

lemma round_half_even_numeral_ratio:
  "round_half_even (numeral a / numeral b) =
     (if 2 * (numeral a mod numeral b) < (numeral b :: int) then numeral a div numeral b
      else if (numeral b :: int) < 2 * (numeral a mod numeral b) then numeral a div numeral b + 1
      else if even (numeral a div numeral b :: int) then numeral a div numeral b
      else numeral a div numeral b + 1)"
  using round_half_even_ratio [of "numeral b" "numeral a"] by simp

lemma round_half_even_numeral: "round_half_even (numeral a) = numeral a"
  using round_half_even_of_int [of "numeral a"] by simp

lemma fl_eval:
  assumes "2 ^ (52 + k) \<le> x" and "x < 2 ^ (53 + k)"
  shows "fl x = of_int (round_half_even (x / 2 ^ k)) * 2 ^ k"
proof -
  have "(0::rat) < 2 ^ (52 + k)" by simp
  with assms(1) have xpos: "0 < x" by linarith
  have "binade x = int (52 + k)"
  proof (rule binade_unique [OF xpos])
    show "2 powi int (52 + k) \<le> x" using assms(1) by (simp only: power_int_of_nat)
    have "(2::rat) powi (int (52 + k) + 1) = 2 powi int (53 + k)" by simp
    then show "x < 2 powi (int (52 + k) + 1)" using assms(2) by (simp only: power_int_of_nat)
  qed
  then have "ulp x = 2 ^ k" by (simp add: ulp_def)
  then show ?thesis using xpos by (simp add: fl_def fl_pos_def)
qed

lemma fl_numeral: "(numeral k :: int) < 2 ^ 53 \<Longrightarrow> fl (numeral k) = numeral k"
  using fl_of_int [of "numeral k"] by simp

lemma floor_numeral_ratio:
  "\<lfloor>(numeral a / numeral b :: rat)\<rfloor> = numeral a div numeral b"
  using floor_divide_of_int_eq [of "numeral a" "numeral b", where ?'a = rat] by simp

lemma fl_zero [simp]: "fl 0 = 0"
  by (simp add: fl_def)

section \<open>Properties of the loan aggregator\<close>

subsection \<open>Outcomes of the asynchronous combinators\<close>

lemma try_catch_Inr: "try_catch fb m = (cs, Inr x) \<longleftrightarrow> m = (cs, Inr x)"
  by (auto simp: try_catch_def split: prod.splits sum.splits)

lemma try_catch_calls: "fst (try_catch fb m) = fst m"
  by (auto simp: try_catch_def split: prod.splits sum.splits)

lemma bind_io_Inr:
  "bind_io m f = (cs, Inr y) \<longleftrightarrow>
     (\<exists>l x l'. m = (l, Inr x) \<and> f x = (l', Inr y) \<and> cs = l @ l')"
  by (auto simp: bind_io_def split: prod.splits sum.splits)

lemma map_result_Inr:
  "map_result f xs = Inr ys \<Longrightarrow> list_all2 (\<lambda>x y. f x = Inr y) xs ys"
  by (induction xs arbitrary: ys) (auto split: sum.splits)

lemma case_result_Inr:
  "(case r of Inl e \<Rightarrow> reject e | Inr xs \<Rightarrow> resolve (f xs)) = (l, Inr y) \<longleftrightarrow>
     (\<exists>xs. r = Inr xs \<and> y = f xs \<and> l = [])"
  by (auto simp: reject_def resolve_def split: sum.splits)

lemma snd_try_catch:
  "snd (try_catch fb m) = (case snd m of Inl e \<Rightarrow> Inl (rethrow fb e) | Inr x \<Rightarrow> Inr x)"
  by (auto simp: try_catch_def split: prod.splits sum.splits)

lemma snd_bind_io:
  "snd (bind_io m f) = (case snd m of Inl e \<Rightarrow> Inl e | Inr x \<Rightarrow> snd (f x))"
  by (auto simp: bind_io_def split: prod.splits sum.splits)

lemma snd_promise_all_Nil: "snd (promise_all []) = Inr []"
  by simp

lemma snd_promise_all_Cons:
  "snd (promise_all (m # ms)) =
     (case snd m of
        Inl e \<Rightarrow> Inl e
      | Inr x \<Rightarrow> (case snd (promise_all ms) of Inl e \<Rightarrow> Inl e | Inr xs \<Rightarrow> Inr (x # xs)))"
  by (auto split: prod.splits sum.splits)

lemma snd_perform: "snd (perform c r) = r"
  by (simp add: perform_def)

lemma snd_resolve: "snd (resolve x) = Inr x"
  by (simp add: resolve_def)

lemma snd_both:
  "snd (both m1 m2) =
     (case snd m1 of
        Inl e \<Rightarrow> Inl e
      | Inr x \<Rightarrow> (case snd m2 of Inl e \<Rightarrow> Inl e | Inr y \<Rightarrow> Inr (x, y)))"
  by (auto simp: both_def split: prod.splits sum.splits)

lemma map_result_set:
  "map_result f xs = Inr ys \<Longrightarrow> y \<in> set ys \<Longrightarrow> \<exists>x \<in> set xs. f x = Inr y"
  by (induction xs arbitrary: ys) (auto split: sum.splits)

subsection \<open>The sort\<close>

lemma snd_insert_cmp_Nil: "snd (insert_cmp cmp k x []) = [x]"
  by simp

lemma snd_insert_cmp_Cons:
  "snd (insert_cmp cmp k x (y # ys)) =
     (if cmp k y x < 0 then y # snd (insert_cmp cmp (Suc k) x ys) else x # y # ys)"
  by (simp split: prod.splits)

lemma snd_sort_from_Nil: "snd (sort_from cmp k []) = []"
  by simp

lemma snd_sort_from_Cons:
  "snd (sort_from cmp k (x # xs)) =
     snd (insert_cmp cmp (fst (sort_from cmp k xs)) x (snd (sort_from cmp k xs)))"
  by (simp split: prod.splits)

lemma set_insert_cmp: "set (snd (insert_cmp cmp k x ys)) = insert x (set ys)"
  by (induction ys arbitrary: k) (auto simp: snd_insert_cmp_Cons simp del: insert_cmp.simps(2))

lemma set_sort_from: "set (snd (sort_from cmp k xs)) = set xs"
  by (induction xs arbitrary: k)
    (simp_all add: snd_sort_from_Cons set_insert_cmp del: sort_from.simps(2))

lemma set_sort_cmp: "set (sort_cmp cmp xs) = set xs"
  by (simp add: sort_cmp_def set_sort_from)

lemma mset_insert_cmp: "mset (snd (insert_cmp cmp k x ys)) = add_mset x (mset ys)"
  by (induction ys arbitrary: k) (auto simp: snd_insert_cmp_Cons simp del: insert_cmp.simps(2))

lemma mset_sort_from: "mset (snd (sort_from cmp k xs)) = mset xs"
  by (induction xs arbitrary: k)
    (simp_all add: snd_sort_from_Cons mset_insert_cmp del: sort_from.simps(2))

lemma mset_sort_cmp: "mset (sort_cmp cmp xs) = mset xs"
  by (simp add: sort_cmp_def mset_sort_from)

text \<open>
  When every comparison puts two elements in an order that \<open>S\<close> allows, and \<open>S\<close> is
  transitive, the result is sorted by \<open>S\<close>, whatever the comparator says of ties.
\<close>

lemma sorted_insert_cmp:
  assumes trans: "\<And>a b c. S a b \<Longrightarrow> S b c \<Longrightarrow> S a c"
    and sign: "\<And>k y. y \<in> set ys \<Longrightarrow> (cmp k y x < 0 \<longrightarrow> S y x) \<and> (\<not> cmp k y x < 0 \<longrightarrow> S x y)"
    and sorted: "sorted_wrt S ys"
  shows "sorted_wrt S (snd (insert_cmp cmp k x ys))"
  using sign sorted
proof (induction ys arbitrary: k)
  case Nil
  then show ?case by simp
next
  case (Cons y ys)
  show ?case
  proof (cases "cmp k y x < 0")
    case True
    then have yx: "S y x" using Cons.prems(1) [of y k] by simp
    have ih: "sorted_wrt S (snd (insert_cmp cmp (Suc k) x ys))"
      using Cons.prems by (intro Cons.IH) auto
    have "\<forall>z \<in> set (snd (insert_cmp cmp (Suc k) x ys)). S y z"
      using yx Cons.prems(2) by (auto simp: set_insert_cmp)
    with ih True show ?thesis by (simp add: snd_insert_cmp_Cons del: insert_cmp.simps)
  next
    case False
    then have xy: "S x y" using Cons.prems(1) [of y k] by simp
    have "\<forall>z \<in> set ys. S x z" using xy Cons.prems(2) trans by auto
    with xy False Cons.prems(2) show ?thesis by simp
  qed
qed

lemma sorted_sort_from:
  assumes trans: "\<And>a b c. S a b \<Longrightarrow> S b c \<Longrightarrow> S a c"
    and sign: "\<And>k x y. x \<in> set xs \<Longrightarrow> y \<in> set xs \<Longrightarrow>
                 (cmp k y x < 0 \<longrightarrow> S y x) \<and> (\<not> cmp k y x < 0 \<longrightarrow> S x y)"
  shows "sorted_wrt S (snd (sort_from cmp k xs))"
  using sign
proof (induction xs arbitrary: k)
  case Nil
  then show ?case by simp
next
  case (Cons x xs)
  have s: "sorted_wrt S (snd (sort_from cmp k xs))" using Cons.prems by (intro Cons.IH) auto
  have "sorted_wrt S
      (snd (insert_cmp cmp (fst (sort_from cmp k xs)) x (snd (sort_from cmp k xs))))"
    using Cons.prems by (intro sorted_insert_cmp [OF trans _ s]) (auto simp: set_sort_from)
  then show ?case by (simp add: snd_sort_from_Cons del: sort_from.simps(2))
qed

lemma sorted_sort_cmp:
  assumes "\<And>a b c. S a b \<Longrightarrow> S b c \<Longrightarrow> S a c"
    and "\<And>k x y. x \<in> set xs \<Longrightarrow> y \<in> set xs \<Longrightarrow>
           (cmp k y x < 0 \<longrightarrow> S y x) \<and> (\<not> cmp k y x < 0 \<longrightarrow> S x y)"
  shows "sorted_wrt S (sort_cmp cmp xs)"
  unfolding sort_cmp_def using assms by (rule sorted_sort_from)

text \<open>
  With a comparator that is the order of a key, whichever comparison is asked, the sort
  is the stable sort by that key.
\<close>

lemma insert_cmp_insort_key:
  assumes "\<And>k a b. (cmp k a b < 0) = (f a < f b)"
  shows "snd (insert_cmp cmp k x ys) = insort_key f x ys"
  by (induction ys arbitrary: k)
    (auto simp: assms snd_insert_cmp_Cons simp del: insert_cmp.simps(2))

lemma sort_from_sort_key:
  assumes "\<And>k a b. (cmp k a b < 0) = (f a < f b)"
  shows "snd (sort_from cmp k xs) = sort_key f xs"
  by (induction xs arbitrary: k)
    (simp_all add: snd_sort_from_Cons insert_cmp_insort_key [OF assms] del: sort_from.simps(2))

lemma sort_cmp_sort_key:
  assumes "\<And>k a b. (cmp k a b < 0) = (f a < f b)"
  shows "sort_cmp cmp xs = sort_key f xs"
  unfolding sort_cmp_def using assms by (rule sort_from_sort_key)

lemma sort_cmp_Nil [simp]: "sort_cmp cmp [] = []"
  by (simp add: sort_cmp_def)

lemma sort_cmp_single [simp]: "sort_cmp cmp [x] = [x]"
  by (simp add: sort_cmp_def)

subsection \<open>The order of the returned loans\<close>

lemma getLoans_Inr:
  assumes "getLoans env endpoint userAddress poolAddress testnet = (cs, Inr ls)"
  shows "\<exists>raw. (raw = [] \<or>
                (\<exists>q loans. request_loans env endpoint q = Inr loans \<and>
                   map_result (toLoan env testnet) loans = Inr raw)) \<and>
               ls = sortLoans (now env) (clock_drift env) raw"
proof (cases "if truthy poolAddress then False else \<not> truthy userAddress")
  case True
  with assms have "ls = []"
    by (auto simp: getLoans_def try_catch_Inr resolve_def split: if_splits)
  then show ?thesis by (intro exI [of _ "[]"]) (simp add: sortLoans_def)
next
  case False
  with assms show ?thesis
    by (auto simp: getLoans_def try_catch_Inr bind_io_Inr case_result_Inr perform_def
          reject_def Let_def split: if_splits)
qed

lemma toLoan_fields:
  "toLoan env testnet loan = Inr l \<Longrightarrow>
     l_interest l = g_interest loan \<and> l_startTime l = g_startTime loan \<and>
     l_borrowed l = g_borrowed loan \<and> l_deadline l = int (g_deadline loan) * 1000 \<and>
     l_toPay l = infoToRepayLoan (now env) loan"
  by (auto simp: toLoan_def split: sum.splits)

lemma getLoans_member:
  assumes "getLoans env endpoint userAddress poolAddress testnet = (cs, Inr ls)" and "l \<in> set ls"
  shows "\<exists>loan. toLoan env testnet loan = Inr l"
proof -
  from getLoans_Inr [OF assms(1)] obtain raw where
    raw: "raw = [] \<or> (\<exists>q loans. request_loans env endpoint q = Inr loans \<and>
                   map_result (toLoan env testnet) loans = Inr raw)"
    and ls: "ls = sortLoans (now env) (clock_drift env) raw" by blast
  from assms(2) ls have m: "l \<in> set raw" by (simp add: sortLoans_def set_sort_cmp)
  with raw obtain loans where "map_result (toLoan env testnet) loans = Inr raw" by auto
  from map_result_set [OF this m] show ?thesis by blast
qed

lemma compareLoans_sign:
  assumes "\<bar>d\<bar> < 1000" "1000 dvd l_deadline a" "1000 dvd l_deadline b"
  shows "(compareLoans t (t + d) a b < 0 \<longrightarrow> l_deadline a \<le> l_deadline b) \<and>
         (\<not> compareLoans t (t + d) a b < 0 \<longrightarrow> l_deadline b \<le> l_deadline a)"
proof -
  from assms obtain x y where "l_deadline a = 1000 * x" "l_deadline b = 1000 * y"
    by (auto simp: dvd_def)
  with assms(1) show ?thesis by (auto simp: compareLoans_def)
qed

lemma sortLoans_sorted:
  assumes "\<And>k. \<bar>drift k\<bar> < 1000" and "\<And>l. l \<in> set ls \<Longrightarrow> 1000 dvd l_deadline l"
  shows "sorted (map l_deadline (sortLoans t drift ls))"
proof -
  have "sorted_wrt (\<lambda>a b. l_deadline a \<le> l_deadline b) (sortLoans t drift ls)"
    unfolding sortLoans_def
  proof (rule sorted_sort_cmp)
    fix k x y assume "x \<in> set ls" "y \<in> set ls"
    then show "(compareLoans t (t + drift k) y x < 0 \<longrightarrow> l_deadline y \<le> l_deadline x) \<and>
             (\<not> compareLoans t (t + drift k) y x < 0 \<longrightarrow> l_deadline x \<le> l_deadline y)"
      using assms by (intro compareLoans_sign) auto
  qed auto
  then show ?thesis by (simp add: sorted_map)
qed

lemma sortLoans_no_drift:
  assumes "\<And>k. drift k = 0"
  shows "sortLoans t drift ls = sortByDeadline ls"
  unfolding sortLoans_def sortByDeadline_def
  by (rule sort_cmp_sort_key) (auto simp: compareLoans_def assms)

lemma sortLoans_example:
  assumes "\<And>k. \<bar>drift k\<bar> < 5"
  shows "map l_deadline
     (sortLoans t drift
        [a\<lparr>l_deadline := T + 10\<rparr>, b\<lparr>l_deadline := T + 5\<rparr>, c\<lparr>l_deadline := T + 20\<rparr>])
     = [T + 5, T + 10, T + 20]"
proof -
  have d: "\<bar>drift 0\<bar> < 5" "\<bar>drift 1\<bar> < 5" "\<bar>drift 2\<bar> < 5" "\<bar>drift (Suc 0)\<bar> < 5" using assms by auto
  then show ?thesis
    by (auto simp: sortLoans_def sort_cmp_def compareLoans_def numeral_2_eq_2)
qed

text \<open>
  C3, amended. The list that \<^verbatim>\<open>getLoans\<close> returns is a rearrangement of the mapped
  loans of the indexer; it is in ascending order of deadline, soonest first, whenever the
  two clock readings of every comparison are less than a second apart (deadlines are
  whole seconds); and it is exactly the stable sort by ascending deadline when the two
  readings of every comparison agree. Deadlines \<open>T + 10, T + 5, T + 20\<close> come out as
  \<open>T + 5, T + 10, T + 20\<close> when the readings are less than 5 apart.
\<close>

theorem getLoans_sorted_by_deadline:
  "(getLoans env endpoint userAddress poolAddress testnet = (cs, Inr ls) \<longrightarrow>
      (\<exists>raw. (raw = [] \<or>
                (\<exists>q loans. request_loans env endpoint q = Inr loans \<and>
                   map_result (toLoan env testnet) loans = Inr raw)) \<and>
             ls = sortLoans (now env) (clock_drift env) raw \<and>
             mset ls = mset raw \<and>
             ((\<forall>k. \<bar>clock_drift env k\<bar> < 1000) \<longrightarrow> sorted (map l_deadline ls)) \<and>
             ((\<forall>k. clock_drift env k = 0) \<longrightarrow> ls = sortByDeadline raw))) \<and>
   ((\<forall>k. \<bar>drift k\<bar> < 5) \<longrightarrow>
      map l_deadline
        (sortLoans t drift
           [a\<lparr>l_deadline := T + 10\<rparr>, b\<lparr>l_deadline := T + 5\<rparr>, c\<lparr>l_deadline := T + 20\<rparr>])
      = [T + 5, T + 10, T + 20])"
proof (intro conjI impI)
  assume g: "getLoans env endpoint userAddress poolAddress testnet = (cs, Inr ls)"
  from getLoans_Inr [OF g] obtain raw where
    raw: "raw = [] \<or> (\<exists>q loans. request_loans env endpoint q = Inr loans \<and>
                   map_result (toLoan env testnet) loans = Inr raw)"
    and ls: "ls = sortLoans (now env) (clock_drift env) raw" by blast
  have m: "mset ls = mset raw" by (simp add: ls sortLoans_def mset_sort_cmp)
  have dv: "1000 dvd l_deadline l" if "l \<in> set raw" for l
  proof -
    from that have "l \<in> set ls" by (simp add: ls sortLoans_def set_sort_cmp)
    from getLoans_member [OF g this] obtain loan where "toLoan env testnet loan = Inr l" ..
    from toLoan_fields [OF this] show ?thesis by simp
  qed
  have s: "sorted (map l_deadline ls)" if "\<forall>k. \<bar>clock_drift env k\<bar> < 1000"
    unfolding ls using that dv by (intro sortLoans_sorted) auto
  have e: "ls = sortByDeadline raw" if "\<forall>k. clock_drift env k = 0"
    unfolding ls using that by (intro sortLoans_no_drift) auto
  from raw ls m s e
  show "\<exists>raw. (raw = [] \<or>
                (\<exists>q loans. request_loans env endpoint q = Inr loans \<and>
                   map_result (toLoan env testnet) loans = Inr raw)) \<and>
             ls = sortLoans (now env) (clock_drift env) raw \<and>
             mset ls = mset raw \<and>
             ((\<forall>k. \<bar>clock_drift env k\<bar> < 1000) \<longrightarrow> sorted (map l_deadline ls)) \<and>
             ((\<forall>k. clock_drift env k = 0) \<longrightarrow> ls = sortByDeadline raw)"
    by blast
next
  assume "\<forall>k. \<bar>drift k\<bar> < 5"
  then show "map l_deadline
        (sortLoans t drift
           [a\<lparr>l_deadline := T + 10\<rparr>, b\<lparr>l_deadline := T + 5\<rparr>, c\<lparr>l_deadline := T + 20\<rparr>])
      = [T + 5, T + 10, T + 20]"
    by (intro sortLoans_example) auto
qed


lemma example_getLoans:
  "snd (getLoans example_env ''graph'' (Some ''0xAb'') None False)
     = Inr [example_liquidatable, example_not_due]"
  by (simp add: getLoans_def snd_try_catch snd_bind_io snd_perform snd_resolve example_env_def
        toLoan_def example_due_def example_late_def sortLoans_def sort_cmp_def compareLoans_def
        example_liquidatable_def example_not_due_def Let_def)

lemma example_tie_toLoan:
  "map_result (toLoan example_tie_env False)
       [example_late\<lparr>g_id := ''x''\<rparr>, example_late\<lparr>g_id := ''y''\<rparr>]
     = Inr [example_liquidatable\<lparr>l_id := ''x''\<rparr>, example_liquidatable\<lparr>l_id := ''y''\<rparr>]"
  by (simp add: example_tie_env_def example_env_def toLoan_def example_late_def
        example_liquidatable_def infoToRepayLoan_def accruedInterest_def lateFees_def)

lemma example_tie_getLoans:
  "snd (getLoans example_tie_env ''graph'' (Some ''0xAb'') None False)
     = Inr [example_liquidatable\<lparr>l_id := ''y''\<rparr>, example_liquidatable\<lparr>l_id := ''x''\<rparr>]"
  by (simp add: getLoans_def snd_try_catch snd_bind_io snd_perform snd_resolve
        example_tie_env_def example_env_def toLoan_def example_late_def sortLoans_def
        sort_cmp_def compareLoans_def example_liquidatable_def Let_def
        infoToRepayLoan_def accruedInterest_def lateFees_def)

text \<open>
  C3, as stated, fails: two loans with one deadline, which the indexer gives in the order
  \<open>x\<close>, \<open>y\<close>, come out of \<^verbatim>\<open>getLoans\<close> in the order \<open>y\<close>, \<open>x\<close> when the clock advances by
  a millisecond between the two readings of a comparison, while the sort by ascending
  deadline leaves them in the order \<open>x\<close>, \<open>y\<close>.
\<close>

theorem getLoans_tie_counterexample:
  "request_loans example_tie_env ''graph'' (userLoansQuery (Some ''0xAb''))
     = Inr [example_late\<lparr>g_id := ''x''\<rparr>, example_late\<lparr>g_id := ''y''\<rparr>] \<and>
   map_result (toLoan example_tie_env False)
       [example_late\<lparr>g_id := ''x''\<rparr>, example_late\<lparr>g_id := ''y''\<rparr>]
     = Inr [example_liquidatable\<lparr>l_id := ''x''\<rparr>, example_liquidatable\<lparr>l_id := ''y''\<rparr>] \<and>
   snd (getLoans example_tie_env ''graph'' (Some ''0xAb'') None False)
     = Inr [example_liquidatable\<lparr>l_id := ''y''\<rparr>, example_liquidatable\<lparr>l_id := ''x''\<rparr>] \<and>
   sortByDeadline [example_liquidatable\<lparr>l_id := ''x''\<rparr>, example_liquidatable\<lparr>l_id := ''y''\<rparr>]
     = [example_liquidatable\<lparr>l_id := ''x''\<rparr>, example_liquidatable\<lparr>l_id := ''y''\<rparr>] \<and>
   [example_liquidatable\<lparr>l_id := ''y''\<rparr>, example_liquidatable\<lparr>l_id := ''x''\<rparr>]
     \<noteq> sortByDeadline
         [example_liquidatable\<lparr>l_id := ''x''\<rparr>, example_liquidatable\<lparr>l_id := ''y''\<rparr>] \<and>
   clock_drift example_tie_env 0 = 1"
proof -
  have 1: "request_loans example_tie_env ''graph'' (userLoansQuery (Some ''0xAb''))
     = Inr [example_late\<lparr>g_id := ''x''\<rparr>, example_late\<lparr>g_id := ''y''\<rparr>]"
    by (simp add: example_tie_env_def example_env_def)
  have 2: "sortByDeadline
       [example_liquidatable\<lparr>l_id := ''x''\<rparr>, example_liquidatable\<lparr>l_id := ''y''\<rparr>]
     = [example_liquidatable\<lparr>l_id := ''x''\<rparr>, example_liquidatable\<lparr>l_id := ''y''\<rparr>]"
    by (simp add: sortByDeadline_def)
  have 3: "[example_liquidatable\<lparr>l_id := ''y''\<rparr>, example_liquidatable\<lparr>l_id := ''x''\<rparr>]
     \<noteq> [example_liquidatable\<lparr>l_id := ''x''\<rparr>, example_liquidatable\<lparr>l_id := ''y''\<rparr>]"
    by (simp add: example_liquidatable_def)
  have 4: "clock_drift example_tie_env 0 = 1"
    by (simp add: example_tie_env_def example_env_def)
  from 1 2 3 4 example_tie_toLoan example_tie_getLoans show ?thesis by simp
qed

theorem getLoans_sorted_by_deadline_witness:
  "snd (getLoans example_env ''graph'' (Some ''0xAb'') None False)
     = Inr [example_liquidatable, example_not_due] \<and>
   (\<forall>k. clock_drift example_env k = 0) \<and>
   map l_deadline [example_liquidatable, example_not_due] = [2000000, 4000000] \<and>
   sorted (map l_deadline [example_liquidatable, example_not_due]) \<and>
   (\<exists>raw. map_result (toLoan example_env False) [example_due, example_late] = Inr raw \<and>
          [example_liquidatable, example_not_due] = sortByDeadline raw \<and>
          mset [example_liquidatable, example_not_due] = mset raw) \<and>
   snd (getLoans example_tie_env ''graph'' (Some ''0xAb'') None False)
     = Inr [example_liquidatable\<lparr>l_id := ''y''\<rparr>, example_liquidatable\<lparr>l_id := ''x''\<rparr>] \<and>
   (\<forall>k. \<bar>clock_drift example_tie_env k\<bar> < 1000) \<and>
   sorted (map l_deadline
             [example_liquidatable\<lparr>l_id := ''y''\<rparr>, example_liquidatable\<lparr>l_id := ''x''\<rparr>]) \<and>
   (\<forall>k. \<bar>(\<lambda>k. 2) k :: int\<bar> < 5) \<and>
   map l_deadline
     (sortLoans 0 (\<lambda>k. 2)
        [example_not_due\<lparr>l_deadline := 10\<rparr>, example_not_due\<lparr>l_deadline := 5\<rparr>,
         example_not_due\<lparr>l_deadline := 20\<rparr>]) = [5, 10, 20]"
proof -
  let ?m = "getLoans example_env ''graph'' (Some ''0xAb'') None False"
  let ?n = "getLoans example_tie_env ''graph'' (Some ''0xAb'') None False"
  let ?ls = "[example_liquidatable, example_not_due]"
  let ?ts = "[example_liquidatable\<lparr>l_id := ''y''\<rparr>, example_liquidatable\<lparr>l_id := ''x''\<rparr>]"
  have g: "?m = (fst ?m, Inr ?ls)" using example_getLoans by (metis prod.collapse)
  have h: "?n = (fst ?n, Inr ?ts)" using example_tie_getLoans by (metis prod.collapse)
  have d0: "\<forall>k. clock_drift example_env k = 0" by (simp add: example_env_def)
  have d1: "\<forall>k. \<bar>clock_drift example_tie_env k\<bar> < 1000"
    by (simp add: example_tie_env_def example_env_def)
  have d2: "\<forall>k. \<bar>(\<lambda>k. 2) k :: int\<bar> < 5" by simp
  have r: "map_result (toLoan example_env False) [example_due, example_late]
      = Inr [example_not_due, example_liquidatable]"
    by (simp add: example_env_def toLoan_def example_due_def example_late_def
          example_liquidatable_def example_not_due_def)
  note w = getLoans_sorted_by_deadline
      [where env = example_env and endpoint = "''graph''" and userAddress = "Some ''0xAb''"
         and poolAddress = None and testnet = False and cs = "fst ?m" and ls = ?ls
         and drift = "\<lambda>k. 2" and t = 0 and T = 0
         and a = example_not_due and b = example_not_due and c = example_not_due]
  note v = getLoans_sorted_by_deadline
      [where env = example_tie_env and endpoint = "''graph''" and userAddress = "Some ''0xAb''"
         and poolAddress = None and testnet = False and cs = "fst ?n" and ls = ?ts
         and drift = "\<lambda>k. 2" and t = 0 and T = 0
         and a = example_not_due and b = example_not_due and c = example_not_due]
  from w g d0 have s0: "sorted (map l_deadline ?ls)" by auto
  from v h d1 have s1: "sorted (map l_deadline ?ts)" by blast
  from w d2 have e: "map l_deadline
     (sortLoans 0 (\<lambda>k. 2)
        [example_not_due\<lparr>l_deadline := 10\<rparr>, example_not_due\<lparr>l_deadline := 5\<rparr>,
         example_not_due\<lparr>l_deadline := 20\<rparr>]) = [5, 10, 20]" by simp
  have p: "?ls = sortByDeadline [example_not_due, example_liquidatable] \<and>
      mset ?ls = mset [example_not_due, example_liquidatable]"
    by (simp add: sortByDeadline_def example_not_due_def example_liquidatable_def)
  have dl: "map l_deadline ?ls = [2000000, 4000000]"
    by (simp add: example_not_due_def example_liquidatable_def)
  from r p have ex: "\<exists>raw. map_result (toLoan example_env False) [example_due, example_late] = Inr raw \<and>
          [example_liquidatable, example_not_due] = sortByDeadline raw \<and>
          mset [example_liquidatable, example_not_due] = mset raw" by blast
  from example_getLoans example_tie_getLoans d0 d1 d2 s0 s1 e ex dl show ?thesis
    by blast
qed

subsection \<open>Loans to liquidate\<close>

text \<open>
  C9. Without a liquidator address \<^verbatim>\<open>getLoansToLiquidate\<close> resolves to the empty list
  and calls nothing; and every loan of a resolved result has \<open>deadline - now \<le> 0\<close>: none
  has its deadline after the time of the call.
\<close>

theorem getLoansToLiquidate_overdue_only:
  "(\<not> truthy liquidatorAddress \<longrightarrow>
      getLoansToLiquidate env endpoint liquidatorAddress testnet = ([], Inr [])) \<and>
   (getLoansToLiquidate env endpoint liquidatorAddress testnet = (cs, Inr ls) \<longrightarrow>
      (\<forall>l \<in> set ls. l_deadline l - now env \<le> 0 \<and> \<not> now env < l_deadline l))"
proof (intro conjI impI)
  assume "\<not> truthy liquidatorAddress"
  then show "getLoansToLiquidate env endpoint liquidatorAddress testnet = ([], Inr [])"
    by (cases liquidatorAddress) (simp_all add: getLoansToLiquidate_def try_catch_def resolve_def)
next
  assume "getLoansToLiquidate env endpoint liquidatorAddress testnet = (cs, Inr ls)"
  then show "\<forall>l \<in> set ls. l_deadline l - now env \<le> 0 \<and> \<not> now env < l_deadline l"
    by (auto simp: getLoansToLiquidate_def try_catch_Inr bind_io_Inr resolve_def reject_def
          liquidatable_def Let_def split: option.splits if_splits)
qed

lemma example_getLoansToLiquidate:
  "getLoansToLiquidate example_env ''graph'' (Some ''0xAb'') False =
     ([GraphRequest ''graph'' (LiquidatorPoolsQuery ''0xab''),
       GraphRequest ''graph'' (LoansByPoolQuery ''0xef'')], Inr [example_liquidatable])"
  by (simp add: getLoansToLiquidate_def getLoans_def try_catch_def bind_io_def perform_def
       resolve_def reject_def example_env_def toLoan_def example_due_def example_late_def
       loansByPoolQuery_def toLowerCase_def lower_char_def sortLoans_def sort_cmp_def
       compareLoans_def liquidatable_def example_liquidatable_def Let_def)

theorem getLoansToLiquidate_overdue_only_witness:
  "getLoansToLiquidate example_env ''graph'' None False = ([], Inr []) \<and>
   getLoansToLiquidate example_env ''graph'' (Some ''0xAb'') False =
     ([GraphRequest ''graph'' (LiquidatorPoolsQuery ''0xab''),
       GraphRequest ''graph'' (LoansByPoolQuery ''0xef'')], Inr [example_liquidatable]) \<and>
   l_deadline example_liquidatable - now example_env \<le> 0 \<and>
   \<not> now example_env < l_deadline example_liquidatable"
  using getLoansToLiquidate_overdue_only [of None example_env "''graph''" False]
    getLoansToLiquidate_overdue_only [of "Some ''0xAb''" example_env "''graph''" False _
      "[example_liquidatable]"] example_getLoansToLiquidate
  by simp

subsection \<open>The amount to repay\<close>

lemma lateFees_one_day_error:
  assumes bt: "blockTimestamp t = int (g_deadline loan) + 86400"
  shows "\<bar>lateFees t loan - Number (g_borrowed loan)\<bar> \<le> Number (g_borrowed loan) / 2 ^ 51"
proof (cases "g_borrowed loan = 0")
  case True
  then show ?thesis using bt by (simp add: lateFees_def Number_def fl_def SECONDS_IN_A_DAY_def)
next
  case False
  define B where "B = Number (g_borrowed loan)"
  have Bpos: "0 < B" using False by (simp add: B_def Number_def)
  define y where "y = fl (86400 * B)"
  define z where "z = y / 86400"
  have lf: "lateFees t loan = fl z"
    using bt by (simp add: lateFees_def SECONDS_IN_A_DAY_def z_def y_def B_def)
  have e1: "\<bar>y - 86400 * B\<bar> \<le> 86400 * B / 2 ^ 53"
    unfolding y_def using Bpos by (intro fl_error) simp
  have zB0: "z - B = (y - 86400 * B) / 86400" by (simp add: z_def field_simps)
  have "\<bar>z - B\<bar> = \<bar>y - 86400 * B\<bar> / \<bar>86400\<bar>"
    by (simp only: zB0 abs_divide)
  also have "\<dots> = \<bar>y - 86400 * B\<bar> / 86400" by simp
  also have "\<dots> \<le> (86400 * B / 2 ^ 53) / 86400" using e1 by (intro divide_right_mono) simp_all
  also have "\<dots> = B / 2 ^ 53" by simp
  finally have e2: "\<bar>z - B\<bar> \<le> B / 2 ^ 53" .
  have "B / 2 ^ 53 < B" using Bpos by simp
  with e2 have zpos: "0 < z" and zB: "z \<le> 2 * B" by linarith+
  have e3: "\<bar>fl z - z\<bar> \<le> z / 2 ^ 53" using zpos by (rule fl_error)
  also have "\<dots> \<le> 2 * B / 2 ^ 53" using zB by (intro divide_right_mono) simp_all
  finally have e4: "\<bar>fl z - z\<bar> \<le> 2 * B / 2 ^ 53" .
  have "\<bar>fl z - B\<bar> \<le> \<bar>fl z - z\<bar> + \<bar>z - B\<bar>" by linarith
  also have "\<dots> \<le> 2 * B / 2 ^ 53 + B / 2 ^ 53" using e2 e4 by linarith
  also have "\<dots> \<le> B / 2 ^ 51" using Bpos by simp
  finally show ?thesis by (simp add: lf B_def)
qed


lemma lateFees_one_day_exact:
  assumes bt: "blockTimestamp t = int (g_deadline loan) + 86400"
    and rep: "fl (86400 * Number (g_borrowed loan)) = 86400 * Number (g_borrowed loan)"
  shows "lateFees t loan = Number (g_borrowed loan)"
proof -
  have "lateFees t loan = fl (fl (86400 * Number (g_borrowed loan)) / 86400)"
    using bt by (simp add: lateFees_def SECONDS_IN_A_DAY_def)
  also have "\<dots> = fl (Number (g_borrowed loan))" by (simp add: rep)
  also have "\<dots> = Number (g_borrowed loan)" by (simp add: Number_def)
  finally show ?thesis .
qed

lemma small_product_exact:
  assumes "n < 2 ^ 36"
  shows "Number n = of_nat n \<and> fl (86400 * Number n) = 86400 * Number n"
proof -
  have "(2::nat) ^ 36 \<le> 2 ^ 53" by simp
  with assms have "n < 2 ^ 53" by linarith
  then have n: "Number n = of_nat n" by (rule Number_exact)
  have "86400 * n < 86400 * 2 ^ 36" using assms by simp
  also have "\<dots> \<le> (2::nat) ^ 53" by simp
  finally have "int (86400 * n) < int (2 ^ 53)" using of_nat_less_iff by blast
  then have "\<bar>int (86400 * n)\<bar> < 2 ^ 53" by simp
  from fl_of_int [OF this] have "fl (86400 * of_nat n) = 86400 * of_nat n" by simp
  with n show ?thesis by simp
qed

lemma toLoan_toPay:
  assumes "toLoan env testnet loan = Inr l"
  shows "l_toPay l =
           fl (fl (Number (l_borrowed l) + loanInterest (blockTimestamp (now env)) l)
               + loanLateFees (blockTimestamp (now env)) l)"
    and "loanLateFees (blockTimestamp (now env)) l = lateFees (now env) loan"
    and "l_deadline l = int (g_deadline loan) * 1000"
    and "l_borrowed l = g_borrowed loan"
proof -
  from toLoan_fields [OF assms] have f: "l_interest l = g_interest loan"
      "l_startTime l = g_startTime loan" "l_borrowed l = g_borrowed loan"
      "l_deadline l = int (g_deadline loan) * 1000" "l_toPay l = infoToRepayLoan (now env) loan"
    by simp_all
  show d: "l_deadline l = int (g_deadline loan) * 1000" by (rule f)
  show "l_borrowed l = g_borrowed loan" by (rule f)
  have i: "loanInterest (blockTimestamp (now env)) l = accruedInterest (now env) loan"
    by (simp add: loanInterest_def accruedInterest_def f)
  show late: "loanLateFees (blockTimestamp (now env)) l = lateFees (now env) loan"
    by (simp add: loanLateFees_def lateFees_def f SECONDS_IN_A_DAY_def)
  show "l_toPay l =
           fl (fl (Number (l_borrowed l) + loanInterest (blockTimestamp (now env)) l)
               + loanLateFees (blockTimestamp (now env)) l)"
    by (simp add: i late f infoToRepayLoan_def)
qed

lemma blockTimestamp_wei: "blockTimestamp 1700086400000 = 1700086400"
  by (simp add: blockTimestamp_def toFixed0_def fl_numeral floor_numeral_ratio)

lemma blockTimestamp_accruing: "blockTimestamp 173800000 = 173800"
  by (simp add: blockTimestamp_def toFixed0_def fl_numeral floor_numeral_ratio)

lemma Number_wei: "Number 8847148290589771 = 8847148290589771"
  by (simp add: Number_def fl_numeral)

lemma lateFees_wei: "lateFees 1700086400000 example_wei_loan = 8847148290589770"
  by (simp add: lateFees_def blockTimestamp_wei example_wei_loan_def Number_wei
        SECONDS_IN_A_DAY_def fl_eval [where k = 17] fl_eval [where k = 0]
        round_half_even_numeral_ratio round_half_even_numeral)

lemma accruedInterest_wei: "accruedInterest 1700086400000 example_wei_loan = 0"
  by (simp add: accruedInterest_def example_wei_loan_def Number_def)

lemma infoToRepayLoan_wei: "infoToRepayLoan 1700086400000 example_wei_loan = 17694296581179540"
  by (simp add: infoToRepayLoan_def lateFees_wei accruedInterest_wei)
     (simp add: example_wei_loan_def Number_wei fl_numeral fl_eval [where k = 1]
        round_half_even_numeral_ratio)

lemma example_wei_getLoans:
  "snd (getLoans example_wei_env ''graph'' (Some ''0xAb'') None False) = Inr [example_wei_returned]"
proof -
  have e: "request_loans example_wei_env = (\<lambda>e q. Inr [example_wei_loan])"
    "now example_wei_env = 1700086400000" "getAddress example_wei_env = Inr"
    by (simp_all add: example_wei_env_def example_env_def)
  have "toLoan example_wei_env False example_wei_loan = Inr example_wei_returned"
    by (simp add: toLoan_def e infoToRepayLoan_wei)
       (simp add: example_wei_loan_def example_wei_returned_def)
  then show ?thesis
    by (simp add: getLoans_def snd_try_catch snd_bind_io snd_perform snd_resolve sortLoans_def
          e Let_def)
qed

lemma interest_accruing:
  "fl (fl (fl (172800 * Number 3814697265625) * Number 262144) / 10 ^ 18) = 172800"
proof -
  have n: "Number 3814697265625 = 3814697265625" "Number 262144 = 262144"
    by (simp_all add: Number_def fl_numeral)
  have a: "fl 659179687500000000 = 659179687500000000"
    by (simp add: fl_eval [where k = 7] round_half_even_numeral)
  have b: "fl 172800000000000000000000 = 172800000000000000000000"
    by (simp add: fl_eval [where k = 25] round_half_even_numeral)
  show ?thesis by (simp add: n a b fl_numeral)
qed

lemma infoToRepayLoan_accruing:
  "infoToRepayLoan 173800000 example_accruing = 697088"
  "infoToRepayLoan 173800000 (example_accruing\<lparr>g_id := ''at deadline'', g_deadline := 173800\<rparr>)
     = 434944"
proof -
  have n: "Number 262144 = 262144" by (simp add: Number_def fl_numeral)
  have l: "fl (fl (86400 * 262144) / 86400) = 262144" by (simp add: fl_numeral)
  show "infoToRepayLoan 173800000 example_accruing = 697088"
    using interest_accruing
    by (simp add: infoToRepayLoan_def accruedInterest_def lateFees_def blockTimestamp_accruing
          example_accruing_def SECONDS_IN_A_DAY_def n l fl_numeral)
  show "infoToRepayLoan 173800000
      (example_accruing\<lparr>g_id := ''at deadline'', g_deadline := 173800\<rparr>) = 434944"
    using interest_accruing
    by (simp add: infoToRepayLoan_def accruedInterest_def lateFees_def blockTimestamp_accruing
          example_accruing_def SECONDS_IN_A_DAY_def n fl_numeral)
qed

lemma example_accruing_getLoans:
  "snd (getLoans example_accruing_env ''graph'' (Some ''0xAb'') None False)
     = Inr [example_accrued, example_at_deadline]"
proof -
  have e: "request_loans example_accruing_env =
       (\<lambda>e q. Inr [example_accruing\<lparr>g_id := ''at deadline'', g_deadline := 173800\<rparr>,
                   example_accruing])"
    "now example_accruing_env = 173800000" "clock_drift example_accruing_env = (\<lambda>k. 0)"
    "getAddress example_accruing_env = Inr"
    by (simp_all add: example_accruing_env_def example_env_def)
  have t: "toLoan example_accruing_env False example_accruing = Inr example_accrued"
    "toLoan example_accruing_env False
       (example_accruing\<lparr>g_id := ''at deadline'', g_deadline := 173800\<rparr>)
     = Inr example_at_deadline"
    by (simp_all add: toLoan_def e infoToRepayLoan_accruing)
       (simp_all add: example_accruing_def example_accrued_def example_at_deadline_def)
  have d: "l_deadline example_accrued = 87400000" "l_deadline example_at_deadline = 173800000"
    by (simp_all add: example_accrued_def example_at_deadline_def)
  show ?thesis
    by (simp add: getLoans_def snd_try_catch snd_bind_io snd_perform snd_resolve sortLoans_def
          sort_cmp_def compareLoans_def e t d Let_def)
qed

text \<open>
  C2, as stated, fails: a loan of 8847148290589771 without interest, returned by
  \<^verbatim>\<open>getLoans\<close> exactly 86400 seconds after its deadline, has late fees
  8847148290589770, not the borrowed amount, and the amount to repay is
  17694296581179540, not the sum 17694296581179542 of the borrowed amount, the interest
  and the late fees of the claim. Every product, quotient and sum is rounded to a double.
\<close>

theorem getLoans_toPay_counterexample:
  "snd (getLoans example_wei_env ''graph'' (Some ''0xAb'') None False)
     = Inr [example_wei_returned] \<and>
   blockTimestamp (now example_wei_env) * 1000 = l_deadline example_wei_returned + 86400000 \<and>
   l_borrowed example_wei_returned = 8847148290589771 \<and>
   loanInterest (blockTimestamp (now example_wei_env)) example_wei_returned = 0 \<and>
   loanLateFees (blockTimestamp (now example_wei_env)) example_wei_returned
     = 8847148290589770 \<and>
   loanLateFees (blockTimestamp (now example_wei_env)) example_wei_returned
     \<noteq> of_nat (l_borrowed example_wei_returned) \<and>
   l_toPay example_wei_returned = 17694296581179540 \<and>
   l_toPay example_wei_returned
     \<noteq> of_nat (l_borrowed example_wei_returned) + 0 + of_nat (l_borrowed example_wei_returned)"
proof -
  have n: "now example_wei_env = 1700086400000"
    by (simp add: example_wei_env_def example_env_def)
  have f: "l_borrowed example_wei_returned = 8847148290589771"
    "l_deadline example_wei_returned = 1700000000000"
    "l_toPay example_wei_returned = 17694296581179540"
    "l_interest example_wei_returned = 0"
    by (simp_all add: example_wei_returned_def)
  have i: "loanInterest 1700086400 example_wei_returned = 0"
    by (simp add: loanInterest_def f Number_def)
  have l: "loanLateFees 1700086400 example_wei_returned = 8847148290589770"
    by (simp add: loanLateFees_def f Number_wei fl_eval [where k = 17] fl_eval [where k = 0]
        round_half_even_numeral_ratio round_half_even_numeral)
  show ?thesis
    by (simp add: example_wei_getLoans n blockTimestamp_wei f i l)
qed

text \<open>
  C2, amended. For every loan that \<^verbatim>\<open>getLoans\<close> returns, the amount to repay is
  \<open>borrowed + accruedInterest + lateFees\<close> with the interest
  \<open>(now - startTime) \<times> interest \<times> borrowed / 10\<^sup>1\<^sup>8\<close> and the late fees
  \<open>(now - deadline) \<times> borrowed / 86400\<close> past the deadline, \<open>now\<close> being the time of the
  call in seconds and every operation rounded to the nearest double; the late fees are 0
  at or before the deadline. Exactly one day past the deadline they are within the
  fraction \<open>2\<^sup>-\<^sup>5\<^sup>1\<close> of the borrowed amount (as a double), and equal to it when
  \<open>86400 \<times> borrowed\<close> is a double, as it is below \<open>2\<^sup>3\<^sup>6\<close>.
\<close>

theorem getLoans_toPay_rounded:
  "getLoans env endpoint userAddress poolAddress testnet = (cs, Inr ls) \<and> l \<in> set ls \<longrightarrow>
     l_toPay l =
       fl (fl (Number (l_borrowed l) + loanInterest (blockTimestamp (now env)) l)
           + loanLateFees (blockTimestamp (now env)) l) \<and>
     (blockTimestamp (now env) * 1000 \<le> l_deadline l \<longrightarrow>
        loanLateFees (blockTimestamp (now env)) l = 0) \<and>
     (blockTimestamp (now env) * 1000 = l_deadline l + 86400000 \<longrightarrow>
        \<bar>loanLateFees (blockTimestamp (now env)) l - Number (l_borrowed l)\<bar>
          \<le> Number (l_borrowed l) / 2 ^ 51 \<and>
        (fl (86400 * Number (l_borrowed l)) = 86400 * Number (l_borrowed l) \<longrightarrow>
           loanLateFees (blockTimestamp (now env)) l = Number (l_borrowed l)) \<and>
        (l_borrowed l < 2 ^ 36 \<longrightarrow>
           loanLateFees (blockTimestamp (now env)) l = of_nat (l_borrowed l)))"
proof (intro impI)
  assume h: "getLoans env endpoint userAddress poolAddress testnet = (cs, Inr ls) \<and> l \<in> set ls"
  then obtain loan where t: "toLoan env testnet loan = Inr l"
    using getLoans_member by blast
  note f = toLoan_toPay [OF t]
  let ?bt = "blockTimestamp (now env)"
  have late0: "loanLateFees ?bt l = 0" if "?bt * 1000 \<le> l_deadline l"
    using that by (simp add: loanLateFees_def)
  have day: "?bt = int (g_deadline loan) + 86400" if "?bt * 1000 = l_deadline l + 86400000"
    using that f(3) by simp
  have e1: "\<bar>loanLateFees ?bt l - Number (l_borrowed l)\<bar> \<le> Number (l_borrowed l) / 2 ^ 51"
    if "?bt * 1000 = l_deadline l + 86400000"
    using lateFees_one_day_error [OF day [OF that]] by (simp add: f)
  have e2: "loanLateFees ?bt l = Number (l_borrowed l)"
    if "?bt * 1000 = l_deadline l + 86400000"
      and "fl (86400 * Number (l_borrowed l)) = 86400 * Number (l_borrowed l)"
    using lateFees_one_day_exact [OF day [OF that(1)]] that(2) by (simp add: f)
  have e3: "loanLateFees ?bt l = of_nat (l_borrowed l)"
    if "?bt * 1000 = l_deadline l + 86400000" and "l_borrowed l < 2 ^ 36"
  proof -
    from small_product_exact [OF that(2)]
    have n: "Number (l_borrowed l) = of_nat (l_borrowed l)"
      and r: "fl (86400 * Number (l_borrowed l)) = 86400 * Number (l_borrowed l)" by blast+
    from e2 [OF that(1) r] n show ?thesis by simp
  qed
  from f(1) late0 e1 e2 e3
  show "l_toPay l =
       fl (fl (Number (l_borrowed l) + loanInterest (blockTimestamp (now env)) l)
           + loanLateFees (blockTimestamp (now env)) l) \<and>
     (blockTimestamp (now env) * 1000 \<le> l_deadline l \<longrightarrow>
        loanLateFees (blockTimestamp (now env)) l = 0) \<and>
     (blockTimestamp (now env) * 1000 = l_deadline l + 86400000 \<longrightarrow>
        \<bar>loanLateFees (blockTimestamp (now env)) l - Number (l_borrowed l)\<bar>
          \<le> Number (l_borrowed l) / 2 ^ 51 \<and>
        (fl (86400 * Number (l_borrowed l)) = 86400 * Number (l_borrowed l) \<longrightarrow>
           loanLateFees (blockTimestamp (now env)) l = Number (l_borrowed l)) \<and>
        (l_borrowed l < 2 ^ 36 \<longrightarrow>
           loanLateFees (blockTimestamp (now env)) l = of_nat (l_borrowed l)))"
    by blast
qed

theorem getLoans_toPay_rounded_witness:
  "snd (getLoans example_accruing_env ''graph'' (Some ''0xAb'') None False)
     = Inr [example_accrued, example_at_deadline] \<and>
   blockTimestamp (now example_accruing_env) = 173800 \<and>
   blockTimestamp (now example_accruing_env) * 1000 = l_deadline example_accrued + 86400000 \<and>
   l_borrowed example_accrued < 2 ^ 36 \<and>
   fl (86400 * Number (l_borrowed example_accrued)) = 86400 * Number (l_borrowed example_accrued) \<and>
   loanInterest 173800 example_accrued = 172800 \<and>
   loanLateFees 173800 example_accrued = 262144 \<and>
   l_toPay example_accrued = 262144 + 172800 + 262144 \<and>
   blockTimestamp (now example_accruing_env) * 1000 \<le> l_deadline example_at_deadline \<and>
   loanInterest 173800 example_at_deadline = 172800 \<and>
   loanLateFees 173800 example_at_deadline = 0 \<and>
   l_toPay example_at_deadline = 262144 + 172800 + 0"
proof -
  let ?m = "getLoans example_accruing_env ''graph'' (Some ''0xAb'') None False"
  have g: "?m = (fst ?m, Inr [example_accrued, example_at_deadline])"
    using example_accruing_getLoans by (metis prod.collapse)
  have n: "now example_accruing_env = 173800000"
    by (simp add: example_accruing_env_def example_env_def)
  have bt: "blockTimestamp (now example_accruing_env) = 173800"
    by (simp add: n blockTimestamp_accruing)
  have f: "l_borrowed example_accrued = 262144" "l_deadline example_accrued = 87400000"
    "l_borrowed example_at_deadline = 262144" "l_deadline example_at_deadline = 173800000"
    by (simp_all add: example_accrued_def example_at_deadline_def)
  note w1 = getLoans_toPay_rounded
      [where env = example_accruing_env and endpoint = "''graph''"
         and userAddress = "Some ''0xAb''" and poolAddress = None and testnet = False
         and cs = "fst ?m" and ls = "[example_accrued, example_at_deadline]"
         and l = example_accrued]
  note w2 = getLoans_toPay_rounded
      [where env = example_accruing_env and endpoint = "''graph''"
         and userAddress = "Some ''0xAb''" and poolAddress = None and testnet = False
         and cs = "fst ?m" and ls = "[example_accrued, example_at_deadline]"
         and l = example_at_deadline]
  have i1: "loanInterest 173800 example_accrued = 172800"
    using interest_accruing by (simp add: loanInterest_def example_accrued_def)
  have i2: "loanInterest 173800 example_at_deadline = 172800"
    using interest_accruing
    by (simp add: loanInterest_def example_accrued_def example_at_deadline_def)
  have l1: "loanLateFees 173800 example_accrued = 262144"
    using w1 g by (simp add: bt f)
  have l2: "loanLateFees 173800 example_at_deadline = 0"
    using w2 g by (simp add: bt f)
  have r: "fl (86400 * Number (l_borrowed example_accrued))
      = 86400 * Number (l_borrowed example_accrued)"
    by (simp add: f Number_def fl_numeral)
  have n5: "Number 262144 = 262144" by (simp add: Number_def fl_numeral)
  have t1: "l_toPay example_accrued = 262144 + 172800 + 262144"
    using w1 g by (simp add: bt f i1 l1 n5 fl_numeral)
  have t2: "l_toPay example_at_deadline = 262144 + 172800 + 0"
    using w2 g by (simp add: bt f i2 l2 n5 fl_numeral)
  from example_accruing_getLoans bt f i1 i2 l1 l2 r t1 t2 show ?thesis by simp
qed

subsection \<open>The hook for the loans of a user\<close>

lemma getLoans_no_user:
  "\<not> truthy userAddress \<Longrightarrow> getLoans env endpoint userAddress None testnet = ([], Inr [])"
  by (simp add: getLoans_def try_catch_def resolve_def)

lemma getLoans_calls_None:
  "set (fst (getLoans env endpoint userAddress None testnet))
     \<subseteq> {GraphRequest endpoint (userLoansQuery userAddress)}"
  by (auto simp: getLoans_def try_catch_calls bind_io_def perform_def resolve_def reject_def
        Let_def split: sum.splits prod.splits)

text \<open>
  C10. The fetch of the hook \<^verbatim>\<open>useGetLoans\<close> is \<^verbatim>\<open>getLoans\<close> without a pool address,
  whatever pool address the hook was given: its result does not depend on that
  parameter, it never issues the query by pool, and without a user address it resolves
  to the empty list.
\<close>

theorem useGetLoans_ignores_poolAddress:
  "useGetLoans env chainId userAddress poolAddress =
     getLoans env (subgraphUrl (chainConfig env chainId)) userAddress None
       (isTestnet (chainConfig env chainId)) \<and>
   useGetLoans env chainId userAddress poolAddress = useGetLoans env chainId userAddress None \<and>
   GraphRequest endpoint (LoansByPoolQuery p)
     \<notin> set (fst (useGetLoans env chainId userAddress poolAddress)) \<and>
   (\<not> truthy userAddress \<longrightarrow>
      useGetLoans env chainId userAddress poolAddress = ([], Inr []))"
proof (intro conjI impI)
  show "useGetLoans env chainId userAddress poolAddress =
     getLoans env (subgraphUrl (chainConfig env chainId)) userAddress None
       (isTestnet (chainConfig env chainId))"
    by (simp add: useGetLoans_def Let_def)
  show "useGetLoans env chainId userAddress poolAddress = useGetLoans env chainId userAddress None"
    by (simp add: useGetLoans_def)
  show "GraphRequest endpoint (LoansByPoolQuery p)
     \<notin> set (fst (useGetLoans env chainId userAddress poolAddress))"
    using getLoans_calls_None [of env "subgraphUrl (chainConfig env chainId)" userAddress
        "isTestnet (chainConfig env chainId)"]
    by (auto simp: useGetLoans_def Let_def userLoansQuery_def)
  show "useGetLoans env chainId userAddress poolAddress = ([], Inr [])" if "\<not> truthy userAddress"
    using that by (simp add: useGetLoans_def Let_def getLoans_no_user)
qed

theorem useGetLoans_ignores_poolAddress_witness:
  "\<not> truthy None \<and>
   useGetLoans example_env (Some 1) None (Some ''0xef'') = ([], Inr []) \<and>
   GraphRequest ''graph'' (LoansByPoolQuery ''0xef'')
     \<notin> set (fst (useGetLoans example_env (Some 1) (Some ''0xAB'') (Some ''0xef'')))"
proof -
  have "\<not> truthy None \<longrightarrow>
      useGetLoans example_env (Some 1) None (Some ''0xef'') = ([], Inr [])"
    using useGetLoans_ignores_poolAddress
      [where env = example_env and chainId = "Some 1" and userAddress = None
         and poolAddress = "Some ''0xef''" and endpoint = "''graph''" and p = "''0xef''"]
    by blast
  then have "useGetLoans example_env (Some 1) None (Some ''0xef'') = ([], Inr [])"
    by simp
  moreover have "GraphRequest ''graph'' (LoansByPoolQuery ''0xef'')
     \<notin> set (fst (useGetLoans example_env (Some 1) (Some ''0xAB'') (Some ''0xef'')))"
    using useGetLoans_ignores_poolAddress
      [where env = example_env and chainId = "Some 1" and userAddress = "Some ''0xAB''"
         and poolAddress = "Some ''0xef''" and endpoint = "''graph''" and p = "''0xef''"]
    by blast
  ultimately show ?thesis by simp
qed

section \<open>Properties of the pool aggregator\<close>

subsection \<open>No chain id\<close>

text \<open>
  C8. Without a chain id \<^verbatim>\<open>getAllpools\<close> resolves to the empty list and issues no
  call, whatever the collaborators would answer: the test comes before the chain
  configuration is looked up, so no missing configuration can make it reject.
\<close>

theorem getAllpools_no_chainId:
  "getAllpools env None collectionAddress ownerAddress skipOracle = ([], Inr [])"
  by (simp add: getAllpools_def try_catch_def resolve_def)


subsection \<open>The request for the pool list\<close>

lemma fst_bind_io:
  "fst (bind_io m f) = fst m @ (case snd m of Inl e \<Rightarrow> [] | Inr x \<Rightarrow> fst (f x))"
  by (auto simp: bind_io_def split: prod.splits sum.splits)

lemma fst_promise_all: "fst (promise_all ms) = concat (map fst ms)"
  by (induction ms) (auto split: prod.splits)

lemma fst_both: "fst (both m1 m2) = fst m1 @ fst m2"
  by (auto simp: both_def split: prod.splits)

lemma fst_perform: "fst (perform c r) = [c]"
  by (simp add: perform_def)

lemma fst_resolve: "fst (resolve x) = []"
  by (simp add: resolve_def)

lemma fst_reject: "fst (reject e) = []"
  by (simp add: reject_def)

lemma getPoolAddlInfo_no_pools_request:
  "filter is_pools_request (fst (getPoolAddlInfo env a prov n api ltv t sk)) = []"
  by (simp add: getPoolAddlInfo_def try_catch_calls fst_bind_io fst_both fst_perform
        fst_resolve Let_def split: sum.splits prod.splits)

lemma getAdminPoolInfo_no_pools_request:
  "filter is_pools_request (fst (getAdminPoolInfo env a prov n ep)) = []"
  by (simp add: getAdminPoolInfo_def try_catch_calls fst_bind_io fst_both fst_perform
        fst_resolve fst_reject Let_def split: sum.splits prod.splits)

lemma filter_concat_empty:
  "(\<And>x. x \<in> set xs \<Longrightarrow> filter P (f x) = []) \<Longrightarrow> filter P (concat (map f xs)) = []"
  by (induction xs) simp_all

lemma poolsQuery_is_pools_request: "is_pools_request (GraphRequest e (poolsQuery ow c))"
  by (simp add: poolsQuery_def getAllPoolsQuery_def getAllPoolsByCollectionQuery_def
        getAllPoolsByOwner_def Let_def split: option.splits)


lemma poolsQuery_precedence:
  "poolsQuery ownerAddress collectionAddress =
     (if truthy ownerAddress then GetAllPoolsByOwner (toLowerCase (the ownerAddress))
      else if truthy collectionAddress
        then GetAllPoolsByCollectionQuery (toLowerCase (the collectionAddress))
      else GetAllPoolsQuery)"
  by (cases ownerAddress; cases collectionAddress)
     (simp_all add: poolsQuery_def getAllPoolsQuery_def getAllPoolsByCollectionQuery_def
        getAllPoolsByOwner_def Let_def)

lemma enrichment_no_pools_request:
  "filter is_pools_request
     (concat (map (\<lambda>pool. fst (getPoolAddlInfo env (q_address pool) prov (q_nftContract pool)
                                 api (q_ltv pool) t sk)) pools)) = []"
  "filter is_pools_request
     (concat (map (\<lambda>pool. fst (getAdminPoolInfo env (q_address pool) prov (q_nftContract pool)
                                 ep)) pools)) = []"
  by (rule filter_concat_empty, rule getPoolAddlInfo_no_pools_request)
     (rule filter_concat_empty, rule getAdminPoolInfo_no_pools_request)

lemma getAllpools_pools_requests:
  "filter is_pools_request (fst (getAllpools env chainId collectionAddress ownerAddress skipOracle)) =
     (if reaches_indexer env chainId
      then [GraphRequest (subgraphUrl (chainConfig env chainId))
              (poolsQuery ownerAddress collectionAddress)]
      else [])"
proof (cases "reaches_indexer env chainId")
  case False
  then show ?thesis
    by (auto simp: getAllpools_def reaches_indexer_def try_catch_calls fst_resolve fst_reject
          Let_def split: option.splits)
next
  case True
  then obtain prov where p: "chainProvider (chainConfig env chainId) = Some prov"
    by (auto simp: reaches_indexer_def)
  have tail: "filter is_pools_request
     (case r of Inl e \<Rightarrow> [] | Inr pools \<Rightarrow>
        fst (bind_io
          (promise_all
             (map (\<lambda>pool. getPoolAddlInfo env (q_address pool) prov (q_nftContract pool)
                      api (q_ltv pool) t skipOracle) pools))
          (\<lambda>poolAddlInfo.
             bind_io
               (promise_all
                  (map (\<lambda>pool. getAdminPoolInfo env (q_address pool) prov (q_nftContract pool) ep)
                     pools))
               (\<lambda>adminPoolInfos.
                  case map_result (toPool env poolAddlInfo adminPoolInfos)
                         (zip [0..<length pools] pools) of
                    Inl e \<Rightarrow> reject e
                  | Inr ps \<Rightarrow> resolve (sortPools env ps))))) = []"
    for r :: "js_error + pool_row list" and api t ep
    by (auto simp: fst_bind_io fst_promise_all comp_def enrichment_no_pools_request
          fst_resolve fst_reject split: sum.splits)
  from True p show ?thesis
    by (auto simp: getAllpools_def reaches_indexer_def try_catch_calls fst_bind_io fst_perform
          Let_def poolsQuery_is_pools_request tail)
qed


text \<open>
  C7. The query of the pool list is chosen by precedence: by owner when an owner address
  is given (a truthy one: neither absent nor empty), else by collection when a collection
  address is given, else unfiltered. A call that gets past the checks of the chain id and
  of the configuration issues exactly one request for the pool list, with that query; a
  call stopped by those checks issues none.
\<close>

theorem getAllpools_query_precedence:
  "poolsQuery ownerAddress collectionAddress =
     (if truthy ownerAddress then GetAllPoolsByOwner (toLowerCase (the ownerAddress))
      else if truthy collectionAddress
        then GetAllPoolsByCollectionQuery (toLowerCase (the collectionAddress))
      else GetAllPoolsQuery) \<and>
   filter is_pools_request
     (fst (getAllpools env chainId collectionAddress ownerAddress skipOracle)) =
     (if reaches_indexer env chainId
      then [GraphRequest (subgraphUrl (chainConfig env chainId))
              (poolsQuery ownerAddress collectionAddress)]
      else [])"
  using poolsQuery_precedence getAllpools_pools_requests by blast

subsection \<open>The total deposited\<close>

lemma digit_val_digit_char: "d < 10 \<Longrightarrow> digit_val (digit_char d) = d"
proof -
  assume "d < 10"
  then have "d \<in> {0, 1, 2, 3, 4, 5, 6, 7, 8, 9}" by auto
  then show ?thesis by (auto simp: digit_val_def digit_char_def)
qed

lemma is_digit_digit_char: "d < 10 \<Longrightarrow> is_digit (digit_char d)"
proof -
  assume "d < 10"
  then have "d \<in> {0, 1, 2, 3, 4, 5, 6, 7, 8, 9}" by auto
  then show ?thesis by (auto simp: is_digit_def digit_char_def)
qed

lemma parse_dec_snoc: "parse_dec (s @ [c]) = 10 * parse_dec s + digit_val c"
  by (simp add: parse_dec_def)

lemma parse_dec_dec: "parse_dec (dec n) = n"
proof (induction n rule: dec.induct)
  case (1 n)
  show ?case
  proof (cases "n < 10")
    case True
    then show ?thesis by (subst dec.simps) (simp add: parse_dec_def digit_val_digit_char)
  next
    case False
    have "parse_dec (dec n) = 10 * parse_dec (dec (n div 10)) + digit_val (digit_char (n mod 10))"
      using False by (subst dec.simps) (simp add: parse_dec_snoc)
    also have "\<dots> = 10 * (n div 10) + n mod 10"
      using "1.IH" [OF False] by (simp add: digit_val_digit_char)
    finally show ?thesis by simp
  qed
qed

lemma dec_digits: "list_all is_digit (dec n)"
proof (induction n rule: dec.induct)
  case (1 n)
  show ?case
  proof (cases "n < 10")
    case True
    then show ?thesis by (subst dec.simps) (simp add: is_digit_digit_char)
  next
    case False
    then show ?thesis using "1.IH" [OF False]
      by (subst dec.simps) (simp add: is_digit_digit_char)
  qed
qed

lemma dec_inject: "dec m = dec n \<Longrightarrow> m = n"
  by (metis parse_dec_dec)

lemma plus_toFixed0_dec: "plus_toFixed0 (dec a) (dec b) = dec (a + b)"
  by (simp add: plus_toFixed0_def parse_dec_dec)


lemma both_Inr:
  "both m1 m2 = (cs, Inr z) \<longleftrightarrow>
     (\<exists>l1 l2 x y. m1 = (l1, Inr x) \<and> m2 = (l2, Inr y) \<and> cs = l1 @ l2 \<and> z = (x, y))"
  by (auto simp: both_def split: prod.splits sum.splits)

lemma promise_all_Inr:
  "promise_all ms = (cs, Inr xs) \<Longrightarrow> list_all2 (\<lambda>m x. snd m = Inr x) ms xs"
  by (induction ms arbitrary: cs xs) (auto split: prod.splits sum.splits)

lemma getPoolAddlInfo_sum:
  "getPoolAddlInfo env a prov n api ltv t sk = (cs, Inr info) \<Longrightarrow> addl_sum info"
  by (auto simp: getPoolAddlInfo_def try_catch_Inr bind_io_Inr both_Inr resolve_def
        perform_def Let_def addl_sum_def parse_dec_dec split: if_splits prod.splits)


lemma toPool_sum:
  assumes "toPool env infos admins ip = Inr p" and "list_all addl_sum infos"
  shows "\<exists>pb tb. p_poolBalance p = dec pb \<and> p_totalBorrowed p = dec tb \<and>
           p_totalDeposited p = dec (pb + tb)"
proof (cases "at_index infos (fst ip)")
  case None
  have z: "dec 0 = ''0''" by (subst dec.simps) (simp add: digit_char_def)
  from assms(1) None have "p_poolBalance p = dec 0 \<and> p_totalBorrowed p = dec 0 \<and>
      p_totalDeposited p = dec (0 + 0)"
    by (auto simp: toPool_def z Let_def split: prod.splits sum.splits)
  then show ?thesis by blast
next
  case (Some a)
  then have "a \<in> set infos" by (auto simp: at_index_def split: if_splits)
  with assms(2) have "addl_sum a" by (simp add: list_all_iff)
  then obtain pb tb where "i_poolBalance a = dec pb" "i_totalBorrowed a = dec tb"
      "i_totalDeposited a = dec (pb + tb)"
    using that [of "parse_dec (i_poolBalance a)" "parse_dec (i_totalBorrowed a)"]
    by (simp add: addl_sum_def plus_toFixed0_def)
  with assms(1) Some have "p_poolBalance p = dec pb \<and> p_totalBorrowed p = dec tb \<and>
      p_totalDeposited p = dec (pb + tb)"
    by (auto simp: toPool_def Let_def split: prod.splits sum.splits)
  then show ?thesis by blast
qed

lemma promise_all_list_all:
  assumes "promise_all (map g xs) = (cs, Inr ys)"
    and "\<And>x l y. g x = (l, Inr y) \<Longrightarrow> P y"
  shows "list_all P ys"
  using assms(1)
proof (induction xs arbitrary: cs ys)
  case Nil
  then show ?case by simp
next
  case (Cons x xs)
  then show ?case
    by (auto split: prod.splits sum.splits intro: assms(2))
qed

lemma getAllpools_Inr:
  assumes "getAllpools env chainId collectionAddress ownerAddress skipOracle = (cs, Inr ps)"
  shows "ps = [] \<or>
     (\<exists>prov pools infos admins l1 raw.
        promise_all
          (map (\<lambda>pool. getPoolAddlInfo env (q_address pool) prov (q_nftContract pool)
                   (quoteApi (chainConfig env chainId)) (q_ltv pool)
                   (isTestnet (chainConfig env chainId)) skipOracle) pools) = (l1, Inr infos) \<and>
        map_result (toPool env infos admins) (zip [0..<length pools] pools) = Inr raw \<and>
        ps = sortPools env raw)"
  using assms
  by (auto simp: getAllpools_def try_catch_Inr bind_io_Inr case_result_Inr resolve_def
        reject_def Let_def split: option.splits if_splits) blast

lemma getAllpools_sum:
  assumes "getAllpools env chainId collectionAddress ownerAddress skipOracle = (cs, Inr ps)"
    and "p \<in> set ps"
  shows "\<exists>pb tb. p_poolBalance p = dec pb \<and> p_totalBorrowed p = dec tb \<and>
           p_totalDeposited p = dec (pb + tb)"
proof -
  from getAllpools_Inr [OF assms(1)] assms(2) obtain prov pools infos admins l1 raw where
    infos: "promise_all
       (map (\<lambda>pool. getPoolAddlInfo env (q_address pool) prov (q_nftContract pool)
                (quoteApi (chainConfig env chainId)) (q_ltv pool)
                (isTestnet (chainConfig env chainId)) skipOracle) pools) = (l1, Inr infos)"
    and raw: "map_result (toPool env infos admins) (zip [0..<length pools] pools) = Inr raw"
    and ps: "ps = sortPools env raw"
    by auto
  have all: "list_all addl_sum infos"
    by (rule promise_all_list_all [OF infos]) (rule getPoolAddlInfo_sum)
  from assms(2) ps have "p \<in> set raw" by (simp add: sortPools_def set_sort_cmp)
  with map_result_Inr [OF raw] obtain ip where "toPool env infos admins ip = Inr p"
    by (auto simp: list_all2_conv_all_nth in_set_conv_nth)
  from toPool_sum [OF this all] show ?thesis .
qed

lemma dec_small: "dec 0 = ''0''" "dec 5 = ''5''" "dec 7 = ''7''" "dec 12 = ''12''"
  by (simp_all add: dec.simps digit_char_def)

lemma example_getPoolAddlInfo:
  "snd (getPoolAddlInfo example_pool_env ''0xAA'' (Provider ''rpc'') ''0xBB'' ''quote'' ''33'' False True)
     = Inr \<lparr> i_collectionName = ''nft'', i_poolBalance = ''7'', i_totalBorrowed = ''5'',
              i_totalDeposited = ''12'', i_pricePerNft = ''0'', i_maxNftsToBorrow = ''0'',
              i_currentAnnualInterest = 0, i_oracle = ''0x00'', i_oraclePrice = None \<rparr>"
  by (simp add: getPoolAddlInfo_def try_catch_def bind_io_def both_def perform_def resolve_def
        example_pool_env_def example_env_def plus_toFixed0_dec dec_small Let_def)

lemma example_getAdminPoolInfo:
  "snd (getAdminPoolInfo example_pool_env ''0xAA'' (Provider ''rpc'') ''0xBB'' ''graph'')
     = Inr \<lparr> a_key = ''0xBB0xAA00000000'', a_maxPrice = Number 0, a_maxInstantBorrow = Number 0,
                a_dailyBorrows = Number 0, a_maxDailyBorrows = Number 0,
                a_maxLoanLength = Number 0, a_oracle = ''0x00'', a_minimumInterest = ''0'',
                a_maximumInterest = ''0'', a_liquidators = [] \<rparr>"
  by (simp add: getAdminPoolInfo_def try_catch_def bind_io_def both_def perform_def resolve_def
        example_pool_env_def example_env_def adminPoolInfo_def keyParts_def dec_small Let_def)

lemma example_getAllpools:
  "snd (getAllpools example_pool_env (Some 1) None None True) = Inr [example_pool]"
proof -
  obtain l1 where a: "getPoolAddlInfo example_pool_env ''0xAA'' (Provider ''rpc'') ''0xBB'' ''quote'' ''33'' False True
     = (l1, Inr \<lparr> i_collectionName = ''nft'', i_poolBalance = ''7'', i_totalBorrowed = ''5'',
              i_totalDeposited = ''12'', i_pricePerNft = ''0'', i_maxNftsToBorrow = ''0'',
              i_currentAnnualInterest = 0, i_oracle = ''0x00'', i_oraclePrice = None \<rparr>)"
    using example_getPoolAddlInfo by (metis prod.collapse)
  obtain l2 where b: "getAdminPoolInfo example_pool_env ''0xAA'' (Provider ''rpc'') ''0xBB'' ''graph''
     = (l2, Inr \<lparr> a_key = ''0xBB0xAA00000000'', a_maxPrice = Number 0, a_maxInstantBorrow = Number 0,
                a_dailyBorrows = Number 0, a_maxDailyBorrows = Number 0,
                a_maxLoanLength = Number 0, a_oracle = ''0x00'', a_minimumInterest = ''0'',
                a_maximumInterest = ''0'', a_liquidators = [] \<rparr>)"
    using example_getAdminPoolInfo by (metis prod.collapse)
  have c: "chainConfig example_pool_env (Some 1) =
      \<lparr> chainProvider = Some (Provider ''rpc''), quoteApi = ''quote'',
        subgraphUrl = ''graph'', isTestnet = False \<rparr>"
    "request_pools example_pool_env = (\<lambda>e q. Inr [example_row])"
    "getAddress example_pool_env = Inr"
    by (simp_all add: example_pool_env_def example_env_def)
  show ?thesis
    by (simp add: getAllpools_def try_catch_def bind_io_def perform_def resolve_def c
          example_row_def a b toPool_def at_index_def sortPools_def sort_cmp_def
          example_pool_def dec_small Let_def)
qed


text \<open>
  C4. For every pool that \<^verbatim>\<open>getAllpools\<close> returns, the balance and the amount borrowed are
  strings of decimal digits and the total deposited is their exact sum, printed in
  decimal digits; a pool without live enrichment has \<open>'0'\<close> in all three fields, and
  \<open>0 = 0 + 0\<close>.
\<close>

theorem getAllpools_totalDeposited:
  "(getAllpools env chainId collectionAddress ownerAddress skipOracle = (cs, Inr ps) \<and> p \<in> set ps
      \<longrightarrow>
      list_all is_digit (p_poolBalance p) \<and> list_all is_digit (p_totalBorrowed p) \<and>
      p_totalDeposited p = plus_toFixed0 (p_poolBalance p) (p_totalBorrowed p) \<and>
      parse_dec (p_totalDeposited p) = parse_dec (p_poolBalance p) + parse_dec (p_totalBorrowed p)) \<and>
   (toPool env infos admins (i, pool) = Inr q \<and> at_index infos i = None \<longrightarrow>
      p_poolBalance q = ''0'' \<and> p_totalBorrowed q = ''0'' \<and> p_totalDeposited q = ''0'' \<and>
      parse_dec (p_totalDeposited q) = parse_dec (p_poolBalance q) + parse_dec (p_totalBorrowed q))"
proof (intro conjI impI)
  assume h: "getAllpools env chainId collectionAddress ownerAddress skipOracle = (cs, Inr ps) \<and> p \<in> set ps"
  then obtain pb tb where e: "p_poolBalance p = dec pb" "p_totalBorrowed p = dec tb"
      "p_totalDeposited p = dec (pb + tb)"
    using getAllpools_sum by blast
  show "list_all is_digit (p_poolBalance p)" "list_all is_digit (p_totalBorrowed p)"
    by (simp_all add: e dec_digits)
  show "p_totalDeposited p = plus_toFixed0 (p_poolBalance p) (p_totalBorrowed p)"
    by (simp add: e plus_toFixed0_dec)
  show "parse_dec (p_totalDeposited p) = parse_dec (p_poolBalance p) + parse_dec (p_totalBorrowed p)"
    by (simp add: e parse_dec_dec)
next
  assume h: "toPool env infos admins (i, pool) = Inr q \<and> at_index infos i = None"
  then have e: "p_poolBalance q = ''0''" "p_totalBorrowed q = ''0''" "p_totalDeposited q = ''0''"
    by (auto simp: toPool_def Let_def split: sum.splits)
  show "p_poolBalance q = ''0''" "p_totalBorrowed q = ''0''" "p_totalDeposited q = ''0''"
    by (rule e)+
  show "parse_dec (p_totalDeposited q) = parse_dec (p_poolBalance q) + parse_dec (p_totalBorrowed q)"
    by (simp add: e parse_dec_def digit_val_def)
qed

lemma example_toPool:
  "toPool example_pool_env [] [] (0, example_row) =
     Inr (example_pool \<lparr> p_collectionName := [], p_poolBalance := ''0'', p_totalBorrowed := ''0'',
            p_totalDeposited := ''0'', p_oracle := [], p_adminPoolInfo := None \<rparr>)"
  by (simp add: toPool_def at_index_def example_pool_env_def example_env_def example_row_def
        example_pool_def)

theorem getAllpools_totalDeposited_witness:
  "snd (getAllpools example_pool_env (Some 1) None None True) = Inr [example_pool] \<and>
   p_poolBalance example_pool = ''7'' \<and> p_totalBorrowed example_pool = ''5'' \<and>
   p_totalDeposited example_pool = ''12'' \<and>
   parse_dec (p_totalDeposited example_pool) =
     parse_dec (p_poolBalance example_pool) + parse_dec (p_totalBorrowed example_pool) \<and>
   at_index ([] :: addl_info list) 0 = None \<and>
   parse_dec ''0'' = parse_dec ''0'' + parse_dec ''0''"
proof -
  let ?cs = "fst (getAllpools example_pool_env (Some 1) None None True)"
  let ?q = "example_pool \<lparr> p_collectionName := [], p_poolBalance := ''0'',
              p_totalBorrowed := ''0'', p_totalDeposited := ''0'', p_oracle := [],
              p_adminPoolInfo := None \<rparr>"
  note w = getAllpools_totalDeposited
      [where env = example_pool_env and chainId = "Some 1" and collectionAddress = None
        and ownerAddress = None and skipOracle = True and cs = ?cs and ps = "[example_pool]"
        and p = example_pool and infos = "[]" and admins = "[]" and i = 0
        and pool = example_row and q = ?q]
  have g: "getAllpools example_pool_env (Some 1) None None True = (?cs, Inr [example_pool])"
    using example_getAllpools by (metis prod.collapse)
  have n: "at_index ([] :: addl_info list) 0 = None" by (simp add: at_index_def)
  have m: "example_pool \<in> set [example_pool]" by simp
  have 1: "parse_dec (p_totalDeposited example_pool) =
     parse_dec (p_poolBalance example_pool) + parse_dec (p_totalBorrowed example_pool)"
    using w g m by blast
  have "parse_dec (p_totalDeposited ?q) = parse_dec (p_poolBalance ?q) + parse_dec (p_totalBorrowed ?q)"
    using w example_toPool n by blast
  then have 2: "parse_dec ''0'' = parse_dec ''0'' + parse_dec ''0''" by simp
  have 3: "p_poolBalance example_pool = ''7'' \<and> p_totalBorrowed example_pool = ''5'' \<and>
      p_totalDeposited example_pool = ''12''"
    by (simp add: example_pool_def)
  from 1 2 3 n example_getAllpools show ?thesis by blast
qed


subsection \<open>The order of the returned pools\<close>

lemma fl_one [simp]: "fl 1 = 1"
  using fl_of_int [of 1] by simp

lemma fl_neg_iff [simp]: "fl x < 0 \<longleftrightarrow> x < 0"
  using fl_pos_iff [of "- x"] by (simp add: fl_minus)

lemma ge_js_trans: "ge_js a b \<Longrightarrow> ge_js b c \<Longrightarrow> ge_js a c"
  by (cases a; cases b; cases c) simp_all

lemma comparePools_sign:
  assumes "maxNftsValue env x \<noteq> NaN" and "maxNftsValue env y \<noteq> NaN"
  shows "(sort_reading (comparePools env y x) < 0 \<longrightarrow>
            ge_js (maxNftsValue env y) (maxNftsValue env x)) \<and>
         (\<not> sort_reading (comparePools env y x) < 0 \<longrightarrow>
            ge_js (maxNftsValue env x) (maxNftsValue env y))"
  using assms unfolding comparePools_def maxNftsValue_def
  by (cases "toNumber env (p_maxNftsToBorrow x)"; cases "toNumber env (p_maxNftsToBorrow y)")
     auto

lemma sortPools_descending:
  assumes "list_all (\<lambda>p. maxNftsValue env p \<noteq> NaN) ps"
  shows "sorted_wrt (\<lambda>a b. ge_js (maxNftsValue env a) (maxNftsValue env b)) (sortPools env ps)"
  unfolding sortPools_def
proof (rule sorted_sort_cmp)
  fix a b c
  assume "ge_js (maxNftsValue env a) (maxNftsValue env b)"
    "ge_js (maxNftsValue env b) (maxNftsValue env c)"
  then show "ge_js (maxNftsValue env a) (maxNftsValue env c)" by (rule ge_js_trans)
next
  fix k :: nat and x y
  assume "x \<in> set ps" "y \<in> set ps"
  with assms have "maxNftsValue env x \<noteq> NaN" "maxNftsValue env y \<noteq> NaN"
    by (simp_all add: list_all_iff)
  then show "(sort_reading (comparePools env y x) < 0 \<longrightarrow>
            ge_js (maxNftsValue env y) (maxNftsValue env x)) \<and>
         (\<not> sort_reading (comparePools env y x) < 0 \<longrightarrow>
            ge_js (maxNftsValue env x) (maxNftsValue env y))"
    by (rule comparePools_sign)
qed

lemma list_all_sortPools: "list_all P (sortPools env ps) = list_all P ps"
  by (simp add: list_all_iff sortPools_def set_sort_cmp)

lemma sortPools_example:
  assumes "toNumber env ''3'' = Finite 3" "toNumber env ''10'' = Finite 10"
    "toNumber env ''1'' = Finite 1"
  shows "map p_maxNftsToBorrow
     (sortPools env [a\<lparr>p_maxNftsToBorrow := ''3''\<rparr>, b\<lparr>p_maxNftsToBorrow := ''10''\<rparr>,
                     c\<lparr>p_maxNftsToBorrow := ''1''\<rparr>]) = [''10'', ''3'', ''1'']"
  by (simp add: sortPools_def sort_cmp_def comparePools_def assms fl_numeral)

text \<open>
  C6, amended. The list that \<^verbatim>\<open>getAllpools\<close> returns is in descending order of the
  numeric value of \<^verbatim>\<open>maxNftsToBorrow\<close>, every earlier pool having a value at least that
  of every later one, whenever none of these values is \<^verbatim>\<open>NaN\<close>; pools with the values 3,
  10, 1 come out as 10, 3, 1.
\<close>

theorem getAllpools_sorted_descending:
  "(getAllpools env chainId collectionAddress ownerAddress skipOracle = (cs, Inr ps) \<and>
    list_all (\<lambda>p. maxNftsValue env p \<noteq> NaN) ps \<longrightarrow>
      sorted_wrt (\<lambda>a b. ge_js (maxNftsValue env a) (maxNftsValue env b)) ps) \<and>
   (toNumber env ''3'' = Finite 3 \<and> toNumber env ''10'' = Finite 10 \<and>
    toNumber env ''1'' = Finite 1 \<longrightarrow>
      map p_maxNftsToBorrow
        (sortPools env [a\<lparr>p_maxNftsToBorrow := ''3''\<rparr>, b\<lparr>p_maxNftsToBorrow := ''10''\<rparr>,
                        c\<lparr>p_maxNftsToBorrow := ''1''\<rparr>]) = [''10'', ''3'', ''1''])"
proof (intro conjI impI)
  assume h: "getAllpools env chainId collectionAddress ownerAddress skipOracle = (cs, Inr ps) \<and>
    list_all (\<lambda>p. maxNftsValue env p \<noteq> NaN) ps"
  from getAllpools_Inr [of env chainId collectionAddress ownerAddress skipOracle cs ps] h
  consider "ps = []" | raw where "ps = sortPools env raw" by blast
  then show "sorted_wrt (\<lambda>a b. ge_js (maxNftsValue env a) (maxNftsValue env b)) ps"
  proof cases
    case 1
    then show ?thesis by simp
  next
    case 2
    with h have "list_all (\<lambda>p. maxNftsValue env p \<noteq> NaN) raw" by (simp add: list_all_sortPools)
    from sortPools_descending [OF this] 2 show ?thesis by simp
  qed
next
  assume "toNumber env ''3'' = Finite 3 \<and> toNumber env ''10'' = Finite 10 \<and>
    toNumber env ''1'' = Finite 1"
  then show "map p_maxNftsToBorrow
        (sortPools env [a\<lparr>p_maxNftsToBorrow := ''3''\<rparr>, b\<lparr>p_maxNftsToBorrow := ''10''\<rparr>,
                        c\<lparr>p_maxNftsToBorrow := ''1''\<rparr>]) = [''10'', ''3'', ''1'']"
    by (intro sortPools_example) simp_all
qed

lemma digits_toNumber_examples:
  "digits_toNumber ''1'' = Finite 1" "digits_toNumber ''3'' = Finite 3"
  "digits_toNumber ''10'' = Finite 10" "digits_toNumber ''NaN'' = NaN"
  by (simp_all add: digits_toNumber_def is_digit_def parse_dec_def digit_val_def fl_numeral)

lemma dec_examples: "dec 1 = ''1''" "dec 3 = ''3''" "dec 10 = ''10''"
  by (simp_all add: dec.simps digit_char_def)

lemma example_borrow_getPoolAddlInfo:
  "snd (getPoolAddlInfo (example_borrow_env m1 m2 m3 miss) a (Provider ''rpc'') n ''quote'' ''33''
          False False)
     = Inr \<lparr> i_collectionName = ''nft'', i_poolBalance = ''7'', i_totalBorrowed = ''5'',
              i_totalDeposited = ''12'', i_pricePerNft = ''0'',
              i_maxNftsToBorrow =
                (if n = miss then ''NaN''
                 else dec (if a = ''0xA1'' then m1 else if a = ''0xA2'' then m2 else m3)),
              i_currentAnnualInterest = 0, i_oracle = ''0x00'',
              i_oraclePrice = (if n = miss then None else Some ''1'') \<rparr>"
  by (simp add: getPoolAddlInfo_def snd_try_catch snd_bind_io snd_both snd_perform snd_resolve
        example_borrow_env_def example_pool_env_def example_env_def plus_toFixed0_dec dec_small
        Let_def)

lemma example_borrow_getAdminPoolInfo:
  "\<exists>info. snd (getAdminPoolInfo (example_borrow_env m1 m2 m3 miss) a (Provider ''rpc'') n ''graph'')
     = Inr info"
  by (simp add: getAdminPoolInfo_def snd_try_catch snd_bind_io snd_both snd_perform snd_resolve
        example_borrow_env_def example_pool_env_def example_env_def Let_def)


lemma example_borrow_getAllpools:
  assumes s: "dec m1 = s1" "dec m2 = s2" "dec m3 = s3"
  shows "\<exists>r1 r2 r3.
     snd (getAllpools (example_borrow_env m1 m2 m3 miss) (Some 1) None None False)
       = Inr (sortPools (example_borrow_env m1 m2 m3 miss) [r1, r2, r3]) \<and>
     p_maxNftsToBorrow r1 = (if ''0xB1'' = miss then ''NaN'' else s1) \<and>
     p_maxNftsToBorrow r2 = (if ''0xB2'' = miss then ''NaN'' else s2) \<and>
     p_maxNftsToBorrow r3 = (if ''0xB3'' = miss then ''NaN'' else s3)"
proof -
  let ?E = "example_borrow_env m1 m2 m3 miss"
  let ?P = "Provider ''rpc''"
  obtain i1 where i1: "snd (getAdminPoolInfo ?E ''0xA1'' ?P ''0xB1'' ''graph'') = Inr i1"
    using example_borrow_getAdminPoolInfo by blast
  obtain i2 where i2: "snd (getAdminPoolInfo ?E ''0xA2'' ?P ''0xB2'' ''graph'') = Inr i2"
    using example_borrow_getAdminPoolInfo by blast
  obtain i3 where i3: "snd (getAdminPoolInfo ?E ''0xA3'' ?P ''0xB3'' ''graph'') = Inr i3"
    using example_borrow_getAdminPoolInfo by blast
  obtain a1 where a1: "snd (getPoolAddlInfo ?E ''0xA1'' ?P ''0xB1'' ''quote'' ''33'' False False)
      = Inr a1" "i_maxNftsToBorrow a1 = (if ''0xB1'' = miss then ''NaN'' else s1)"
    using example_borrow_getPoolAddlInfo [of m1 m2 m3 miss "''0xA1''" "''0xB1''"] s by simp
  obtain a2 where a2: "snd (getPoolAddlInfo ?E ''0xA2'' ?P ''0xB2'' ''quote'' ''33'' False False)
      = Inr a2" "i_maxNftsToBorrow a2 = (if ''0xB2'' = miss then ''NaN'' else s2)"
    using example_borrow_getPoolAddlInfo [of m1 m2 m3 miss "''0xA2''" "''0xB2''"] s by simp
  obtain a3 where a3: "snd (getPoolAddlInfo ?E ''0xA3'' ?P ''0xB3'' ''quote'' ''33'' False False)
      = Inr a3" "i_maxNftsToBorrow a3 = (if ''0xB3'' = miss then ''NaN'' else s3)"
    using example_borrow_getPoolAddlInfo [of m1 m2 m3 miss "''0xA3''" "''0xB3''"] s by simp
  have c: "chainConfig ?E (Some 1) =
      \<lparr> chainProvider = Some ?P, quoteApi = ''quote'', subgraphUrl = ''graph'',
        isTestnet = False \<rparr>"
    "request_pools ?E = (\<lambda>e q. Inr example_rows)"
    "getAddress ?E = Inr"
    by (simp_all add: example_borrow_env_def example_pool_env_def example_env_def)
  have u: "[0..<3] = [0, 1, 2]" by (simp add: upt_rec)
  have infos: "snd (promise_all
         (map (\<lambda>pool. getPoolAddlInfo ?E (q_address pool) ?P (q_nftContract pool)
                  ''quote'' (q_ltv pool) False False) example_rows)) = Inr [a1, a2, a3]"
    by (simp add: example_rows_def example_row_def snd_promise_all_Cons snd_promise_all_Nil
          a1 a2 a3 del: promise_all.simps)
  have admins: "snd (promise_all
         (map (\<lambda>pool. getAdminPoolInfo ?E (q_address pool) ?P (q_nftContract pool)
                  ''graph'') example_rows)) = Inr [i1, i2, i3]"
    by (simp add: example_rows_def example_row_def snd_promise_all_Cons snd_promise_all_Nil
          i1 i2 i3 del: promise_all.simps)
  have len: "length example_rows = 3" by (simp add: example_rows_def)
  define row where "row = (\<lambda>i. example_rows ! i)"
  have z: "zip [0, Suc 0, 2] example_rows = [(0, row 0), (Suc 0, row (Suc 0)), (2, row 2)]"
    by (simp add: example_rows_def row_def)
  define r where "r = (\<lambda>i. case toPool ?E [a1, a2, a3] [i1, i2, i3] (i, row i) of
                                Inr p \<Rightarrow> p | Inl e \<Rightarrow> undefined)"
  have t: "toPool ?E [a1, a2, a3] [i1, i2, i3] (i, row i) = Inr (r i)" for i
    by (simp add: r_def toPool_def c Let_def)
  have g: "snd (getAllpools ?E (Some 1) None None False) = Inr (sortPools ?E [r 0, r (Suc 0), r 2])"
    by (simp add: getAllpools_def snd_try_catch snd_bind_io snd_perform snd_resolve c infos admins
          len u z t Let_def)
  have m: "p_maxNftsToBorrow (r 0) = i_maxNftsToBorrow a1"
    "p_maxNftsToBorrow (r (Suc 0)) = i_maxNftsToBorrow a2"
    "p_maxNftsToBorrow (r 2) = i_maxNftsToBorrow a3"
    by (simp_all add: r_def toPool_def c at_index_def Let_def)
  show ?thesis
    by (rule exI [of _ "r 0"], rule exI [of _ "r (Suc 0)"], rule exI [of _ "r 2"])
       (simp only: g m a1(2) a2(2) a3(2) simp_thms)
qed


lemma toNumber_example_borrow_env [simp]:
  "toNumber (example_borrow_env m1 m2 m3 miss) = digits_toNumber"
  by (simp add: example_borrow_env_def example_pool_env_def example_env_def)

text \<open>
  C6, as stated, fails: of three pools that the indexer gives in this order, the first
  may lend 3, the second belongs to a collection without a price, so that its
  \<^verbatim>\<open>maxNftsToBorrow\<close> is \<^verbatim>\<open>'NaN'\<close>, and the third may lend 10. \<^verbatim>\<open>getAllpools\<close> returns
  them in this very order, the pool of 3 before the pool of 10.
\<close>

theorem getAllpools_nan_counterexample:
  "\<exists>ps. snd (getAllpools (example_borrow_env 3 7 10 ''0xB2'') (Some 1) None None False) = Inr ps \<and>
     map p_maxNftsToBorrow ps = [''3'', ''NaN'', ''10''] \<and>
     map (maxNftsValue (example_borrow_env 3 7 10 ''0xB2'')) ps = [Finite 3, NaN, Finite 10] \<and>
     \<not> ge_js (Finite 3) NaN \<and> \<not> ge_js NaN (Finite 10) \<and> \<not> ge_js (Finite 3) (Finite 10) \<and>
     \<not> sorted_wrt (\<lambda>a b. ge_js (maxNftsValue (example_borrow_env 3 7 10 ''0xB2'') a)
                           (maxNftsValue (example_borrow_env 3 7 10 ''0xB2'') b)) ps"
proof -
  let ?N = "example_borrow_env 3 7 10 ''0xB2''"
  have d: "dec 3 = ''3''" "dec 7 = ''7''" "dec 10 = ''10''"
    by (simp_all add: dec.simps digit_char_def)
  have "\<exists>r1 r2 r3.
      snd (getAllpools ?N (Some 1) None None False) = Inr (sortPools ?N [r1, r2, r3]) \<and>
      p_maxNftsToBorrow r1 = ''3'' \<and> p_maxNftsToBorrow r2 = ''NaN'' \<and>
      p_maxNftsToBorrow r3 = ''10''"
    using example_borrow_getAllpools [where miss = "''0xB2''", OF d] by simp
  then obtain r1 r2 r3 where
    g: "snd (getAllpools ?N (Some 1) None None False) = Inr (sortPools ?N [r1, r2, r3])"
    and m: "p_maxNftsToBorrow r1 = ''3''" "p_maxNftsToBorrow r2 = ''NaN''"
      "p_maxNftsToBorrow r3 = ''10''"
    by blast
  have s: "sortPools ?N [r1, r2, r3] = [r1, r2, r3]"
    by (simp add: sortPools_def sort_cmp_def comparePools_def m digits_toNumber_examples)
  have v: "map (maxNftsValue ?N) [r1, r2, r3] = [Finite 3, NaN, Finite 10]"
    by (simp add: maxNftsValue_def m digits_toNumber_examples)
  have n: "\<not> sorted_wrt (\<lambda>a b. ge_js (maxNftsValue ?N a) (maxNftsValue ?N b)) [r1, r2, r3]"
    by (simp add: maxNftsValue_def m digits_toNumber_examples)
  have p: "map p_maxNftsToBorrow [r1, r2, r3] = [''3'', ''NaN'', ''10'']" by (simp add: m)
  have f: "\<not> ge_js (Finite 3) NaN" "\<not> ge_js NaN (Finite 10)" "\<not> ge_js (Finite 3) (Finite 10)"
    by simp_all
  from g s have g': "snd (getAllpools ?N (Some 1) None None False) = Inr [r1, r2, r3]" by simp
  show ?thesis
    by (rule exI [of _ "[r1, r2, r3]"]) (simp only: g' p v f n simp_thms)
qed


theorem getAllpools_sorted_descending_witness:
  "(\<exists>ps. snd (getAllpools (example_borrow_env 3 10 1 ''none'') (Some 1) None None False) = Inr ps \<and>
      map p_maxNftsToBorrow ps = [''10'', ''3'', ''1''] \<and>
      map (maxNftsValue (example_borrow_env 3 10 1 ''none'')) ps = [Finite 10, Finite 3, Finite 1] \<and>
      list_all (\<lambda>p. maxNftsValue (example_borrow_env 3 10 1 ''none'') p \<noteq> NaN) ps \<and>
      sorted_wrt (\<lambda>a b. ge_js (maxNftsValue (example_borrow_env 3 10 1 ''none'') a)
                          (maxNftsValue (example_borrow_env 3 10 1 ''none'') b)) ps) \<and>
   toNumber example_env ''3'' = Finite 3 \<and> toNumber example_env ''10'' = Finite 10 \<and>
   toNumber example_env ''1'' = Finite 1 \<and>
   map p_maxNftsToBorrow
     (sortPools example_env
        [example_pool\<lparr>p_maxNftsToBorrow := ''3''\<rparr>, example_pool\<lparr>p_maxNftsToBorrow := ''10''\<rparr>,
         example_pool\<lparr>p_maxNftsToBorrow := ''1''\<rparr>]) = [''10'', ''3'', ''1'']"
proof -
  let ?W = "example_borrow_env 3 10 (Suc 0) ''none''"
  let ?m = "getAllpools ?W (Some 1) None None False"
  have d: "dec 3 = ''3''" "dec 10 = ''10''" "dec (Suc 0) = ''1''"
    by (simp_all add: dec.simps digit_char_def)
  have "\<exists>r1 r2 r3. snd ?m = Inr (sortPools ?W [r1, r2, r3]) \<and>
      p_maxNftsToBorrow r1 = ''3'' \<and> p_maxNftsToBorrow r2 = ''10'' \<and>
      p_maxNftsToBorrow r3 = ''1''"
    using example_borrow_getAllpools [where miss = "''none''", OF d] by simp
  then obtain r1 r2 r3 where
    g: "snd ?m = Inr (sortPools ?W [r1, r2, r3])"
    and m: "p_maxNftsToBorrow r1 = ''3''" "p_maxNftsToBorrow r2 = ''10''"
      "p_maxNftsToBorrow r3 = ''1''"
    by blast
  have s: "sortPools ?W [r1, r2, r3] = [r2, r1, r3]"
    by (simp add: sortPools_def sort_cmp_def comparePools_def m digits_toNumber_examples
          fl_numeral)
  have g': "?m = (fst ?m, Inr [r2, r1, r3])" using g s by (metis prod.collapse)
  have v: "map (maxNftsValue ?W) [r2, r1, r3] = [Finite 10, Finite 3, Finite 1]"
    by (simp add: maxNftsValue_def m digits_toNumber_examples)
  have a: "list_all (\<lambda>p. maxNftsValue ?W p \<noteq> NaN) [r2, r1, r3]"
    by (simp add: maxNftsValue_def m digits_toNumber_examples)
  have t: "toNumber example_env ''3'' = Finite 3 \<and> toNumber example_env ''10'' = Finite 10 \<and>
      toNumber example_env ''1'' = Finite 1"
    by (simp add: example_env_def digits_toNumber_examples)
  note w = getAllpools_sorted_descending
      [where env = ?W and chainId = "Some 1" and collectionAddress = None
        and ownerAddress = None and skipOracle = False and cs = "fst ?m" and ps = "[r2, r1, r3]"]
  note w2 = getAllpools_sorted_descending
      [where env = example_env and a = example_pool and b = example_pool and c = example_pool]
  have sd: "sorted_wrt (\<lambda>a b. ge_js (maxNftsValue ?W a) (maxNftsValue ?W b)) [r2, r1, r3]"
    by (rule w [THEN conjunct1, rule_format, OF conjI [OF g' a]])
  have e: "map p_maxNftsToBorrow
     (sortPools example_env
        [example_pool\<lparr>p_maxNftsToBorrow := ''3''\<rparr>, example_pool\<lparr>p_maxNftsToBorrow := ''10''\<rparr>,
         example_pool\<lparr>p_maxNftsToBorrow := ''1''\<rparr>]) = [''10'', ''3'', ''1'']"
    by (rule w2 [THEN conjunct2, rule_format, OF t])
  have x: "\<exists>ps. snd ?m = Inr ps \<and>
      map p_maxNftsToBorrow ps = [''10'', ''3'', ''1''] \<and>
      map (maxNftsValue ?W) ps = [Finite 10, Finite 3, Finite 1] \<and>
      list_all (\<lambda>p. maxNftsValue ?W p \<noteq> NaN) ps \<and>
      sorted_wrt (\<lambda>a b. ge_js (maxNftsValue ?W a) (maxNftsValue ?W b)) ps"
  proof -
    have p: "map p_maxNftsToBorrow [r2, r1, r3] = [''10'', ''3'', ''1'']" by (simp add: m)
    from g s have "snd ?m = Inr [r2, r1, r3]" by simp
    with p v a sd show ?thesis
      by (intro exI [of _ "[r2, r1, r3]"]) (simp only: simp_thms)
  qed
  from x t e show ?thesis by (simp only: One_nat_def simp_thms)
qed

subsection \<open>The key of the admin info\<close>

lemma dec_digit: "n < 10 \<Longrightarrow> dec n = [digit_char n]"
  by (subst dec.simps) simp

lemma dec_two_digits:
  "dec 12 = ''12''" "dec 23 = ''23''" "dec 1 = ''1''" "dec (Suc 0) = ''1''" "dec 3 = ''3''"
  by (simp_all add: dec.simps digit_char_def)

lemma example_key_getAdminPoolInfo:
  "snd (getAdminPoolInfo (example_key_env mp mi) ''0xAA'' (Provider ''rpc'') ''0xBB'' ''graph'')
     = Inr (adminPoolInfo example_env
              (example_reads \<lparr> r_maxPrice := mp,
                 r_daily := \<lparr> d_maxInstantBorrow = mi, d_dailyBorrows = 0,
                              d_maxDailyBorrowsLimit = 0 \<rparr> \<rparr>))"
  by (simp add: getAdminPoolInfo_def snd_try_catch snd_bind_io snd_both snd_perform snd_resolve
        example_key_env_def example_env_def example_reads_def adminPoolInfo_def keyParts_def
        Let_def)

text \<open>
  C1, as stated, fails: with \<^verbatim>\<open>maxPrice\<close> 1 and \<^verbatim>\<open>maxInstantBorrow\<close> 23 the admin
  enrichment returns the same key as with 12 and 3, and the two records differ in
  \<^verbatim>\<open>maxPrice\<close>: the parts of the key are joined without a separator.
\<close>

theorem adminPoolInfo_key_counterexample:
  "snd (getAdminPoolInfo (example_key_env 1 23) ''0xAA'' (Provider ''rpc'') ''0xBB'' ''graph'')
     = Inr (adminPoolInfo example_env example_reads) \<and>
   snd (getAdminPoolInfo (example_key_env 12 3) ''0xAA'' (Provider ''rpc'') ''0xBB'' ''graph'')
     = Inr (adminPoolInfo example_env
              (example_reads \<lparr> r_maxPrice := 12,
                 r_daily := \<lparr> d_maxInstantBorrow = 3, d_dailyBorrows = 0,
                              d_maxDailyBorrowsLimit = 0 \<rparr> \<rparr>)) \<and>
   a_key (adminPoolInfo example_env example_reads) = ''0xBB0xAA123000000'' \<and>
   a_key (adminPoolInfo example_env
            (example_reads \<lparr> r_maxPrice := 12,
               r_daily := \<lparr> d_maxInstantBorrow = 3, d_dailyBorrows = 0,
                            d_maxDailyBorrowsLimit = 0 \<rparr> \<rparr>)) = ''0xBB0xAA123000000'' \<and>
   a_maxPrice (adminPoolInfo example_env example_reads) = 1 \<and>
   a_maxPrice (adminPoolInfo example_env
            (example_reads \<lparr> r_maxPrice := 12,
               r_daily := \<lparr> d_maxInstantBorrow = 3, d_dailyBorrows = 0,
                            d_maxDailyBorrowsLimit = 0 \<rparr> \<rparr>)) = 12"
proof -
  have "example_reads = example_reads \<lparr> r_maxPrice := 1,
                 r_daily := \<lparr> d_maxInstantBorrow = 23, d_dailyBorrows = 0,
                              d_maxDailyBorrowsLimit = 0 \<rparr> \<rparr>"
    by (simp add: example_reads_def)
  with example_key_getAdminPoolInfo [of 1 23]
  have 1: "snd (getAdminPoolInfo (example_key_env 1 23) ''0xAA'' (Provider ''rpc'') ''0xBB'' ''graph'')
     = Inr (adminPoolInfo example_env example_reads)" by simp
  have 2: "a_key (adminPoolInfo example_env example_reads) = ''0xBB0xAA123000000''"
    "a_key (adminPoolInfo example_env
            (example_reads \<lparr> r_maxPrice := 12,
               r_daily := \<lparr> d_maxInstantBorrow = 3, d_dailyBorrows = 0,
                            d_maxDailyBorrowsLimit = 0 \<rparr> \<rparr>)) = ''0xBB0xAA123000000''"
    by (simp_all add: adminPoolInfo_def keyParts_def example_reads_def example_env_def
          dec_two_digits dec_small Let_def)
  have 3: "a_maxPrice (adminPoolInfo example_env example_reads) = 1"
    "a_maxPrice (adminPoolInfo example_env
            (example_reads \<lparr> r_maxPrice := 12,
               r_daily := \<lparr> d_maxInstantBorrow = 3, d_dailyBorrows = 0,
                            d_maxDailyBorrowsLimit = 0 \<rparr> \<rparr>)) = 12"
    by (simp_all add: adminPoolInfo_def example_reads_def Number_def fl_numeral Let_def)
  from 1 2 3 example_key_getAdminPoolInfo [of 12 3] show ?thesis by blast
qed


lemma concat_aligned:
  "map length xs = map length ys \<Longrightarrow> concat xs = concat ys \<Longrightarrow> xs = ys"
proof (induction xs arbitrary: ys)
  case Nil
  then show ?case by simp
next
  case (Cons x xs)
  then obtain y ys' where ys: "ys = y # ys'" by (cases ys) auto
  with Cons.prems have "length x = length y" and l: "map length xs = map length ys'"
    and "x @ concat xs = y @ concat ys'"
    by simp_all
  then have "x = y" and "concat xs = concat ys'" by simp_all
  with Cons.IH [OF l] ys show ?case by simp
qed

text \<open>
  The key holds \<^verbatim>\<open>maxLoanLength\<close> twice and the oracle not at all: two reads that differ
  in the oracle alone give the same key.
\<close>

theorem adminPoolInfo_key_ignores_oracle:
  "a_key (adminPoolInfo env (r\<lparr>r_oracle := oracle\<rparr>)) = a_key (adminPoolInfo env r)"
  by (simp add: adminPoolInfo_def keyParts_def Let_def)

lemma getAdminPoolInfo_Inr:
  "getAdminPoolInfo env poolAddress prov nftContractAddress ep = (cs, Inr info) \<Longrightarrow>
     \<exists>r liquidators. info = adminPoolInfo env r \<and> r_nftContractAddress r = nftContractAddress \<and>
         r_poolAddress r = poolAddress \<and>
         request_pool_liquidators env ep (PoolLiquidatorsQuery (toLowerCase poolAddress))
           = Inr liquidators \<and>
         map_result (getAddress env) liquidators = Inr (r_liqAddresses r)"
  by (auto simp: getAdminPoolInfo_def try_catch_Inr bind_io_Inr both_Inr perform_def
        case_result_Inr Let_def split: prod.splits)

text \<open>
  C1, amended. A record of the admin enrichment is built from its two address arguments
  and its reads; when two such records have equal keys and the parts of the two keys have
  the same lengths, one by one, the two records were built for the same collection and
  pool and agree in \<^verbatim>\<open>maxPrice\<close>, \<^verbatim>\<open>maxInstantBorrow\<close>, \<^verbatim>\<open>dailyBorrows\<close>,
  \<^verbatim>\<open>maxDailyBorrows\<close>, \<^verbatim>\<open>maxLoanLength\<close>, \<^verbatim>\<open>minimumInterest\<close>, \<^verbatim>\<open>maximumInterest\<close>
  and \<^verbatim>\<open>liquidators\<close>.
\<close>

theorem adminPoolInfo_key_aligned:
  "(getAdminPoolInfo env poolAddress prov nftContractAddress ep = (cs, Inr info) \<longrightarrow>
      (\<exists>r. info = adminPoolInfo env r \<and> r_nftContractAddress r = nftContractAddress \<and>
           r_poolAddress r = poolAddress)) \<and>
   (a_key (adminPoolInfo env1 r1) = a_key (adminPoolInfo env2 r2) \<and>
    map length (keyParts env1 r1) = map length (keyParts env2 r2) \<and>
    sumFixed env1 = sumFixed env2 \<longrightarrow>
      r_nftContractAddress r1 = r_nftContractAddress r2 \<and>
      r_poolAddress r1 = r_poolAddress r2 \<and>
      a_maxPrice (adminPoolInfo env1 r1) = a_maxPrice (adminPoolInfo env2 r2) \<and>
      a_maxInstantBorrow (adminPoolInfo env1 r1) = a_maxInstantBorrow (adminPoolInfo env2 r2) \<and>
      a_dailyBorrows (adminPoolInfo env1 r1) = a_dailyBorrows (adminPoolInfo env2 r2) \<and>
      a_maxDailyBorrows (adminPoolInfo env1 r1) = a_maxDailyBorrows (adminPoolInfo env2 r2) \<and>
      a_maxLoanLength (adminPoolInfo env1 r1) = a_maxLoanLength (adminPoolInfo env2 r2) \<and>
      a_minimumInterest (adminPoolInfo env1 r1) = a_minimumInterest (adminPoolInfo env2 r2) \<and>
      a_maximumInterest (adminPoolInfo env1 r1) = a_maximumInterest (adminPoolInfo env2 r2) \<and>
      a_liquidators (adminPoolInfo env1 r1) = a_liquidators (adminPoolInfo env2 r2))"
proof (intro conjI impI)
  assume "getAdminPoolInfo env poolAddress prov nftContractAddress ep = (cs, Inr info)"
  from getAdminPoolInfo_Inr [OF this]
  show "\<exists>r. info = adminPoolInfo env r \<and> r_nftContractAddress r = nftContractAddress \<and>
           r_poolAddress r = poolAddress"
    by blast
next
  assume h: "a_key (adminPoolInfo env1 r1) = a_key (adminPoolInfo env2 r2) \<and>
    map length (keyParts env1 r1) = map length (keyParts env2 r2) \<and>
    sumFixed env1 = sumFixed env2"
  then have "concat (keyParts env1 r1) = concat (keyParts env2 r2)"
    by (simp add: adminPoolInfo_def Let_def)
  with h have "keyParts env1 r1 = keyParts env2 r2" by (simp add: concat_aligned)
  then have parts:
    "r_nftContractAddress r1 = r_nftContractAddress r2"
    "r_poolAddress r1 = r_poolAddress r2"
    "r_maxPrice r1 = r_maxPrice r2"
    "d_maxInstantBorrow (r_daily r1) = d_maxInstantBorrow (r_daily r2)"
    "d_dailyBorrows (r_daily r1) = d_dailyBorrows (r_daily r2)"
    "d_maxDailyBorrowsLimit (r_daily r1) = d_maxDailyBorrowsLimit (r_daily r2)"
    "r_maxLoanLength r1 = r_maxLoanLength r2"
    "annualRate env1 (r_minimumInterest r1) = annualRate env2 (r_minimumInterest r2)"
    "annualRate env1 (r_maxVariableInterestPerEthPerSecond r1)
       = annualRate env2 (r_maxVariableInterestPerEthPerSecond r2)"
    "r_liqAddresses r1 = r_liqAddresses r2"
    by (auto simp: keyParts_def dest: dec_inject)
  from h have s: "sumFixed env1 = sumFixed env2" by simp
  show "r_nftContractAddress r1 = r_nftContractAddress r2" by (rule parts)
  show "r_poolAddress r1 = r_poolAddress r2" by (rule parts)
  show "a_maxPrice (adminPoolInfo env1 r1) = a_maxPrice (adminPoolInfo env2 r2)"
    by (simp add: adminPoolInfo_def parts Let_def)
  show "a_maxInstantBorrow (adminPoolInfo env1 r1) = a_maxInstantBorrow (adminPoolInfo env2 r2)"
    by (simp add: adminPoolInfo_def parts Let_def)
  show "a_dailyBorrows (adminPoolInfo env1 r1) = a_dailyBorrows (adminPoolInfo env2 r2)"
    by (simp add: adminPoolInfo_def parts Let_def)
  show "a_maxDailyBorrows (adminPoolInfo env1 r1) = a_maxDailyBorrows (adminPoolInfo env2 r2)"
    by (simp add: adminPoolInfo_def parts Let_def)
  show "a_maxLoanLength (adminPoolInfo env1 r1) = a_maxLoanLength (adminPoolInfo env2 r2)"
    by (simp add: adminPoolInfo_def parts Let_def)
  show "a_minimumInterest (adminPoolInfo env1 r1) = a_minimumInterest (adminPoolInfo env2 r2)"
    by (simp add: adminPoolInfo_def parts Let_def)
  show "a_maximumInterest (adminPoolInfo env1 r1) = a_maximumInterest (adminPoolInfo env2 r2)"
    by (simp add: adminPoolInfo_def parts s Let_def)
  show "a_liquidators (adminPoolInfo env1 r1) = a_liquidators (adminPoolInfo env2 r2)"
    by (simp add: adminPoolInfo_def parts Let_def)
qed


theorem adminPoolInfo_key_aligned_witness:
  "snd (getAdminPoolInfo (example_key_env 1 23) ''0xAA'' (Provider ''rpc'') ''0xBB'' ''graph'')
     = Inr (adminPoolInfo example_env example_reads) \<and>
   a_key (adminPoolInfo example_env example_reads)
     = a_key (adminPoolInfo example_env (example_reads\<lparr>r_oracle := ''0x11''\<rparr>)) \<and>
   map length (keyParts example_env example_reads)
     = map length (keyParts example_env (example_reads\<lparr>r_oracle := ''0x11''\<rparr>)) \<and>
   a_maxPrice (adminPoolInfo example_env example_reads)
     = a_maxPrice (adminPoolInfo example_env (example_reads\<lparr>r_oracle := ''0x11''\<rparr>)) \<and>
   a_maxInstantBorrow (adminPoolInfo example_env example_reads)
     = a_maxInstantBorrow (adminPoolInfo example_env (example_reads\<lparr>r_oracle := ''0x11''\<rparr>)) \<and>
   a_oracle (adminPoolInfo example_env example_reads)
     \<noteq> a_oracle (adminPoolInfo example_env (example_reads\<lparr>r_oracle := ''0x11''\<rparr>))"
proof -
  let ?r2 = "example_reads\<lparr>r_oracle := ''0x11''\<rparr>"
  let ?m = "getAdminPoolInfo (example_key_env 1 23) ''0xAA'' (Provider ''rpc'') ''0xBB'' ''graph''"
  have e: "example_reads = example_reads \<lparr> r_maxPrice := 1,
                 r_daily := \<lparr> d_maxInstantBorrow = 23, d_dailyBorrows = 0,
                              d_maxDailyBorrowsLimit = 0 \<rparr> \<rparr>"
    by (simp add: example_reads_def)
  have g: "snd ?m = Inr (adminPoolInfo example_env example_reads)"
    using example_key_getAdminPoolInfo [of 1 23] e by simp
  then have g': "?m = (fst ?m, Inr (adminPoolInfo example_env example_reads))"
    by (metis prod.collapse)
  note w = adminPoolInfo_key_aligned
      [where env = "example_key_env 1 23" and poolAddress = "''0xAA''"
        and prov = "Provider ''rpc''" and nftContractAddress = "''0xBB''" and ep = "''graph''"
        and cs = "fst ?m" and info = "adminPoolInfo example_env example_reads"
        and ?env1.0 = example_env and ?env2.0 = example_env and ?r1.0 = example_reads
        and ?r2.0 = ?r2]
  have k: "a_key (adminPoolInfo example_env example_reads) = a_key (adminPoolInfo example_env ?r2)"
    by (simp add: adminPoolInfo_def keyParts_def Let_def)
  have l: "map length (keyParts example_env example_reads)
     = map length (keyParts example_env ?r2)"
    by (simp add: keyParts_def)
  have o: "a_oracle (adminPoolInfo example_env example_reads)
     \<noteq> a_oracle (adminPoolInfo example_env ?r2)"
    by (simp add: adminPoolInfo_def example_reads_def Let_def)
  from w g' k l have "a_maxPrice (adminPoolInfo example_env example_reads)
     = a_maxPrice (adminPoolInfo example_env ?r2) \<and>
   a_maxInstantBorrow (adminPoolInfo example_env example_reads)
     = a_maxInstantBorrow (adminPoolInfo example_env ?r2)"
    by blast
  with g k l o show ?thesis by blast
qed

subsection \<open>Addresses\<close>

lemma toLoan_addresses:
  "toLoan env testnet loan = Inr l \<Longrightarrow>
     l_owner l = g_owner loan \<and>
     pool_owner (l_pool l) = pool_owner (g_pool loan) \<and>
     getAddress env (pool_address (g_pool loan)) = Inr (pool_address (l_pool l))"
  by (auto simp: toLoan_def split: sum.splits)

lemma toPool_addresses:
  "toPool env infos admins (i, pool) = Inr p \<Longrightarrow>
     getAddress env (q_address pool) = Inr (p_address p) \<and>
     getAddress env (q_owner pool) = Inr (p_owner p) \<and>
     getAddress env (q_nftContract pool) = Inr (p_nftContract p)"
  by (auto simp: toPool_def Let_def split: sum.splits)

text \<open>
  C5, at a loan whose owner the indexer gives in lower case: \<^verbatim>\<open>getLoans\<close> returns the
  owner as it came, although the address library would turn it into the checksummed
  form.
\<close>

theorem getLoans_owner_not_normalized:
  "map_sum id (map l_owner)
     (snd (getLoans example_checksum_env ''graph''
             (Some ''0xAb5801a7D398351b8bE11C439e05C5B3259aeC9B'') None False))
     = Inr [''0xab5801a7d398351b8be11c439e05c5b3259aec9b''] \<and>
   getAddress example_checksum_env ''0xab5801a7d398351b8be11c439e05c5b3259aec9b''
     = Inr ''0xAb5801a7D398351b8bE11C439e05C5B3259aeC9B''"
  by (simp add: getLoans_def snd_try_catch snd_bind_io snd_perform snd_resolve
        example_checksum_env_def example_env_def toLoan_def example_late_def sortLoans_def
        sort_cmp_def Let_def)


text \<open>
  The addresses that do pass through \<^verbatim>\<open>getAddress\<close>: address, owner and NFT contract
  of a returned pool, the pool address of a returned loan, and the liquidators of the
  admin info.
\<close>

theorem returned_addresses_normalized:
  "(toPool env infos admins (i, pool) = Inr p \<longrightarrow>
      getAddress env (q_address pool) = Inr (p_address p) \<and>
      getAddress env (q_owner pool) = Inr (p_owner p) \<and>
      getAddress env (q_nftContract pool) = Inr (p_nftContract p)) \<and>
   (toLoan env testnet loan = Inr l \<longrightarrow>
      getAddress env (pool_address (g_pool loan)) = Inr (pool_address (l_pool l))) \<and>
   (getAdminPoolInfo env poolAddress prov nftContractAddress ep = (cs, Inr info) \<longrightarrow>
      (\<exists>liquidators.
         request_pool_liquidators env ep (PoolLiquidatorsQuery (toLowerCase poolAddress))
           = Inr liquidators \<and>
         map_result (getAddress env) liquidators = Inr (a_liquidators info)))"
proof (intro conjI impI)
  assume "toPool env infos admins (i, pool) = Inr p"
  from toPool_addresses [OF this]
  show "getAddress env (q_address pool) = Inr (p_address p)"
    "getAddress env (q_owner pool) = Inr (p_owner p)"
    "getAddress env (q_nftContract pool) = Inr (p_nftContract p)"
    by simp_all
next
  assume "toLoan env testnet loan = Inr l"
  from toLoan_addresses [OF this]
  show "getAddress env (pool_address (g_pool loan)) = Inr (pool_address (l_pool l))" by simp
next
  assume "getAdminPoolInfo env poolAddress prov nftContractAddress ep = (cs, Inr info)"
  from getAdminPoolInfo_Inr [OF this]
  show "\<exists>liquidators.
         request_pool_liquidators env ep (PoolLiquidatorsQuery (toLowerCase poolAddress))
           = Inr liquidators \<and>
         map_result (getAddress env) liquidators = Inr (a_liquidators info)"
    by (auto simp: adminPoolInfo_def Let_def)
qed

lemma example_checksum_toLoan:
  "toLoan example_checksum_env False
     (example_late\<lparr>g_pool := \<lparr> pool_name = ''p'', pool_owner = ''0xcd'',
         pool_address = ''0xab5801a7d398351b8be11c439e05c5b3259aec9b'' \<rparr>\<rparr>)
   = Inr (example_liquidatable
            \<lparr>l_toPay := infoToRepayLoan 3000000
                (example_late\<lparr>g_pool := \<lparr> pool_name = ''p'', pool_owner = ''0xcd'',
                   pool_address = ''0xab5801a7d398351b8be11c439e05c5b3259aec9b'' \<rparr>\<rparr>),
              l_pool := \<lparr> pool_name = ''p'', pool_owner = ''0xcd'',
                 pool_address = ''0xAb5801a7D398351b8bE11C439e05C5B3259aeC9B'' \<rparr>\<rparr>)"
  by (simp add: toLoan_def example_checksum_env_def example_env_def example_late_def
        example_liquidatable_def)

theorem returned_addresses_normalized_witness:
  "toPool example_pool_env [] [] (0, example_row) =
     Inr (example_pool \<lparr> p_collectionName := [], p_poolBalance := ''0'', p_totalBorrowed := ''0'',
            p_totalDeposited := ''0'', p_oracle := [], p_adminPoolInfo := None \<rparr>) \<and>
   getAddress example_pool_env (q_address example_row) = Inr ''0xAA'' \<and>
   getAddress example_checksum_env ''0xab5801a7d398351b8be11c439e05c5b3259aec9b''
     = Inr ''0xAb5801a7D398351b8bE11C439e05C5B3259aeC9B'' \<and>
   snd (getAdminPoolInfo (example_key_env 1 23) ''0xAA'' (Provider ''rpc'') ''0xBB'' ''graph'')
     = Inr (adminPoolInfo example_env example_reads) \<and>
   map_result (getAddress (example_key_env 1 23)) [] = Inr []"
proof -
  let ?q = "example_pool \<lparr> p_collectionName := [], p_poolBalance := ''0'',
              p_totalBorrowed := ''0'', p_totalDeposited := ''0'', p_oracle := [],
              p_adminPoolInfo := None \<rparr>"
  let ?loan = "example_late\<lparr>g_pool := \<lparr> pool_name = ''p'', pool_owner = ''0xcd'',
         pool_address = ''0xab5801a7d398351b8be11c439e05c5b3259aec9b'' \<rparr>\<rparr>"
  let ?l = "example_liquidatable
            \<lparr>l_toPay := infoToRepayLoan 3000000 ?loan,
              l_pool := \<lparr> pool_name = ''p'', pool_owner = ''0xcd'',
                 pool_address = ''0xAb5801a7D398351b8bE11C439e05C5B3259aeC9B'' \<rparr>\<rparr>"
  let ?m = "getAdminPoolInfo (example_key_env 1 23) ''0xAA'' (Provider ''rpc'') ''0xBB'' ''graph''"
  have e: "example_reads = example_reads \<lparr> r_maxPrice := 1,
                 r_daily := \<lparr> d_maxInstantBorrow = 23, d_dailyBorrows = 0,
                              d_maxDailyBorrowsLimit = 0 \<rparr> \<rparr>"
    by (simp add: example_reads_def)
  have g: "snd ?m = Inr (adminPoolInfo example_env example_reads)"
    using example_key_getAdminPoolInfo [of 1 23] e by simp
  note w = returned_addresses_normalized
      [where env = example_pool_env and infos = "[]" and admins = "[]" and i = 0
        and pool = example_row and p = ?q]
  note w2 = returned_addresses_normalized
      [where env = example_checksum_env and testnet = False and loan = ?loan and l = ?l]
  have 1: "getAddress example_pool_env (q_address example_row) = Inr (p_address ?q)"
    using w example_toPool by blast
  have 2: "getAddress example_checksum_env (pool_address (g_pool ?loan))
      = Inr (pool_address (l_pool ?l))"
    using w2 example_checksum_toLoan by blast
  from 1 have a1: "getAddress example_pool_env (q_address example_row) = Inr ''0xAA''"
    by (simp add: example_pool_def)
  from 2 have a2: "getAddress example_checksum_env ''0xab5801a7d398351b8be11c439e05c5b3259aec9b''
     = Inr ''0xAb5801a7D398351b8bE11C439e05C5B3259aeC9B''"
    by simp
  have 3: "map_result (getAddress (example_key_env 1 23)) [] = Inr []" by simp
  from example_toPool a1 a2 g 3 show ?thesis by blast
qed

subsection \<open>Chain id 0\<close>

text \<open>The test \<^verbatim>\<open>!chainId\<close> also holds for the chain id 0.\<close>

theorem getAllpools_chainId_zero:
  "getAllpools env (Some 0) collectionAddress ownerAddress skipOracle = ([], Inr [])"
  by (simp add: getAllpools_def try_catch_def resolve_def)


end
